theory Spec2Isabelle
  imports Main "HOL-Library.Word"
begin

unbundle bit_operations_syntax

section \<open>Machine values\<close>

text \<open>
  The reducer of \<^verbatim>\<open>machine-lowering-reducer.h\<close> emits, for one simplified operation, a
  subgraph of machine operations. The embedding gives every \<^verbatim>\<open>Reduce...\<close> method the
  meaning of the subgraph it emits: a function from the run-time values of the operands to
  the run-time result. The static parameters of a method (kind, assumptions, mode) stay
  parameters of the function.

  A tagged value is either a small integer or a reference to a heap object. A 64-bit float
  is its IEEE-754 binary64 bit pattern.
\<close>

datatype Tagged = Smi "32 word" | HeapObject nat

type_synonym float64 = "64 word"

datatype MachineValue =
    Word32 "32 word"
  | Word64 "64 word"
  | Float64 float64
  | TaggedValue Tagged

type_synonym FrameState = nat
type_synonym FeedbackSource = nat

text \<open>
  Modelled from the spec: \<^verbatim>\<open>DeoptimizeReason\<close> is declared in a header that is not among
  the sources. The nine reasons the reducer uses are listed first; the remaining
  constructors stand for reasons of the enumeration that this reducer never uses.
\<close>

datatype DeoptimizeReason =
    kLostPrecision
  | kLostPrecisionOrNaN
  | kMinusZero
  | kNotAHeapNumber
  | kNotANumberOrBoolean
  | kNotANumberOrOddball
  | kNotAString
  | kNotAnArrayIndex
  | kNotASmi
  | kNotABigInt
  | kNotABigInt64
  | kDivisionByZero
  | kHole
  | kNaN
  | kOutOfBounds
  | kOverflow
  | kWrongMap

text \<open>
  The result of running an emitted subgraph: it produces a value, or it leaves optimized
  code through a deoptimization edge that carries the frame state, the reason and the
  feedback source. \<open>Fatal\<close> is the compile-time abort of \<^verbatim>\<open>UNREACHABLE()\<close> and of a failed
  \<^verbatim>\<open>DCHECK\<close>: the request itself is malformed and no subgraph is emitted.
\<close>

datatype 'a Outcome =
    Value 'a
  | Deoptimize FrameState DeoptimizeReason FeedbackSource
  | Fatal

definition DeoptimizeIf ::
  "32 word \<Rightarrow> FrameState \<Rightarrow> DeoptimizeReason \<Rightarrow> FeedbackSource \<Rightarrow> 'a Outcome \<Rightarrow> 'a Outcome" where
  "DeoptimizeIf condition frame_state reason feedback rest =
     (if condition \<noteq> 0 then Deoptimize frame_state reason feedback else rest)"

definition DeoptimizeIfNot ::
  "32 word \<Rightarrow> FrameState \<Rightarrow> DeoptimizeReason \<Rightarrow> FeedbackSource \<Rightarrow> 'a Outcome \<Rightarrow> 'a Outcome" where
  "DeoptimizeIfNot condition frame_state reason feedback rest =
     (if condition = 0 then Deoptimize frame_state reason feedback else rest)"

definition bind_outcome :: "'a Outcome \<Rightarrow> ('a \<Rightarrow> 'b Outcome) \<Rightarrow> 'b Outcome" where
  "bind_outcome m k =
     (case m of Value v \<Rightarrow> k v | Deoptimize fs r fb \<Rightarrow> Deoptimize fs r fb | Fatal \<Rightarrow> Fatal)"

section \<open>Word operations of the assembler\<close>

text \<open>
  Modelled from the spec: the assembler (\<^verbatim>\<open>assembler.h\<close>) is not among the sources; its
  word operations are the usual fixed-width ones. A comparison yields the 32-bit word 1 or
  0, and a branch is taken when its condition is not 0.
\<close>

definition Word32Equal :: "32 word \<Rightarrow> 32 word \<Rightarrow> 32 word" where
  "Word32Equal a b = (if a = b then 1 else 0)"

definition Word64Equal :: "64 word \<Rightarrow> 64 word \<Rightarrow> 32 word" where
  "Word64Equal a b = (if a = b then 1 else 0)"

definition Int32LessThan :: "32 word \<Rightarrow> 32 word \<Rightarrow> 32 word" where
  "Int32LessThan a b = (if sint a < sint b then 1 else 0)"

definition Int64LessThan :: "64 word \<Rightarrow> 64 word \<Rightarrow> 32 word" where
  "Int64LessThan a b = (if sint a < sint b then 1 else 0)"

definition Uint32LessThan :: "32 word \<Rightarrow> 32 word \<Rightarrow> 32 word" where
  "Uint32LessThan a b = (if a < b then 1 else 0)"

definition Uint32LessThanOrEqual :: "32 word \<Rightarrow> 32 word \<Rightarrow> 32 word" where
  "Uint32LessThanOrEqual a b = (if a \<le> b then 1 else 0)"

definition Uint64LessThanOrEqual :: "64 word \<Rightarrow> 64 word \<Rightarrow> 32 word" where
  "Uint64LessThanOrEqual a b = (if a \<le> b then 1 else 0)"

definition ChangeInt32ToInt64 :: "32 word \<Rightarrow> 64 word" where
  "ChangeInt32ToInt64 a = scast a"

definition kMaxInt :: "64 word" where
  "kMaxInt = 0x7FFFFFFF"

definition int64_max :: "64 word" where
  "int64_max = 0x7FFFFFFFFFFFFFFF"

definition int64_min :: "64 word" where
  "int64_min = 0x8000000000000000"

section \<open>Float operations of the assembler\<close>

text \<open>
  Modelled from the spec: the float operations of the assembler, with IEEE-754 binary64
  semantics on the bit pattern: bit 63 is the sign, bits 62..52 the biased exponent, bits
  51..0 the fraction. A finite pattern denotes
  \<open>\<plusminus> f64_mantissa * 2 ^ (f64_scale - 1075)\<close>.
\<close>

definition f64_sign :: "float64 \<Rightarrow> bool" where
  "f64_sign x = bit x 63"

definition f64_exponent :: "float64 \<Rightarrow> nat" where
  "f64_exponent x = unat (take_bit 11 (drop_bit 52 x))"

definition f64_fraction :: "float64 \<Rightarrow> nat" where
  "f64_fraction x = unat (take_bit 52 x)"

definition f64_is_nan :: "float64 \<Rightarrow> bool" where
  "f64_is_nan x = (f64_exponent x = 2047 \<and> f64_fraction x \<noteq> 0)"

definition f64_is_zero :: "float64 \<Rightarrow> bool" where
  "f64_is_zero x = (take_bit 63 x = 0)"

definition f64_mantissa :: "float64 \<Rightarrow> nat" where
  "f64_mantissa x = (if f64_exponent x = 0 then f64_fraction x else 2 ^ 52 + f64_fraction x)"

definition f64_scale :: "float64 \<Rightarrow> nat" where
  "f64_scale x = (if f64_exponent x = 0 then 1 else f64_exponent x)"

text \<open>The integer part of a finite pattern, rounded towards zero.\<close>

definition f64_trunc :: "float64 \<Rightarrow> int" where
  "f64_trunc x =
     (let magnitude =
        (if 1075 \<le> f64_scale x then f64_mantissa x * 2 ^ (f64_scale x - 1075)
         else f64_mantissa x div 2 ^ (1075 - f64_scale x))
      in if f64_sign x then - int magnitude else int magnitude)"

text \<open>
  The pattern of a natural number, rounded to the nearest representable value, ties to
  even. Numbers below \<open>2 ^ 53\<close> are represented exactly.
\<close>

fun bit_length :: "nat \<Rightarrow> nat" where
  "bit_length n = (if n = 0 then 0 else Suc (bit_length (n div 2)))"

declare bit_length.simps [simp del]

definition f64_of_nat :: "nat \<Rightarrow> float64" where
  "f64_of_nat n =
     (if n = 0 then 0
      else
        let k = bit_length n - 1 in
        if k \<le> 52 then word_of_nat ((1023 + k) * 2 ^ 52 + n * 2 ^ (52 - k) - 2 ^ 52)
        else
          let sh = k - 52;
              q = n div 2 ^ sh;
              r = n mod 2 ^ sh;
              half = 2 ^ (sh - 1);
              q' = (if half < r \<or> (r = half \<and> odd q) then q + 1 else q)
          in word_of_nat ((1023 + k) * 2 ^ 52 + q' - 2 ^ 52))"

definition f64_of_int :: "int \<Rightarrow> float64" where
  "f64_of_int i = (if i < 0 then f64_of_nat (nat (- i)) OR push_bit 63 1 else f64_of_nat (nat i))"

definition ChangeInt32ToFloat64 :: "32 word \<Rightarrow> float64" where
  "ChangeInt32ToFloat64 a = f64_of_int (sint a)"

definition ChangeUint32ToFloat64 :: "32 word \<Rightarrow> float64" where
  "ChangeUint32ToFloat64 a = f64_of_nat (unat a)"

definition ChangeInt64ToFloat64 :: "64 word \<Rightarrow> float64" where
  "ChangeInt64ToFloat64 a = f64_of_int (sint a)"

definition Float64Equal :: "float64 \<Rightarrow> float64 \<Rightarrow> 32 word" where
  "Float64Equal a b =
     (if \<not> f64_is_nan a \<and> \<not> f64_is_nan b \<and> (a = b \<or> (f64_is_zero a \<and> f64_is_zero b))
      then 1 else 0)"

definition Float64ExtractHighWord32 :: "float64 \<Rightarrow> 32 word" where
  "Float64ExtractHighWord32 x = ucast (drop_bit 32 x)"

text \<open>
  The target of the compilation. It holds the build switches the reducer reads, the
  constants of headers that are not among the sources (bit positions in the first bit
  field of a map, instance type codes, the largest one-byte char code, the empty hash
  field), and what the machine leaves in the register where an operation is undefined: the
  checked truncations when the integer part does not fit the target width (or the input is
  not finite), the reversible conversions, the untagging of a word that is a heap
  reference, and what a word operation or a float operation reads from an operand of
  another representation.
\<close>

record Target =
  Is64 :: bool
  SmiValuesAre32Bits :: bool
  V8_TARGET_BIG_ENDIAN :: bool
  BigInt_HasOptionalPadding :: bool
  TruncateFloat64ToInt32_overflow :: "float64 \<Rightarrow> 32 word"
  TruncateFloat64ToInt64_overflow :: "float64 \<Rightarrow> 64 word"
  ReversibleFloat64ToInt32 :: "float64 \<Rightarrow> 32 word"
  ReversibleFloat64ToInt64 :: "float64 \<Rightarrow> 64 word"
  ReversibleFloat64ToUint32 :: "float64 \<Rightarrow> 32 word"
  SmiUntag_of_reference :: "nat \<Rightarrow> 32 word"
  IsCallableBit_kShift :: nat
  IsConstructorBit_kShift :: nat
  IsUndetectableBit_kShift :: nat
  FIRST_JS_RECEIVER_TYPE :: "32 word"
  FIRST_NONSTRING_TYPE :: "32 word"
  SYMBOL_TYPE :: "32 word"
  ODDBALL_TYPE :: "32 word"
  FIRST_JS_ARRAY_BUFFER_VIEW_TYPE :: "32 word"
  LAST_JS_ARRAY_BUFFER_VIEW_TYPE :: "32 word"
  kMaxOneByteCharCode :: "32 word"
  Name_kEmptyHashField :: "32 word"
  kStringEncodingMask :: "32 word"
  kDoubleSizeLog2 :: nat
  kTaggedSizeLog2 :: nat
  kTaggedSize :: nat
  FixedArray_kHeaderSize :: nat
  FixedDoubleArray_kHeaderSize :: nat
  JSObject_kHeaderSize :: nat
  Word64_of_operand :: "MachineValue \<Rightarrow> 64 word"
  Float64_of_operand :: "MachineValue \<Rightarrow> float64"

definition TruncateFloat64ToInt32OverflowUndefined :: "Target \<Rightarrow> float64 \<Rightarrow> 32 word" where
  "TruncateFloat64ToInt32OverflowUndefined t x =
     (if f64_exponent x \<noteq> 2047 \<and> - (2 ^ 31) \<le> f64_trunc x \<and> f64_trunc x < 2 ^ 31
      then word_of_int (f64_trunc x)
      else TruncateFloat64ToInt32_overflow t x)"

definition TruncateFloat64ToInt64OverflowUndefined :: "Target \<Rightarrow> float64 \<Rightarrow> 64 word" where
  "TruncateFloat64ToInt64OverflowUndefined t x =
     (if f64_exponent x \<noteq> 2047 \<and> - (2 ^ 63) \<le> f64_trunc x \<and> f64_trunc x < 2 ^ 63
      then word_of_int (f64_trunc x)
      else TruncateFloat64ToInt64_overflow t x)"

section \<open>ReduceChangeOrDeopt\<close>

datatype ChangeOrDeoptOp_Kind =
    kUint32ToInt32
  | kInt64ToInt32
  | kUint64ToInt32
  | kUint64ToInt64
  | kFloat64ToInt32
  | kFloat64ToInt64

datatype CheckForMinusZeroMode = kCheckForMinusZero | kDontCheckForMinusZero

text \<open>
  The operand of the method is an untyped index of the graph: the method tests no
  representation, and each operation of the subgraph reads the operand in the
  representation the operation takes. A 32-bit operation reads the low half of a 64-bit
  word; every other reading across representations is left to the target.
\<close>

definition as_Word32 :: "Target \<Rightarrow> MachineValue \<Rightarrow> 32 word" where
  "as_Word32 t v =
     (case v of Word32 w \<Rightarrow> w | Word64 w \<Rightarrow> ucast w | _ \<Rightarrow> ucast (Word64_of_operand t v))"

definition as_Word64 :: "Target \<Rightarrow> MachineValue \<Rightarrow> 64 word" where
  "as_Word64 t v = (case v of Word64 w \<Rightarrow> w | _ \<Rightarrow> Word64_of_operand t v)"

definition as_Float64 :: "Target \<Rightarrow> MachineValue \<Rightarrow> float64" where
  "as_Float64 t v = (case v of Float64 x \<Rightarrow> x | _ \<Rightarrow> Float64_of_operand t v)"

text \<open>
  The switch covers every kind of the enumeration, so the \<^verbatim>\<open>UNREACHABLE()\<close> after it is
  never reached. In case \<open>kInt64ToInt32\<close> the result is the operand read as a 32-bit word.
\<close>

definition ReduceChangeOrDeopt ::
  "Target \<Rightarrow> MachineValue \<Rightarrow> FrameState \<Rightarrow> ChangeOrDeoptOp_Kind \<Rightarrow> CheckForMinusZeroMode \<Rightarrow>
   FeedbackSource \<Rightarrow> MachineValue Outcome" where
  "ReduceChangeOrDeopt t input frame_state kind minus_zero_mode feedback =
     (case kind of
        kUint32ToInt32 \<Rightarrow>
          DeoptimizeIf (Int32LessThan (as_Word32 t input) 0) frame_state kLostPrecision
            feedback (Value input)
      | kInt64ToInt32 \<Rightarrow>
          let i32 = as_Word32 t input in
          DeoptimizeIfNot (Word64Equal (ChangeInt32ToInt64 i32) (as_Word64 t input))
            frame_state kLostPrecision feedback (Value (Word32 i32))
      | kUint64ToInt32 \<Rightarrow>
          DeoptimizeIfNot (Uint64LessThanOrEqual (as_Word64 t input) kMaxInt) frame_state
            kLostPrecision feedback (Value input)
      | kUint64ToInt64 \<Rightarrow>
          DeoptimizeIfNot (Uint64LessThanOrEqual (as_Word64 t input) int64_max) frame_state
            kLostPrecision feedback (Value input)
      | kFloat64ToInt32 \<Rightarrow>
          let i32 = TruncateFloat64ToInt32OverflowUndefined t (as_Float64 t input) in
          DeoptimizeIfNot (Float64Equal (ChangeInt32ToFloat64 i32) (as_Float64 t input))
            frame_state kLostPrecisionOrNaN feedback
            (if minus_zero_mode = kCheckForMinusZero \<and> Word32Equal i32 0 \<noteq> 0
             then DeoptimizeIf (Int32LessThan (Float64ExtractHighWord32 (as_Float64 t input)) 0)
                    frame_state kMinusZero feedback (Value (Word32 i32))
             else Value (Word32 i32))
      | kFloat64ToInt64 \<Rightarrow>
          let i64 = TruncateFloat64ToInt64OverflowUndefined t (as_Float64 t input) in
          DeoptimizeIfNot (Float64Equal (ChangeInt64ToFloat64 i64) (as_Float64 t input))
            frame_state kLostPrecisionOrNaN feedback
            (if minus_zero_mode = kCheckForMinusZero \<and> Word64Equal i64 0 \<noteq> 0
             then DeoptimizeIf (Int32LessThan (Float64ExtractHighWord32 (as_Float64 t input)) 0)
                    frame_state kMinusZero feedback (Value (Word64 i64))
             else Value (Word64 i64)))"

section \<open>Tagged values, the heap and the factory\<close>

text \<open>
  Modelled from the spec: tagging, untagging and the Smi test are operations of the
  assembler. The low bit of a tagged word is the tag (\<^verbatim>\<open>kSmiTagMask\<close>, \<^verbatim>\<open>kSmiTag\<close>); in
  the model the tag is the constructor. With 31-bit Smis the tagging shift drops the top
  bit of a 32-bit payload.
\<close>

definition SmiTag :: "Target \<Rightarrow> 32 word \<Rightarrow> Tagged" where
  "SmiTag t x = Smi (if SmiValuesAre32Bits t then x else signed_take_bit 30 x)"

definition SmiUntag :: "Target \<Rightarrow> Tagged \<Rightarrow> 32 word" where
  "SmiUntag t v = (case v of Smi x \<Rightarrow> x | HeapObject a \<Rightarrow> SmiUntag_of_reference t a)"

definition ObjectIsSmi :: "Tagged \<Rightarrow> 32 word" where
  "ObjectIsSmi v = (case v of Smi x \<Rightarrow> 1 | HeapObject a \<Rightarrow> 0)"

definition TaggedEqual :: "Tagged \<Rightarrow> Tagged \<Rightarrow> 32 word" where
  "TaggedEqual a b = (if a = b then 1 else 0)"

definition Smi_kMaxValue :: "Target \<Rightarrow> int" where
  "Smi_kMaxValue t = (if SmiValuesAre32Bits t then 2 ^ 31 - 1 else 2 ^ 30 - 1)"

text \<open>
  The accesses of \<^verbatim>\<open>AccessBuilder\<close> the reducer names. The heap is read through them: a
  field holds either a raw word (a 32-bit load reads its low half) or a tagged value.
  A load through any base is defined: it reads whatever the memory holds there.
  \<open>Load_AnyTagged\<close> is the tagged load of \<^verbatim>\<open>Load\<close> at a base, an index, an offset and
  the binary logarithm of the element size.
\<close>

datatype FieldAccess =
    ForMap
  | ForMapBitField
  | ForMapInstanceType
  | ForHeapNumberValue
  | ForBigIntBitfield
  | ForBigIntOptionalPadding
  | ForBigIntLeastSignificantDigit64
  | ForNameRawHashField
  | ForStringLength
  | ForJSArrayLength
  | ForJSObjectElements
  | ForConsStringFirst
  | ForConsStringSecond
  | ForFixedArrayLength
  | ForJSObjectPropertiesOrHashKnownPointer

record Heap =
  word_field :: "Tagged \<Rightarrow> FieldAccess \<Rightarrow> 64 word"
  tagged_field :: "Tagged \<Rightarrow> FieldAccess \<Rightarrow> Tagged"
  ForFixedArrayElement :: "Tagged \<Rightarrow> nat \<Rightarrow> Tagged"
  ForFixedDoubleArrayElement :: "Tagged \<Rightarrow> nat \<Rightarrow> float64"
  string_to_array_index_function :: "Tagged \<Rightarrow> 32 word"
  Load_AnyTagged :: "Tagged \<Rightarrow> int \<Rightarrow> int \<Rightarrow> int \<Rightarrow> Tagged"

definition LoadField_Word32 :: "Heap \<Rightarrow> Tagged \<Rightarrow> FieldAccess \<Rightarrow> 32 word" where
  "LoadField_Word32 h base access = ucast (word_field h base access)"

definition LoadField_Word64 :: "Heap \<Rightarrow> Tagged \<Rightarrow> FieldAccess \<Rightarrow> 64 word" where
  "LoadField_Word64 h base access = word_field h base access"

definition LoadField_Float64 :: "Heap \<Rightarrow> Tagged \<Rightarrow> FieldAccess \<Rightarrow> float64" where
  "LoadField_Float64 h base access = word_field h base access"

definition LoadField_Tagged :: "Heap \<Rightarrow> Tagged \<Rightarrow> FieldAccess \<Rightarrow> Tagged" where
  "LoadField_Tagged h base access = tagged_field h base access"

definition LoadMapField :: "Heap \<Rightarrow> Tagged \<Rightarrow> Tagged" where
  "LoadMapField h base = LoadField_Tagged h base ForMap"

record Factory =
  bigint_map :: Tagged
  heap_number_map :: Tagged
  boolean_map :: Tagged
  string_map :: Tagged
  true_value :: Tagged
  false_value :: Tagged
  single_character_string_table :: Tagged
  cons_string_map :: Tagged
  cons_one_byte_string_map :: Tagged
  empty_fixed_array :: Tagged
  fixed_double_array_map :: Tagged
  fixed_array_map :: Tagged
  the_hole_value :: Tagged

text \<open>
  The branching macros. \<^verbatim>\<open>GOTO_IF(c, l, v)\<close> jumps to the label with the value when the
  condition is not 0 and falls through otherwise. The value operand is an argument
  expression of the macro: where it emits operations (an allocation), these are emitted
  before the branch and run on both paths.
\<close>

definition GOTO_IF :: "32 word \<Rightarrow> 'a \<Rightarrow> 'a \<Rightarrow> 'a" where
  "GOTO_IF condition taken fallthrough = (if condition \<noteq> 0 then taken else fallthrough)"

definition GOTO_IF_NOT :: "32 word \<Rightarrow> 'a \<Rightarrow> 'a \<Rightarrow> 'a" where
  "GOTO_IF_NOT condition taken fallthrough = (if condition = 0 then taken else fallthrough)"

section \<open>ReduceObjectIs\<close>

datatype ObjectIsOp_Kind =
    ObjectIs_kArrayBufferView
  | ObjectIs_kBigInt
  | ObjectIs_kBigInt64
  | ObjectIs_kCallable
  | ObjectIs_kConstructor
  | ObjectIs_kDetectableCallable
  | ObjectIs_kNonCallable
  | ObjectIs_kNumber
  | ObjectIs_kReceiver
  | ObjectIs_kSmi
  | ObjectIs_kString
  | ObjectIs_kSymbol
  | ObjectIs_kUndetectable

datatype ObjectIsOp_InputAssumptions =
    ObjectIs_Assume_kNone
  | ObjectIs_Assume_kHeapObject
  | ObjectIs_Assume_kBigInt

fun NeedsHeapObjectCheck :: "ObjectIsOp_InputAssumptions \<Rightarrow> bool" where
  "NeedsHeapObjectCheck ObjectIs_Assume_kNone = True"
| "NeedsHeapObjectCheck ObjectIs_Assume_kHeapObject = False"
| "NeedsHeapObjectCheck ObjectIs_Assume_kBigInt = False"

definition IsSmi :: "Tagged \<Rightarrow> 32 word" where
  "IsSmi input = ObjectIsSmi input"

text \<open>
  Modelled from the spec: the bit fields of \<^verbatim>\<open>bigint.h\<close> and \<^verbatim>\<open>map.h\<close>, which are not
  among the sources. A \<^verbatim>\<open>BitField<T, shift, size>\<close> has the mask of \<^verbatim>\<open>size\<close> ones shifted
  left by \<open>shift\<close> and encodes a value by shifting it. The sign of an arbitrary-precision
  integer is the one-bit field at bit 0 of its bit field and the length is the 30-bit field
  next to it. The flags of a map are one-bit fields, whose positions the target gives.
\<close>

definition BitField_kMask :: "nat \<Rightarrow> nat \<Rightarrow> 32 word" where
  "BitField_kMask shift width = push_bit shift (mask width)"

definition BitField_encode :: "nat \<Rightarrow> 32 word \<Rightarrow> 32 word" where
  "BitField_encode shift v = push_bit shift v"

definition SignBits_kShift :: nat where
  "SignBits_kShift = 0"

definition SignBits_kMask :: "32 word" where
  "SignBits_kMask = BitField_kMask SignBits_kShift 1"

definition LengthBits_kShift :: nat where
  "LengthBits_kShift = 1"

definition LengthBits_kMask :: "32 word" where
  "LengthBits_kMask = BitField_kMask LengthBits_kShift 30"

definition LengthBits_encode :: "32 word \<Rightarrow> 32 word" where
  "LengthBits_encode v = BitField_encode LengthBits_kShift v"

definition IsCallableBit_kMask :: "Target \<Rightarrow> 32 word" where
  "IsCallableBit_kMask t = BitField_kMask (IsCallableBit_kShift t) 1"

definition IsConstructorBit_kMask :: "Target \<Rightarrow> 32 word" where
  "IsConstructorBit_kMask t = BitField_kMask (IsConstructorBit_kShift t) 1"

definition IsUndetectableBit_kMask :: "Target \<Rightarrow> 32 word" where
  "IsUndetectableBit_kMask t = BitField_kMask (IsUndetectableBit_kShift t) 1"

text \<open>The two cases \<open>kBigInt\<close> and \<open>kBigInt64\<close> of the switch share one body.\<close>

definition ObjectIs_BigInt ::
  "Target \<Rightarrow> Factory \<Rightarrow> Heap \<Rightarrow> Tagged \<Rightarrow> ObjectIsOp_Kind \<Rightarrow> ObjectIsOp_InputAssumptions \<Rightarrow>
   32 word Outcome" where
  "ObjectIs_BigInt t f h input kind input_assumptions =
     (if kind = ObjectIs_kBigInt64 \<and> \<not> Is64 t then Fatal
      else Value
        (GOTO_IF (if input_assumptions \<noteq> ObjectIs_Assume_kBigInt
                     \<and> NeedsHeapObjectCheck input_assumptions then IsSmi input else 0) 0
        (GOTO_IF_NOT (if input_assumptions \<noteq> ObjectIs_Assume_kBigInt
                      then TaggedEqual (LoadMapField h input) (bigint_map f) else 1) 0
        (if kind = ObjectIs_kBigInt then 1
         else
           let bitfield = LoadField_Word32 h input ForBigIntBitfield in
           GOTO_IF (Word32Equal bitfield 0) 1
           (let length_field = bitfield AND LengthBits_kMask in
            GOTO_IF_NOT (Word32Equal length_field (push_bit LengthBits_kShift 1)) 0
            (let lsd = LoadField_Word64 h input ForBigIntLeastSignificantDigit64;
                 magnitude_check = Uint64LessThanOrEqual lsd int64_max in
             GOTO_IF magnitude_check 1
             (let sign = bitfield AND SignBits_kMask;
                  sign_check = Word32Equal sign SignBits_kMask in
              GOTO_IF_NOT sign_check 0
              (let min_check = Word64Equal lsd int64_min in
               GOTO_IF min_check 1 0))))))))"

text \<open>
  The cases \<open>kCallable\<close> to \<open>kUndetectable\<close> share the Smi check and the load of the bit
  field; \<open>kNonCallable\<close> falls through into the receiver check.
\<close>

definition ObjectIs_receiver_check :: "Target \<Rightarrow> Heap \<Rightarrow> Tagged \<Rightarrow> 32 word" where
  "ObjectIs_receiver_check t h the_map =
     (let instance_type = LoadField_Word32 h the_map ForMapInstanceType in
      Uint32LessThanOrEqual (FIRST_JS_RECEIVER_TYPE t) instance_type)"

definition ObjectIs_MapBits ::
  "Target \<Rightarrow> Heap \<Rightarrow> Tagged \<Rightarrow> ObjectIsOp_Kind \<Rightarrow> ObjectIsOp_InputAssumptions \<Rightarrow> 32 word Outcome" where
  "ObjectIs_MapBits t h input kind input_assumptions =
     (let the_map = LoadMapField h input;
          bitfield = LoadField_Word32 h the_map ForMapBitField;
          smi_check = (if NeedsHeapObjectCheck input_assumptions then IsSmi input else 0)
      in case kind of
           ObjectIs_kCallable \<Rightarrow>
             Value (GOTO_IF smi_check 0
               (Word32Equal (IsCallableBit_kMask t) (bitfield AND IsCallableBit_kMask t)))
         | ObjectIs_kConstructor \<Rightarrow>
             Value (GOTO_IF smi_check 0
               (Word32Equal (IsConstructorBit_kMask t) (bitfield AND IsConstructorBit_kMask t)))
         | ObjectIs_kDetectableCallable \<Rightarrow>
             Value (GOTO_IF smi_check 0
               (Word32Equal (IsCallableBit_kMask t)
                  (bitfield AND (IsCallableBit_kMask t OR IsUndetectableBit_kMask t))))
         | ObjectIs_kNonCallable \<Rightarrow>
             Value (GOTO_IF smi_check 0
               (let check = Word32Equal 0 (bitfield AND IsCallableBit_kMask t) in
                GOTO_IF_NOT check 0 (ObjectIs_receiver_check t h the_map)))
         | ObjectIs_kReceiver \<Rightarrow>
             Value (GOTO_IF smi_check 0 (ObjectIs_receiver_check t h the_map))
         | ObjectIs_kUndetectable \<Rightarrow>
             Value (GOTO_IF smi_check 0
               (Word32Equal (IsUndetectableBit_kMask t)
                  (bitfield AND IsUndetectableBit_kMask t)))
         | _ \<Rightarrow> Fatal)"

definition ObjectIs_InstanceType ::
  "Target \<Rightarrow> Heap \<Rightarrow> Tagged \<Rightarrow> ObjectIsOp_Kind \<Rightarrow> ObjectIsOp_InputAssumptions \<Rightarrow> 32 word Outcome" where
  "ObjectIs_InstanceType t h input kind input_assumptions =
     (let the_map = LoadMapField h input;
          instance_type = LoadField_Word32 h the_map ForMapInstanceType;
          smi_check = (if NeedsHeapObjectCheck input_assumptions then IsSmi input else 0)
      in case kind of
           ObjectIs_kSymbol \<Rightarrow>
             Value (GOTO_IF smi_check 0 (Word32Equal instance_type (SYMBOL_TYPE t)))
         | ObjectIs_kString \<Rightarrow>
             Value (GOTO_IF smi_check 0 (Uint32LessThan instance_type (FIRST_NONSTRING_TYPE t)))
         | ObjectIs_kArrayBufferView \<Rightarrow>
             Value (GOTO_IF smi_check 0
               (Uint32LessThan (instance_type - FIRST_JS_ARRAY_BUFFER_VIEW_TYPE t)
                  (LAST_JS_ARRAY_BUFFER_VIEW_TYPE t - FIRST_JS_ARRAY_BUFFER_VIEW_TYPE t + 1)))
         | _ \<Rightarrow> Fatal)"

definition ReduceObjectIs ::
  "Target \<Rightarrow> Factory \<Rightarrow> Heap \<Rightarrow> Tagged \<Rightarrow> ObjectIsOp_Kind \<Rightarrow> ObjectIsOp_InputAssumptions \<Rightarrow>
   32 word Outcome" where
  "ReduceObjectIs t f h input kind input_assumptions =
     (case kind of
        ObjectIs_kBigInt \<Rightarrow> ObjectIs_BigInt t f h input kind input_assumptions
      | ObjectIs_kBigInt64 \<Rightarrow> ObjectIs_BigInt t f h input kind input_assumptions
      | ObjectIs_kCallable \<Rightarrow> ObjectIs_MapBits t h input kind input_assumptions
      | ObjectIs_kConstructor \<Rightarrow> ObjectIs_MapBits t h input kind input_assumptions
      | ObjectIs_kDetectableCallable \<Rightarrow> ObjectIs_MapBits t h input kind input_assumptions
      | ObjectIs_kNonCallable \<Rightarrow> ObjectIs_MapBits t h input kind input_assumptions
      | ObjectIs_kReceiver \<Rightarrow> ObjectIs_MapBits t h input kind input_assumptions
      | ObjectIs_kUndetectable \<Rightarrow> ObjectIs_MapBits t h input kind input_assumptions
      | ObjectIs_kSmi \<Rightarrow>
          (if \<not> NeedsHeapObjectCheck input_assumptions then Value 0 else Value (IsSmi input))
      | ObjectIs_kNumber \<Rightarrow>
          Value (GOTO_IF (if NeedsHeapObjectCheck input_assumptions then IsSmi input else 0) 1
                   (TaggedEqual (LoadMapField h input) (heap_number_map f)))
      | ObjectIs_kSymbol \<Rightarrow> ObjectIs_InstanceType t h input kind input_assumptions
      | ObjectIs_kString \<Rightarrow> ObjectIs_InstanceType t h input kind input_assumptions
      | ObjectIs_kArrayBufferView \<Rightarrow> ObjectIs_InstanceType t h input kind input_assumptions)"

section \<open>Allocation and stores\<close>

text \<open>
  Modelled from the spec: allocation and stores are operations of the assembler. Every
  store of the reducer goes to an object the same subgraph has just allocated, and no load
  reads such an object, so the effect of a subgraph is the sequence of allocations and
  stores it runs, in order, and the loads read the heap as it was on entry. Sizes and
  offsets are kept symbolic: their values depend on the build. The size of a new array is
  computed at run time and is the number of bytes its size word holds. An element access
  has the five fields of \<^verbatim>\<open>ElementAccess\<close> of the compiler.
\<close>

datatype AllocationType = kYoung | kOld

datatype AllocationSize =
    HeapNumber_kSize
  | BigInt_SizeFor nat
  | SeqTwoByteString_SizeFor nat
  | ConsString_kSize
  | SizeInBytes nat

datatype BaseTaggedness = kUntaggedBase | kTaggedBase

datatype ElementType = Type_NumberOrHole | Type_Any

datatype MachineType = MachineType_Float64 | MachineType_AnyTagged

datatype WriteBarrierKind = kNoWriteBarrier | kFullWriteBarrier

record ElementAccess =
  base_is_tagged :: BaseTaggedness
  header_size :: nat
  element_type :: ElementType
  machine_type :: MachineType
  write_barrier_kind :: WriteBarrierKind

datatype MemoryRepresentation = Mem_TaggedSigned | Mem_Uint16 | Mem_Uint32

datatype StoreOffset =
    SeqTwoByteString_kHeaderSize
  | SeqTwoByteString_SizeFor_minus_kObjectAlignment nat

datatype Operation =
    AllocateOp Tagged AllocationSize AllocationType
  | StoreFieldOp Tagged FieldAccess MachineValue
  | StoreOp Tagged MachineValue MemoryRepresentation StoreOffset
  | StoreElementOp Tagged ElementAccess nat MachineValue

record Effects =
  next_object :: nat
  operations :: "Operation list"

definition Allocate :: "AllocationSize \<Rightarrow> AllocationType \<Rightarrow> Effects \<Rightarrow> Tagged \<times> Effects" where
  "Allocate sz ty s =
     (HeapObject (next_object s),
      s\<lparr>next_object := Suc (next_object s),
        operations := operations s @ [AllocateOp (HeapObject (next_object s)) sz ty]\<rparr>)"

definition StoreField :: "Tagged \<Rightarrow> FieldAccess \<Rightarrow> MachineValue \<Rightarrow> Effects \<Rightarrow> Effects" where
  "StoreField base access v s = s\<lparr>operations := operations s @ [StoreFieldOp base access v]\<rparr>"

definition Store ::
  "Tagged \<Rightarrow> MachineValue \<Rightarrow> MemoryRepresentation \<Rightarrow> StoreOffset \<Rightarrow> Effects \<Rightarrow> Effects" where
  "Store base v rep offset s = s\<lparr>operations := operations s @ [StoreOp base v rep offset]\<rparr>"

definition StoreElement ::
  "Tagged \<Rightarrow> ElementAccess \<Rightarrow> nat \<Rightarrow> MachineValue \<Rightarrow> Effects \<Rightarrow> Effects" where
  "StoreElement array access index v s =
     s\<lparr>operations := operations s @ [StoreElementOp array access index v]\<rparr>"

definition IntPtrConstant :: "Target \<Rightarrow> int \<Rightarrow> MachineValue" where
  "IntPtrConstant t n = (if Is64 t then Word64 (word_of_int n) else Word32 (word_of_int n))"

definition ChangeInt32ToIntPtr :: "Target \<Rightarrow> 32 word \<Rightarrow> MachineValue" where
  "ChangeInt32ToIntPtr t x = (if Is64 t then Word64 (scast x) else Word32 x)"

section \<open>Private helpers of the reducer\<close>

definition zero_bitfield :: "32 word" where
  "zero_bitfield = (LengthBits_encode 0 AND NOT SignBits_kMask) OR BitField_encode SignBits_kShift 0"

definition AllocateBigInt ::
  "Target \<Rightarrow> Factory \<Rightarrow> 32 word option \<Rightarrow> 64 word option \<Rightarrow> Effects \<Rightarrow> (Tagged \<times> Effects) Outcome" where
  "AllocateBigInt t f bitfield digit s =
     (if \<not> Is64 t \<or> (bitfield = None) \<noteq> (digit = None) then Fatal
      else
        let the_map = bigint_map f;
            (bigint, s1) = Allocate (BigInt_SizeFor (if digit \<noteq> None then 1 else 0)) kYoung s;
            s2 = StoreField bigint ForMap (TaggedValue the_map) s1;
            s3 = StoreField bigint ForBigIntBitfield
                   (Word32 (case bitfield of Some b \<Rightarrow> b | None \<Rightarrow> zero_bitfield)) s2;
            s4 = (if BigInt_HasOptionalPadding t
                  then StoreField bigint ForBigIntOptionalPadding (IntPtrConstant t 0) s3 else s3);
            s5 = (case digit of
                    Some d \<Rightarrow> StoreField bigint ForBigIntLeastSignificantDigit64 (Word64 d) s4
                  | None \<Rightarrow> s4)
        in Value (bigint, s5))"

definition Int32AddCheckOverflow :: "32 word \<Rightarrow> 32 word \<Rightarrow> 32 word \<times> 32 word" where
  "Int32AddCheckOverflow a b = (a + b, if sint (a + b) = sint a + sint b then 0 else 1)"

text \<open>
  The two labels of \<^verbatim>\<open>SmiTagOrOverflow\<close> are the continuation for the overflow and the
  continuation that takes the tagged value.
\<close>

definition SmiTagOrOverflow ::
  "Target \<Rightarrow> 32 word \<Rightarrow> 'a Outcome \<Rightarrow> (Tagged \<Rightarrow> 'a Outcome) \<Rightarrow> 'a Outcome" where
  "SmiTagOrOverflow t input overflow done =
     (if SmiValuesAre32Bits t then Fatal
      else
        let add = Int32AddCheckOverflow input input;
            check = snd add
        in GOTO_IF check overflow (done (SmiTag t input)))"

definition AllocateHeapNumberWithValue :: "Factory \<Rightarrow> float64 \<Rightarrow> Effects \<Rightarrow> Tagged \<times> Effects" where
  "AllocateHeapNumberWithValue f v s =
     (let (result, s1) = Allocate HeapNumber_kSize kYoung s;
          s2 = StoreField result ForMap (TaggedValue (heap_number_map f)) s1;
          s3 = StoreField result ForHeapNumberValue (Float64 v) s2
      in (result, s3))"

section \<open>ReduceConvertToObject\<close>

datatype ConvertToObjectOp_Kind =
    ConvertToObject_kBigInt
  | ConvertToObject_kBoolean
  | ConvertToObject_kHeapNumber
  | ConvertToObject_kNumber
  | ConvertToObject_kSmi
  | ConvertToObject_kString

datatype InputInterpretation = kSigned | kUnsigned | kCharCode | kCodePoint

datatype RegisterRepresentation =
    Rep_Word32
  | Rep_Word64
  | Rep_Float32
  | Rep_Float64
  | Rep_Tagged
  | Rep_Compressed

text \<open>
  Case \<open>kBigInt\<close>. The canonical zero is the value operand of the first \<^verbatim>\<open>GOTO_IF\<close>, so
  its allocation is emitted before the branch.
\<close>

definition ConvertToObject_BigInt ::
  "Target \<Rightarrow> Factory \<Rightarrow> MachineValue \<Rightarrow> RegisterRepresentation \<Rightarrow> InputInterpretation \<Rightarrow>
   Effects \<Rightarrow> (Tagged \<times> Effects) Outcome" where
  "ConvertToObject_BigInt t f input input_rep input_interpretation s =
     (if \<not> Is64 t \<or> input_rep \<noteq> Rep_Word64
         \<or> (input_interpretation \<noteq> kSigned \<and> input_interpretation \<noteq> kUnsigned) then Fatal
      else case input of
        Word64 v \<Rightarrow>
          bind_outcome (AllocateBigInt t f None None s) (\<lambda>(zero, s0).
            GOTO_IF (Word64Equal v 0) (Value (zero, s0))
              (if input_interpretation = kSigned then
                 let bitfield = LengthBits_encode 1 OR ucast (drop_bit (63 - SignBits_kShift) v);
                     sign_mask = signed_drop_bit 63 v;
                     absolute_value = (v XOR sign_mask) - sign_mask
                 in AllocateBigInt t f (Some bitfield) (Some absolute_value) s0
               else
                 let bitfield = LengthBits_encode 1
                 in AllocateBigInt t f (Some bitfield) (Some v) s0))
      | _ \<Rightarrow> Fatal)"

definition ConvertToObject_Number ::
  "Target \<Rightarrow> Factory \<Rightarrow> MachineValue \<Rightarrow> RegisterRepresentation \<Rightarrow> InputInterpretation \<Rightarrow>
   CheckForMinusZeroMode \<Rightarrow> Effects \<Rightarrow> (Tagged \<times> Effects) Outcome" where
  "ConvertToObject_Number t f input input_rep input_interpretation minus_zero_mode s =
     (if input_rep = Rep_Word32 then
        (case input of
           Word32 v \<Rightarrow>
             (case input_interpretation of
                kSigned \<Rightarrow>
                  if SmiValuesAre32Bits t then Value (SmiTag t v, s)
                  else SmiTagOrOverflow t v
                         (Value (AllocateHeapNumberWithValue f (ChangeInt32ToFloat64 v) s))
                         (\<lambda>r. Value (r, s))
              | kUnsigned \<Rightarrow>
                  Value (GOTO_IF (Uint32LessThanOrEqual v (word_of_int (Smi_kMaxValue t)))
                           (SmiTag t v, s)
                           (AllocateHeapNumberWithValue f (ChangeUint32ToFloat64 v) s))
              | kCharCode \<Rightarrow> Fatal
              | kCodePoint \<Rightarrow> Fatal)
         | _ \<Rightarrow> Fatal)
      else if input_rep = Rep_Word64 then
        (case input of
           Word64 v \<Rightarrow>
             (case input_interpretation of
                kSigned \<Rightarrow>
                  let v32 = (ucast v :: 32 word);
                      v64 = ChangeInt32ToInt64 v32;
                      outside_smi_range =
                        Value (AllocateHeapNumberWithValue f (ChangeInt64ToFloat64 v) s)
                  in GOTO_IF_NOT (Word64Equal v64 v) outside_smi_range
                       (if SmiValuesAre32Bits t then Value (SmiTag t (ucast v), s)
                        else SmiTagOrOverflow t v32 outside_smi_range (\<lambda>r. Value (r, s)))
              | kUnsigned \<Rightarrow>
                  Value (GOTO_IF (Uint64LessThanOrEqual v (word_of_int (Smi_kMaxValue t)))
                           (SmiTag t (ucast v), s)
                           (AllocateHeapNumberWithValue f (ChangeInt64ToFloat64 v) s))
              | kCharCode \<Rightarrow> Fatal
              | kCodePoint \<Rightarrow> Fatal)
         | _ \<Rightarrow> Fatal)
      else if input_rep \<noteq> Rep_Float64 then Fatal
      else
        (case input of
           Float64 v \<Rightarrow>
             let v32 = TruncateFloat64ToInt32OverflowUndefined t v;
                 outside_smi_range = Value (AllocateHeapNumberWithValue f v s)
             in GOTO_IF_NOT (Float64Equal v (ChangeInt32ToFloat64 v32)) outside_smi_range
                  (GOTO_IF (if minus_zero_mode = kCheckForMinusZero \<and> Word32Equal v32 0 \<noteq> 0
                            then Int32LessThan (Float64ExtractHighWord32 v) 0 else 0)
                     outside_smi_range
                     (if SmiValuesAre32Bits t then Value (SmiTag t v32, s)
                      else SmiTagOrOverflow t v32 outside_smi_range (\<lambda>r. Value (r, s))))
         | _ \<Rightarrow> Fatal))"

text \<open>The block bound to the label \<open>single_code\<close> of case \<open>kString\<close>.\<close>

definition ConvertToObject_single_code ::
  "Target \<Rightarrow> Factory \<Rightarrow> Heap \<Rightarrow> 32 word \<Rightarrow> Effects \<Rightarrow> Tagged \<times> Effects" where
  "ConvertToObject_single_code t f h code s =
     (if Uint32LessThanOrEqual code (kMaxOneByteCharCode t) \<noteq> 0 then
        let table = single_character_string_table f;
            index = unat code;
            entry = ForFixedArrayElement h table index
        in (entry, s)
      else
        let (string, s1) = Allocate (SeqTwoByteString_SizeFor 1) kYoung s;
            s2 = Store string (IntPtrConstant t 0) Mem_TaggedSigned
                   (SeqTwoByteString_SizeFor_minus_kObjectAlignment 1) s1;
            s3 = StoreField string ForMap (TaggedValue (string_map f)) s2;
            s4 = StoreField string ForNameRawHashField (Word32 (Name_kEmptyHashField t)) s3;
            s5 = StoreField string ForStringLength (Word32 1) s4;
            s6 = Store string (Word32 code) Mem_Uint16 SeqTwoByteString_kHeaderSize s5
        in (string, s6))"

definition ConvertToObject_String ::
  "Target \<Rightarrow> Factory \<Rightarrow> Heap \<Rightarrow> MachineValue \<Rightarrow> InputInterpretation \<Rightarrow> Effects \<Rightarrow>
   (Tagged \<times> Effects) Outcome" where
  "ConvertToObject_String t f h input input_interpretation s =
     (case input of
        Word32 v \<Rightarrow>
          if input_interpretation = kCharCode then
            Value (ConvertToObject_single_code t f h (v AND 0xFFFF) s)
          else if input_interpretation \<noteq> kCodePoint then Fatal
          else
            Value (GOTO_IF (Uint32LessThanOrEqual v 0xFFFF)
              (ConvertToObject_single_code t f h v s)
              (let lead_offset = 0xD800 - drop_bit 10 0x10000;
                   lead = drop_bit 10 v + lead_offset;
                   trail = (v AND 0x3FF) + 0xDC00;
                   code = (if V8_TARGET_BIG_ENDIAN t then push_bit 16 lead OR trail
                           else push_bit 16 trail OR lead);
                   (string, s1) = Allocate (SeqTwoByteString_SizeFor 2) kYoung s;
                   s2 = Store string (IntPtrConstant t 0) Mem_TaggedSigned
                          (SeqTwoByteString_SizeFor_minus_kObjectAlignment 2) s1;
                   s3 = StoreField string ForMap (TaggedValue (string_map f)) s2;
                   s4 = StoreField string ForNameRawHashField
                          (Word32 (Name_kEmptyHashField t)) s3;
                   s5 = StoreField string ForStringLength (Word32 2) s4;
                   s6 = Store string (Word32 code) Mem_Uint32 SeqTwoByteString_kHeaderSize s5
               in (string, s6)))
      | _ \<Rightarrow> Fatal)"

definition ReduceConvertToObject ::
  "Target \<Rightarrow> Factory \<Rightarrow> Heap \<Rightarrow> MachineValue \<Rightarrow> ConvertToObjectOp_Kind \<Rightarrow>
   RegisterRepresentation \<Rightarrow> InputInterpretation \<Rightarrow> CheckForMinusZeroMode \<Rightarrow> Effects \<Rightarrow>
   (Tagged \<times> Effects) Outcome" where
  "ReduceConvertToObject t f h input kind input_rep input_interpretation minus_zero_mode s =
     (case kind of
        ConvertToObject_kBigInt \<Rightarrow>
          ConvertToObject_BigInt t f input input_rep input_interpretation s
      | ConvertToObject_kNumber \<Rightarrow>
          ConvertToObject_Number t f input input_rep input_interpretation minus_zero_mode s
      | ConvertToObject_kHeapNumber \<Rightarrow>
          (if input_rep \<noteq> Rep_Float64 \<or> input_interpretation \<noteq> kSigned then Fatal
           else case input of
             Float64 v \<Rightarrow> Value (AllocateHeapNumberWithValue f v s)
           | _ \<Rightarrow> Fatal)
      | ConvertToObject_kSmi \<Rightarrow>
          (if input_rep \<noteq> Rep_Word32 \<or> input_interpretation \<noteq> kSigned then Fatal
           else case input of
             Word32 v \<Rightarrow> Value (SmiTag t v, s)
           | _ \<Rightarrow> Fatal)
      | ConvertToObject_kBoolean \<Rightarrow>
          (if input_rep \<noteq> Rep_Word32 \<or> input_interpretation \<noteq> kSigned then Fatal
           else case input of
             Word32 v \<Rightarrow> Value (if v \<noteq> 0 then true_value f else false_value f, s)
           | _ \<Rightarrow> Fatal)
      | ConvertToObject_kString \<Rightarrow>
          ConvertToObject_String t f h input input_interpretation s)"

section \<open>ReduceConvertObjectToPrimitive\<close>

datatype ConvertObjectToPrimitiveOp_Kind =
    ToPrimitive_kInt32
  | ToPrimitive_kInt64
  | ToPrimitive_kUint32
  | ToPrimitive_kBit

datatype ConvertObjectToPrimitiveOp_InputAssumptions =
    ToPrimitive_Assume_kObject
  | ToPrimitive_Assume_kSmi
  | ToPrimitive_Assume_kNumberOrOddball

definition ReduceConvertObjectToPrimitive ::
  "Target \<Rightarrow> Factory \<Rightarrow> Heap \<Rightarrow> Tagged \<Rightarrow> ConvertObjectToPrimitiveOp_Kind \<Rightarrow>
   ConvertObjectToPrimitiveOp_InputAssumptions \<Rightarrow> MachineValue Outcome" where
  "ReduceConvertObjectToPrimitive t f h object kind input_assumptions =
     (case kind of
        ToPrimitive_kInt32 \<Rightarrow>
          if input_assumptions = ToPrimitive_Assume_kSmi then Value (Word32 (SmiUntag t object))
          else if input_assumptions \<noteq> ToPrimitive_Assume_kNumberOrOddball then Fatal
          else if ObjectIsSmi object \<noteq> 0 then Value (Word32 (SmiUntag t object))
          else
            let v = LoadField_Float64 h object ForHeapNumberValue
            in Value (Word32 (ReversibleFloat64ToInt32 t v))
      | ToPrimitive_kInt64 \<Rightarrow>
          if input_assumptions = ToPrimitive_Assume_kSmi
          then Value (Word64 (ChangeInt32ToInt64 (SmiUntag t object)))
          else if input_assumptions \<noteq> ToPrimitive_Assume_kNumberOrOddball then Fatal
          else if ObjectIsSmi object \<noteq> 0
          then Value (Word64 (ChangeInt32ToInt64 (SmiUntag t object)))
          else
            let v = LoadField_Float64 h object ForHeapNumberValue
            in Value (Word64 (ReversibleFloat64ToInt64 t v))
      | ToPrimitive_kUint32 \<Rightarrow>
          if input_assumptions \<noteq> ToPrimitive_Assume_kNumberOrOddball then Fatal
          else if ObjectIsSmi object \<noteq> 0 then Value (Word32 (SmiUntag t object))
          else
            let v = LoadField_Float64 h object ForHeapNumberValue
            in Value (Word32 (ReversibleFloat64ToUint32 t v))
      | ToPrimitive_kBit \<Rightarrow>
          if input_assumptions \<noteq> ToPrimitive_Assume_kObject then Fatal
          else Value (Word32 (TaggedEqual object (true_value f))))"

section \<open>ReduceConvertObjectToPrimitiveOrDeopt\<close>

datatype ObjectKind =
    ObjectKind_kNumber
  | ObjectKind_kNumberOrBoolean
  | ObjectKind_kNumberOrOddball
  | ObjectKind_kNumberOrString
  | ObjectKind_kSmi

datatype PrimitiveKind =
    PrimitiveKind_kInt32
  | PrimitiveKind_kInt64
  | PrimitiveKind_kFloat64
  | PrimitiveKind_kArrayIndex

definition ConvertHeapObjectToFloat64OrDeopt ::
  "Target \<Rightarrow> Factory \<Rightarrow> Heap \<Rightarrow> Tagged \<Rightarrow> FrameState \<Rightarrow> ObjectKind \<Rightarrow> FeedbackSource \<Rightarrow>
   float64 Outcome" where
  "ConvertHeapObjectToFloat64OrDeopt t f h heap_object frame_state input_kind feedback =
     (let the_map = LoadMapField h heap_object;
          check_number = TaggedEqual the_map (heap_number_map f);
          loaded = Value (LoadField_Float64 h heap_object ForHeapNumberValue)
      in case input_kind of
           ObjectKind_kSmi \<Rightarrow> Fatal
         | ObjectKind_kNumberOrString \<Rightarrow> Fatal
         | ObjectKind_kNumber \<Rightarrow>
             DeoptimizeIfNot check_number frame_state kNotAHeapNumber feedback loaded
         | ObjectKind_kNumberOrBoolean \<Rightarrow>
             if check_number = 0 then
               DeoptimizeIfNot (TaggedEqual the_map (boolean_map f)) frame_state
                 kNotANumberOrBoolean feedback loaded
             else loaded
         | ObjectKind_kNumberOrOddball \<Rightarrow>
             if check_number = 0 then
               let instance_type = LoadField_Word32 h the_map ForMapInstanceType
               in DeoptimizeIfNot (Word32Equal instance_type (ODDBALL_TYPE t)) frame_state
                    kNotANumberOrOddball feedback loaded
             else loaded)"

definition kMaxSafeIntegerUint64 :: "64 word" where
  "kMaxSafeIntegerUint64 = 9007199254740991"

text \<open>
  \<^verbatim>\<open>ChangeFloat64ToInt32OrDeopt\<close> and \<^verbatim>\<open>ChangeFloat64ToInt64OrDeopt\<close> of the assembler
  emit the operation that \<^verbatim>\<open>ReduceChangeOrDeopt\<close> lowers. In case \<open>kFloat64\<close> both arms of
  the branch are emitted whatever the object is at run time, so the \<^verbatim>\<open>UNREACHABLE()\<close> of
  \<^verbatim>\<open>ConvertHeapObjectToFloat64OrDeopt\<close> aborts for the kinds it does not take.
\<close>

definition ReduceConvertObjectToPrimitiveOrDeopt ::
  "Target \<Rightarrow> Factory \<Rightarrow> Heap \<Rightarrow> Tagged \<Rightarrow> FrameState \<Rightarrow> ObjectKind \<Rightarrow> PrimitiveKind \<Rightarrow>
   CheckForMinusZeroMode \<Rightarrow> FeedbackSource \<Rightarrow> MachineValue Outcome" where
  "ReduceConvertObjectToPrimitiveOrDeopt t f h object frame_state from_kind to_kind
     minus_zero_mode feedback =
     (case to_kind of
        PrimitiveKind_kInt32 \<Rightarrow>
          if from_kind = ObjectKind_kSmi then
            DeoptimizeIfNot (ObjectIsSmi object) frame_state kNotASmi feedback
              (Value (Word32 (SmiUntag t object)))
          else if from_kind \<noteq> ObjectKind_kNumber then Fatal
          else if ObjectIsSmi object \<noteq> 0 then Value (Word32 (SmiUntag t object))
          else
            let the_map = LoadMapField h object
            in DeoptimizeIfNot (TaggedEqual the_map (heap_number_map f)) frame_state
                 kNotAHeapNumber feedback
                 (let heap_number_value = LoadField_Float64 h object ForHeapNumberValue
                  in ReduceChangeOrDeopt t (Float64 heap_number_value) frame_state
                       kFloat64ToInt32 minus_zero_mode feedback)
      | PrimitiveKind_kInt64 \<Rightarrow>
          if from_kind \<noteq> ObjectKind_kNumber then Fatal
          else if ObjectIsSmi object \<noteq> 0
          then Value (Word64 (ChangeInt32ToInt64 (SmiUntag t object)))
          else
            let the_map = LoadMapField h object
            in DeoptimizeIfNot (TaggedEqual the_map (heap_number_map f)) frame_state
                 kNotAHeapNumber feedback
                 (let heap_number_value = LoadField_Float64 h object ForHeapNumberValue
                  in ReduceChangeOrDeopt t (Float64 heap_number_value) frame_state
                       kFloat64ToInt64 minus_zero_mode feedback)
      | PrimitiveKind_kFloat64 \<Rightarrow>
          if from_kind = ObjectKind_kSmi \<or> from_kind = ObjectKind_kNumberOrString then Fatal
          else if ObjectIsSmi object \<noteq> 0
          then Value (Float64 (ChangeInt32ToFloat64 (SmiUntag t object)))
          else
            bind_outcome
              (ConvertHeapObjectToFloat64OrDeopt t f h object frame_state from_kind feedback)
              (\<lambda>v. Value (Float64 v))
      | PrimitiveKind_kArrayIndex \<Rightarrow>
          if from_kind \<noteq> ObjectKind_kNumberOrString then Fatal
          else if ObjectIsSmi object \<noteq> 0 then Value (ChangeInt32ToIntPtr t (SmiUntag t object))
          else
            let the_map = LoadMapField h object in
            if TaggedEqual the_map (heap_number_map f) \<noteq> 0 then
              let heap_number_value = LoadField_Float64 h object ForHeapNumberValue in
              if Is64 t then
                let i64 = TruncateFloat64ToInt64OverflowUndefined t heap_number_value in
                DeoptimizeIfNot (Float64Equal (ChangeInt64ToFloat64 i64) heap_number_value)
                  frame_state kLostPrecisionOrNaN feedback
                  (DeoptimizeIfNot (Int64LessThan i64 kMaxSafeIntegerUint64) frame_state
                     kNotAnArrayIndex feedback
                     (DeoptimizeIfNot (Int64LessThan (- kMaxSafeIntegerUint64) i64) frame_state
                        kNotAnArrayIndex feedback (Value (Word64 i64))))
              else
                let i32 = TruncateFloat64ToInt32OverflowUndefined t heap_number_value in
                DeoptimizeIfNot (Float64Equal (ChangeInt32ToFloat64 i32) heap_number_value)
                  frame_state kLostPrecisionOrNaN feedback (Value (Word32 i32))
            else
              let instance_type = LoadField_Word32 h the_map ForMapInstanceType in
              DeoptimizeIfNot (Uint32LessThan instance_type (FIRST_NONSTRING_TYPE t))
                frame_state kNotAString feedback
                (let call = string_to_array_index_function h object in
                 if Is64 t then
                   let index = (scast call :: 64 word) in
                   DeoptimizeIf (Word64Equal index (- 1)) frame_state kNotAnArrayIndex feedback
                     (Value (Word64 index))
                 else
                   DeoptimizeIf (Word32Equal call (- 1)) frame_state kNotAnArrayIndex feedback
                     (Value (Word32 call))))"

section \<open>ReduceNewConsString\<close>

text \<open>
  The tag of a two-byte string is 0, as the \<^verbatim>\<open>static_assert\<close> of the method states; the
  mask of the encoding bits is a constant of the target.
\<close>

definition kTwoByteStringTag :: "32 word" where
  "kTwoByteStringTag = 0"

definition ReduceNewConsString ::
  "Target \<Rightarrow> Factory \<Rightarrow> Heap \<Rightarrow> MachineValue \<Rightarrow> Tagged \<Rightarrow> Tagged \<Rightarrow> Effects \<Rightarrow>
   (Tagged \<times> Effects) Outcome" where
  "ReduceNewConsString t f h length_operand first second s =
     (let first_map = LoadMapField h first;
          first_type = LoadField_Word32 h first_map ForMapInstanceType;
          second_map = LoadMapField h second;
          second_type = LoadField_Word32 h second_map ForMapInstanceType;
          instance_type = first_type AND second_type;
          encoding = instance_type AND kStringEncodingMask t;
          the_map = (if Word32Equal encoding kTwoByteStringTag \<noteq> 0 then cons_string_map f
                     else cons_one_byte_string_map f);
          (string, s1) = Allocate ConsString_kSize kYoung s;
          s2 = StoreField string ForMap (TaggedValue the_map) s1;
          s3 = StoreField string ForNameRawHashField (Word32 (Name_kEmptyHashField t)) s2;
          s4 = StoreField string ForStringLength length_operand s3;
          s5 = StoreField string ForConsStringFirst (TaggedValue first) s4;
          s6 = StoreField string ForConsStringSecond (TaggedValue second) s5
      in Value (string, s6))"

section \<open>ReduceNewArray\<close>

datatype NewArrayOp_Kind = NewArray_kDouble | NewArray_kObject

text \<open>
  The loop that fills the backing store with holes: the index and the length are words of
  pointer width, compared unsigned. The element index of a store is the number the index
  word holds.
\<close>

function NewArray_loop ::
  "Tagged \<Rightarrow> ElementAccess \<Rightarrow> MachineValue \<Rightarrow> 'w::len word \<Rightarrow> 'w word \<Rightarrow> Effects \<Rightarrow> Effects" where
  "NewArray_loop array access the_hole array_length index s =
     (if index < array_length then
        NewArray_loop array access the_hole array_length (index + 1)
          (StoreElement array access (unat index) the_hole s)
      else s)"
  by pat_completeness auto
termination
proof (relation "measure (\<lambda>(array, access, the_hole, array_length, index, s).
                   unat array_length - unat index)", goal_cases)
  case 1
  show ?case by simp
next
  case (2 array access the_hole array_length index s)
  then have "index \<noteq> - 1"
    by (metis word_order.extremum_strict)
  then have "1 + index \<noteq> 0"
    by (metis add.commute add_eq_0_iff)
  then have "unat (index + 1) = Suc (unat index)"
    by (simp add: unatSuc add.commute)
  moreover from 2 have "unat index < unat array_length"
    by (simp add: word_less_nat_alt)
  ultimately show ?case
    by simp
qed

declare NewArray_loop.simps [simp del]

text \<open>
  The subgraph for a length of pointer width \<open>'w\<close>. The size of the backing store is
  computed in words of that width; the length is tagged from its low 32 bits.
\<close>

definition WordPtrEqual :: "'w::len word \<Rightarrow> 'w word \<Rightarrow> 32 word" where
  "WordPtrEqual a b = (if a = b then 1 else 0)"

definition NewArray_of_length ::
  "Target \<Rightarrow> Factory \<Rightarrow> Heap \<Rightarrow> 'w::len word \<Rightarrow> NewArrayOp_Kind \<Rightarrow> AllocationType \<Rightarrow> Effects \<Rightarrow>
   (Tagged \<times> Effects) Outcome" where
  "NewArray_of_length t f h array_length kind allocation_type s =
     GOTO_IF (WordPtrEqual array_length 0) (Value (empty_fixed_array f, s))
       (let (size_log2, array_map, access, the_hole) =
              (case kind of
                 NewArray_kDouble \<Rightarrow>
                   (kDoubleSizeLog2 t, fixed_double_array_map f,
                    \<lparr>base_is_tagged = kTaggedBase, header_size = FixedDoubleArray_kHeaderSize t,
                     element_type = Type_NumberOrHole, machine_type = MachineType_Float64,
                     write_barrier_kind = kNoWriteBarrier\<rparr>,
                    Float64 (LoadField_Float64 h (the_hole_value f) ForHeapNumberValue))
               | NewArray_kObject \<Rightarrow>
                   (kTaggedSizeLog2 t, fixed_array_map f,
                    \<lparr>base_is_tagged = kTaggedBase, header_size = FixedArray_kHeaderSize t,
                     element_type = Type_Any, machine_type = MachineType_AnyTagged,
                     write_barrier_kind = kNoWriteBarrier\<rparr>,
                    TaggedValue (the_hole_value f)));
            size_in_bytes = push_bit size_log2 array_length + word_of_nat (header_size access);
            (array, s1) = Allocate (SizeInBytes (unat size_in_bytes)) allocation_type s;
            s2 = StoreField array ForMap (TaggedValue array_map) s1;
            s3 = StoreField array ForFixedArrayLength
                   (TaggedValue (SmiTag t (ucast array_length))) s2
        in Value (array, NewArray_loop array access the_hole array_length 0 s3))"

definition ReduceNewArray ::
  "Target \<Rightarrow> Factory \<Rightarrow> Heap \<Rightarrow> MachineValue \<Rightarrow> NewArrayOp_Kind \<Rightarrow> AllocationType \<Rightarrow> Effects \<Rightarrow>
   (Tagged \<times> Effects) Outcome" where
  "ReduceNewArray t f h length_operand kind allocation_type s =
     (if Is64 t then NewArray_of_length t f h (as_Word64 t length_operand) kind allocation_type s
      else NewArray_of_length t f h (as_Word32 t length_operand) kind allocation_type s)"

section \<open>ReduceDoubleArrayMinMax\<close>

datatype DoubleArrayMinMaxOp_Kind = kMin | kMax

text \<open>
  Modelled from the spec: \<^verbatim>\<open>Float64Max\<close> and \<^verbatim>\<open>Float64Min\<close> of the assembler. A NaN
  operand gives a NaN; of the two zeros, the positive one is the larger.
\<close>

definition V8_INFINITY :: float64 where
  "V8_INFINITY = 0x7FF0000000000000"

definition minus_V8_INFINITY :: float64 where
  "minus_V8_INFINITY = 0xFFF0000000000000"

definition f64_order_key :: "float64 \<Rightarrow> int" where
  "f64_order_key x =
     (if f64_sign x then - int (unat (take_bit 63 x)) else int (unat (take_bit 63 x)))"

definition Float64LessThan :: "float64 \<Rightarrow> float64 \<Rightarrow> 32 word" where
  "Float64LessThan a b =
     (if \<not> f64_is_nan a \<and> \<not> f64_is_nan b \<and> f64_order_key a < f64_order_key b then 1 else 0)"

definition Float64Max :: "float64 \<Rightarrow> float64 \<Rightarrow> float64" where
  "Float64Max a b =
     (if f64_is_nan a then a
      else if f64_is_nan b then b
      else if Float64LessThan a b \<noteq> 0 then b
      else if Float64LessThan b a \<noteq> 0 then a
      else if f64_sign a then b else a)"

definition Float64Min :: "float64 \<Rightarrow> float64 \<Rightarrow> float64" where
  "Float64Min a b =
     (if f64_is_nan a then a
      else if f64_is_nan b then b
      else if Float64LessThan a b \<noteq> 0 then a
      else if Float64LessThan b a \<noteq> 0 then b
      else if f64_sign a then a else b)"

text \<open>
  The loop bound to the label \<open>loop\<close>: the index and the array length are words of pointer
  width, compared unsigned.
\<close>

function DoubleArrayMinMax_loop ::
  "bool \<Rightarrow> Heap \<Rightarrow> Tagged \<Rightarrow> 'w::len word \<Rightarrow> 'w word \<Rightarrow> float64 \<Rightarrow> float64" where
  "DoubleArrayMinMax_loop is_max h elements array_length index accumulator =
     (if index < array_length then
        let element = ForFixedDoubleArrayElement h elements (unat index);
            new_accumulator = (if is_max then Float64Max accumulator element
                               else Float64Min accumulator element)
        in DoubleArrayMinMax_loop is_max h elements array_length (index + 1) new_accumulator
      else accumulator)"
  by pat_completeness auto
termination
proof (relation "measure (\<lambda>(is_max, h, elements, array_length, index, accumulator).
                   unat array_length - unat index)", goal_cases)
  case 1
  show ?case by simp
next
  case (2 is_max h elements array_length index accumulator x xa)
  from 2 have "index \<noteq> - 1"
    by (metis word_order.extremum_strict)
  then have "1 + index \<noteq> 0"
    by (metis add.commute add_eq_0_iff)
  then have "unat (index + 1) = Suc (unat index)"
    by (simp add: unatSuc add.commute)
  moreover from 2 have "unat index < unat array_length"
    by (simp add: word_less_nat_alt)
  ultimately show ?case
    by simp
qed

declare DoubleArrayMinMax_loop.simps [simp del]

text \<open>
  \<^verbatim>\<open>ConvertFloat64ToNumber\<close> of the assembler emits the boxing that
  \<^verbatim>\<open>ReduceConvertToObject\<close> lowers, for a signed float operand of kind \<open>kNumber\<close>.
\<close>

definition ConvertFloat64ToNumber ::
  "Target \<Rightarrow> Factory \<Rightarrow> Heap \<Rightarrow> float64 \<Rightarrow> CheckForMinusZeroMode \<Rightarrow> Effects \<Rightarrow>
   (Tagged \<times> Effects) Outcome" where
  "ConvertFloat64ToNumber t f h input minus_zero_mode s =
     ReduceConvertToObject t f h (Float64 input) ConvertToObject_kNumber Rep_Float64 kSigned
       minus_zero_mode s"

definition ReduceDoubleArrayMinMax ::
  "Target \<Rightarrow> Factory \<Rightarrow> Heap \<Rightarrow> Tagged \<Rightarrow> DoubleArrayMinMaxOp_Kind \<Rightarrow> Effects \<Rightarrow>
   (Tagged \<times> Effects) Outcome" where
  "ReduceDoubleArrayMinMax t f h array kind s =
     (let is_max = (kind = kMax);
          empty_value = (if is_max then minus_V8_INFINITY else V8_INFINITY);
          length32 = SmiUntag t (LoadField_Tagged h array ForJSArrayLength);
          elements = LoadField_Tagged h array ForJSObjectElements;
          result =
            (if Is64 t
             then DoubleArrayMinMax_loop is_max h elements (scast length32 :: 64 word) 0 empty_value
             else DoubleArrayMinMax_loop is_max h elements length32 0 empty_value)
      in ConvertFloat64ToNumber t f h result kCheckForMinusZero s)"

section \<open>ReduceLoadFieldByIndex\<close>

text \<open>
  The subgraph for an index of pointer width \<open>'w\<close>. A load takes the base, the index (here
  the signed number the index word holds), the offset and the binary logarithm of the
  element size, in the order of the operands of \<^verbatim>\<open>Load\<close>.
\<close>

definition LoadFieldByIndex_of_index ::
  "Target \<Rightarrow> Factory \<Rightarrow> Heap \<Rightarrow> Tagged \<Rightarrow> 'w::len word \<Rightarrow> Effects \<Rightarrow> (Tagged \<times> Effects) Outcome" where
  "LoadFieldByIndex_of_index t f h object index s =
     (if index AND 1 \<noteq> 0 then
        let double_index = signed_drop_bit 1 index;
            field =
              (if sint double_index < 0 then
                 let properties =
                       LoadField_Tagged h object ForJSObjectPropertiesOrHashKnownPointer;
                     out_of_object_index = 0 - double_index
                 in Load_AnyTagged h properties (sint out_of_object_index)
                      (int (FixedArray_kHeaderSize t) - int (kTaggedSize t))
                      (int (kTaggedSizeLog2 t))
               else Load_AnyTagged h object (sint double_index) (int (JSObject_kHeaderSize t))
                      (int (kTaggedSizeLog2 t)))
        in GOTO_IF (ObjectIsSmi field) (Value (field, s))
             (let the_map = LoadField_Tagged h field ForMap
              in GOTO_IF_NOT (TaggedEqual the_map (heap_number_map f)) (Value (field, s))
                   (let v = LoadField_Float64 h field ForHeapNumberValue
                    in Value (AllocateHeapNumberWithValue f v s)))
      else if sint index < 0 then
        let properties = LoadField_Tagged h object ForJSObjectPropertiesOrHashKnownPointer;
            out_of_object_index = 0 - index
        in Value (Load_AnyTagged h properties (sint out_of_object_index)
                    (int (FixedArray_kHeaderSize t) - int (kTaggedSize t))
                    (int (kTaggedSizeLog2 t) - 1), s)
      else
        Value (Load_AnyTagged h object (sint index) (int (JSObject_kHeaderSize t))
                 (int (kTaggedSizeLog2 t) - 1), s))"

definition ReduceLoadFieldByIndex ::
  "Target \<Rightarrow> Factory \<Rightarrow> Heap \<Rightarrow> Tagged \<Rightarrow> 32 word \<Rightarrow> Effects \<Rightarrow> (Tagged \<times> Effects) Outcome" where
  "ReduceLoadFieldByIndex t f h object field_index s =
     (if Is64 t then LoadFieldByIndex_of_index t f h object (scast field_index :: 64 word) s
      else LoadFieldByIndex_of_index t f h object field_index s)"

section \<open>Notions used by the properties\<close>

text \<open>The reasons the specification lists for the deoptimization edges of the reducer.\<close>

definition reducer_vocabulary :: "DeoptimizeReason set" where
  "reducer_vocabulary =
     {kLostPrecision, kLostPrecisionOrNaN, kMinusZero, kNotAHeapNumber, kNotANumberOrBoolean,
      kNotANumberOrOddball, kNotAString, kNotAnArrayIndex, kNotASmi}"

text \<open>The representation of a run-time value: a static property of the operand.\<close>

fun rep_of :: "MachineValue \<Rightarrow> RegisterRepresentation" where
  "rep_of (Word32 v) = Rep_Word32"
| "rep_of (Word64 v) = Rep_Word64"
| "rep_of (Float64 v) = Rep_Float64"
| "rep_of (TaggedValue v) = Rep_Tagged"

text \<open>
  Reading a \<^verbatim>\<open>BitField\<close>: \<^verbatim>\<open>decode\<close> masks the field and shifts it down. The sign and
  the digit count of an arbitrary-precision integer are read this way from its bit field.
\<close>

definition BitField_decode :: "nat \<Rightarrow> nat \<Rightarrow> 32 word \<Rightarrow> 32 word" where
  "BitField_decode shift width v = drop_bit shift (v AND BitField_kMask shift width)"

definition SignBits_decode :: "32 word \<Rightarrow> bool" where
  "SignBits_decode v = (BitField_decode SignBits_kShift 1 v \<noteq> 0)"

definition LengthBits_decode :: "32 word \<Rightarrow> 32 word" where
  "LengthBits_decode v = BitField_decode LengthBits_kShift 30 v"

text \<open>
  A float holds the integer \<open>i\<close> exactly: it is finite, it has no fractional part, and its
  integer part is \<open>i\<close>.
\<close>

definition f64_is_integral :: "float64 \<Rightarrow> bool" where
  "f64_is_integral x =
     (f64_exponent x \<noteq> 2047
      \<and> (1075 \<le> f64_scale x \<or> 2 ^ (1075 - f64_scale x) dvd f64_mantissa x))"

definition f64_holds_exactly :: "float64 \<Rightarrow> int \<Rightarrow> bool" where
  "f64_holds_exactly x i = (f64_is_integral x \<and> f64_trunc x = i)"

text \<open>
  The two 16-bit units of a string of length two, in the order of their addresses, read
  back from the 32-bit word stored at the start of the characters.
\<close>

definition first_unit :: "Target \<Rightarrow> 32 word \<Rightarrow> 32 word" where
  "first_unit t code = (if V8_TARGET_BIG_ENDIAN t then drop_bit 16 code else code AND 0xFFFF)"

definition second_unit :: "Target \<Rightarrow> 32 word \<Rightarrow> 32 word" where
  "second_unit t code = (if V8_TARGET_BIG_ENDIAN t then code AND 0xFFFF else drop_bit 16 code)"

text \<open>
  The decoding of a surrogate pair in the words of the specification, with \<open>low\<close> the lead
  unit and \<open>high\<close> the trail unit, and the same decoding without the final addition.
\<close>

definition spec_surrogate_decode :: "32 word \<Rightarrow> 32 word \<Rightarrow> 32 word" where
  "spec_surrogate_decode low high =
     ((high - 0xDC00) OR push_bit 10 (low - (0xD800 - drop_bit 10 0x10000))) + 0x10000"

definition surrogate_decode :: "32 word \<Rightarrow> 32 word \<Rightarrow> 32 word" where
  "surrogate_decode low high =
     (high - 0xDC00) OR push_bit 10 (low - (0xD800 - drop_bit 10 0x10000))"

text \<open>
  The operations that allocate an arbitrary-precision integer at a reference and initialise
  it with a bit field and, when it has one, a digit.
\<close>

definition bigint_box ::
  "Target \<Rightarrow> Factory \<Rightarrow> Tagged \<Rightarrow> 32 word \<Rightarrow> 64 word option \<Rightarrow> Operation list" where
  "bigint_box t f r bitfield digit =
     [AllocateOp r (BigInt_SizeFor (case digit of None \<Rightarrow> 0 | Some d \<Rightarrow> 1)) kYoung,
      StoreFieldOp r ForMap (TaggedValue (bigint_map f)),
      StoreFieldOp r ForBigIntBitfield (Word32 bitfield)] @
     (if BigInt_HasOptionalPadding t
      then [StoreFieldOp r ForBigIntOptionalPadding (IntPtrConstant t 0)] else []) @
     (case digit of
        None \<Rightarrow> []
      | Some d \<Rightarrow> [StoreFieldOp r ForBigIntLeastSignificantDigit64 (Word64 d)])"

text \<open>
  The number of elements the loop of \<^verbatim>\<open>ReduceDoubleArrayMinMax\<close> visits, the untagged
  length of the array widened to a word of pointer width and read unsigned, and the elements
  it loads, in the order of the loop.
\<close>

definition array_length_of :: "Target \<Rightarrow> Heap \<Rightarrow> Tagged \<Rightarrow> nat" where
  "array_length_of t h array =
     (let length32 = SmiUntag t (LoadField_Tagged h array ForJSArrayLength)
      in if Is64 t then unat (scast length32 :: 64 word) else unat length32)"

definition array_elements :: "Target \<Rightarrow> Heap \<Rightarrow> Tagged \<Rightarrow> float64 list" where
  "array_elements t h array =
     map (ForFixedDoubleArrayElement h (LoadField_Tagged h array ForJSObjectElements))
       [0 ..< array_length_of t h array]"

text \<open>A 64-bit target used for the concrete instances below.\<close>

definition example_target :: Target where
  "example_target =
     \<lparr>Is64 = True, SmiValuesAre32Bits = False, V8_TARGET_BIG_ENDIAN = False,
      BigInt_HasOptionalPadding = False,
      TruncateFloat64ToInt32_overflow = (\<lambda>x. 0x80000000),
      TruncateFloat64ToInt64_overflow = (\<lambda>x. 0x8000000000000000),
      ReversibleFloat64ToInt32 = (\<lambda>x. 0x80000000),
      ReversibleFloat64ToInt64 = (\<lambda>x. 0x8000000000000000),
      ReversibleFloat64ToUint32 = (\<lambda>x. 0),
      SmiUntag_of_reference = (\<lambda>a. word_of_nat a),
      IsCallableBit_kShift = 1, IsConstructorBit_kShift = 6, IsUndetectableBit_kShift = 4,
      FIRST_JS_RECEIVER_TYPE = 0x10C, FIRST_NONSTRING_TYPE = 0x80, SYMBOL_TYPE = 0x80,
      ODDBALL_TYPE = 0x83, FIRST_JS_ARRAY_BUFFER_VIEW_TYPE = 0x800,
      LAST_JS_ARRAY_BUFFER_VIEW_TYPE = 0x802,
      kMaxOneByteCharCode = 0xFF, Name_kEmptyHashField = 3, kStringEncodingMask = 8,
      kDoubleSizeLog2 = 3, kTaggedSizeLog2 = 2, kTaggedSize = 4, FixedArray_kHeaderSize = 8,
      FixedDoubleArray_kHeaderSize = 8, JSObject_kHeaderSize = 12,
      Word64_of_operand = (\<lambda>v. 0), Float64_of_operand = (\<lambda>v. 0)\<rparr>"

definition example_factory :: Factory where
  "example_factory =
     \<lparr>bigint_map = HeapObject 1, heap_number_map = HeapObject 2, boolean_map = HeapObject 3,
      string_map = HeapObject 4, true_value = HeapObject 5, false_value = HeapObject 6,
      single_character_string_table = HeapObject 7, cons_string_map = HeapObject 8,
      cons_one_byte_string_map = HeapObject 9, empty_fixed_array = HeapObject 10,
      fixed_double_array_map = HeapObject 11, fixed_array_map = HeapObject 12,
      the_hole_value = HeapObject 13\<rparr>"

text \<open>
  A heap for the concrete instances: object 20 is the arbitrary-precision integer
  \<open>- 2 ^ 63\<close>; object 21 has the map 30, which is neither callable nor of a receiver type;
  objects 40, 41 and 42 are the float boxes of 0.5, of \<open>2 ^ 53 - 2\<close> and of
  \<open>2 ^ 53 - 1\<close>; object 50 is an array of length 3 whose elements, in the buffer 51, are 3.0, -1.0 and 7.5;
  objects 61 and 62 are strings, of which only the second is an array index, 7; the table of
  single character strings holds object \<open>100 + i\<close> at index \<open>i\<close>.
\<close>

definition example_heap :: Heap where
  "example_heap =
     \<lparr>word_field = (\<lambda>base access.
        if base = HeapObject 20 \<and> access = ForBigIntBitfield then 3
        else if base = HeapObject 20 \<and> access = ForBigIntLeastSignificantDigit64
          then 0x8000000000000000
        else if base = HeapObject 30 \<and> access = ForMapInstanceType then 0x80
        else if base = HeapObject 63 \<and> access = ForMapInstanceType then 0x10
        else if base = HeapObject 40 \<and> access = ForHeapNumberValue then 0x3FE0000000000000
        else if base = HeapObject 41 \<and> access = ForHeapNumberValue then 0x433FFFFFFFFFFFFE
        else if base = HeapObject 42 \<and> access = ForHeapNumberValue then 0x433FFFFFFFFFFFFF
        else 0),
      tagged_field = (\<lambda>base access.
        if base = HeapObject 20 \<and> access = ForMap then HeapObject 1
        else if base = HeapObject 21 \<and> access = ForMap then HeapObject 30
        else if base = HeapObject 40 \<and> access = ForMap then HeapObject 2
        else if base = HeapObject 41 \<and> access = ForMap then HeapObject 2
        else if base = HeapObject 42 \<and> access = ForMap then HeapObject 2
        else if base = HeapObject 61 \<and> access = ForMap then HeapObject 63
        else if base = HeapObject 62 \<and> access = ForMap then HeapObject 63
        else if base = HeapObject 50 \<and> access = ForJSArrayLength then Smi 3
        else if base = HeapObject 50 \<and> access = ForJSObjectElements then HeapObject 51
        else HeapObject 0),
      ForFixedArrayElement = (\<lambda>base index. HeapObject (100 + index)),
      ForFixedDoubleArrayElement = (\<lambda>base index.
        if base = HeapObject 51 \<and> index = 0 then 0x4008000000000000
        else if base = HeapObject 51 \<and> index = 1 then 0xBFF0000000000000
        else if base = HeapObject 51 \<and> index = 2 then 0x401E000000000000
        else 0),
      string_to_array_index_function = (\<lambda>base. if base = HeapObject 62 then 7 else - 1),
      Load_AnyTagged = (\<lambda>base index offset element_size_log2. HeapObject 0)\<rparr>"

definition example_effects :: Effects where
  "example_effects = \<lparr>next_object = 1000, operations = []\<rparr>"

section \<open>Failure channels\<close>

lemma as_Word32_simps [simp]:
  "as_Word32 t (Word32 w) = w" "as_Word32 t (Word64 v) = ucast v"
  by (simp_all add: as_Word32_def)

lemma as_Word64_simps [simp]: "as_Word64 t (Word64 v) = v"
  by (simp add: as_Word64_def)

lemma as_Float64_simps [simp]: "as_Float64 t (Float64 x) = x"
  by (simp add: as_Float64_def)

lemma ReduceChangeOrDeopt_simps [simp]:
  "ReduceChangeOrDeopt t (Word32 w) fs kUint32ToInt32 mz fb =
     DeoptimizeIf (Int32LessThan w 0) fs kLostPrecision fb (Value (Word32 w))"
  "ReduceChangeOrDeopt t (Word64 v) fs kInt64ToInt32 mz fb =
     (let i32 = (ucast v :: 32 word) in
      DeoptimizeIfNot (Word64Equal (ChangeInt32ToInt64 i32) v) fs kLostPrecision fb
        (Value (Word32 i32)))"
  "ReduceChangeOrDeopt t (Word64 v) fs kUint64ToInt32 mz fb =
     DeoptimizeIfNot (Uint64LessThanOrEqual v kMaxInt) fs kLostPrecision fb (Value (Word64 v))"
  "ReduceChangeOrDeopt t (Word64 v) fs kUint64ToInt64 mz fb =
     DeoptimizeIfNot (Uint64LessThanOrEqual v int64_max) fs kLostPrecision fb
       (Value (Word64 v))"
  "ReduceChangeOrDeopt t (Float64 x) fs kFloat64ToInt32 mz fb =
     (let i32 = TruncateFloat64ToInt32OverflowUndefined t x in
      DeoptimizeIfNot (Float64Equal (ChangeInt32ToFloat64 i32) x) fs kLostPrecisionOrNaN fb
        (if mz = kCheckForMinusZero \<and> Word32Equal i32 0 \<noteq> 0
         then DeoptimizeIf (Int32LessThan (Float64ExtractHighWord32 x) 0) fs kMinusZero fb
                (Value (Word32 i32))
         else Value (Word32 i32)))"
  "ReduceChangeOrDeopt t (Float64 x) fs kFloat64ToInt64 mz fb =
     (let i64 = TruncateFloat64ToInt64OverflowUndefined t x in
      DeoptimizeIfNot (Float64Equal (ChangeInt64ToFloat64 i64) x) fs kLostPrecisionOrNaN fb
        (if mz = kCheckForMinusZero \<and> Word64Equal i64 0 \<noteq> 0
         then DeoptimizeIf (Int32LessThan (Float64ExtractHighWord32 x) 0) fs kMinusZero fb
                (Value (Word64 i64))
         else Value (Word64 i64)))"
  by (simp_all add: ReduceChangeOrDeopt_def Let_def cong: if_cong)

lemma ReduceChangeOrDeopt_reason:
  "ReduceChangeOrDeopt t input fs kind mz fb = Deoptimize fs' r fb'
   \<Longrightarrow> r \<in> reducer_vocabulary \<and> fs' = fs \<and> fb' = fb"
  by (cases kind)
     (auto simp: ReduceChangeOrDeopt_def reducer_vocabulary_def DeoptimizeIf_def
                 DeoptimizeIfNot_def Let_def split: if_splits)

lemma ReduceChangeOrDeopt_Fatal:
  "ReduceChangeOrDeopt t input fs kind mz fb \<noteq> Fatal"
  by (cases kind)
     (auto simp: ReduceChangeOrDeopt_def DeoptimizeIf_def DeoptimizeIfNot_def Let_def)

lemma ConvertHeapObjectToFloat64OrDeopt_reason:
  "ConvertHeapObjectToFloat64OrDeopt t f h object fs kind fb = Deoptimize fs' r fb'
   \<Longrightarrow> r \<in> reducer_vocabulary \<and> fs' = fs \<and> fb' = fb"
  by (cases kind)
     (auto simp: ConvertHeapObjectToFloat64OrDeopt_def reducer_vocabulary_def
                 DeoptimizeIfNot_def Let_def split: if_splits)

lemma ReduceConvertObjectToPrimitiveOrDeopt_reason:
  "ReduceConvertObjectToPrimitiveOrDeopt t f h object fs from_kind to_kind mz fb
     = Deoptimize fs' r fb'
   \<Longrightarrow> r \<in> reducer_vocabulary \<and> fs' = fs \<and> fb' = fb"
  apply (cases to_kind)
  apply (auto simp: ReduceConvertObjectToPrimitiveOrDeopt_def 
                 DeoptimizeIf_def DeoptimizeIfNot_def Let_def bind_outcome_def
           split: if_splits Outcome.splits 
           dest: ReduceChangeOrDeopt_reason ConvertHeapObjectToFloat64OrDeopt_reason)
  apply (auto simp: reducer_vocabulary_def)
  done

lemma ReduceObjectIs_no_deopt:
  "ReduceObjectIs t f h input kind ia \<noteq> Deoptimize fs' r fb'"
  by (cases kind)
     (auto simp: ReduceObjectIs_def ObjectIs_BigInt_def ObjectIs_MapBits_def
                 ObjectIs_InstanceType_def Let_def)

lemma ReduceObjectIs_Fatal:
  "ReduceObjectIs t f h input kind ia = Fatal \<longleftrightarrow> (kind = ObjectIs_kBigInt64 \<and> \<not> Is64 t)"
  by (cases kind)
     (auto simp: ReduceObjectIs_def ObjectIs_BigInt_def ObjectIs_MapBits_def
                 ObjectIs_InstanceType_def Let_def)

lemma ReduceConvertObjectToPrimitive_no_deopt:
  "ReduceConvertObjectToPrimitive t f h object kind ia \<noteq> Deoptimize fs' r fb'"
  by (cases kind) (auto simp: ReduceConvertObjectToPrimitive_def Let_def)


lemma AllocateBigInt_no_deopt: "AllocateBigInt t f b d s \<noteq> Deoptimize fs' r fb'"
  by (simp add: AllocateBigInt_def Let_def split: prod.splits)

lemma SmiTagOrOverflow_no_deopt:
  "overflow \<noteq> Deoptimize fs' r fb' \<Longrightarrow> (\<And>x. done x \<noteq> Deoptimize fs' r fb')
   \<Longrightarrow> SmiTagOrOverflow t input overflow done \<noteq> Deoptimize fs' r fb'"
  by (simp add: SmiTagOrOverflow_def GOTO_IF_def Let_def)

lemma ConvertToObject_BigInt_no_deopt:
  "ConvertToObject_BigInt t f input rep interp s \<noteq> Deoptimize fs' r fb'"
  by (cases input)
     (auto simp: ConvertToObject_BigInt_def bind_outcome_def GOTO_IF_def Let_def
                 AllocateBigInt_no_deopt split: Outcome.splits)

lemma ConvertToObject_Number_no_deopt:
  "ConvertToObject_Number t f input rep interp mz s \<noteq> Deoptimize fs' r fb'"
  by (cases input; cases interp)
     (auto simp: ConvertToObject_Number_def GOTO_IF_def GOTO_IF_NOT_def Let_def
                 SmiTagOrOverflow_def)

lemma ConvertToObject_String_no_deopt:
  "ConvertToObject_String t f h input interp s \<noteq> Deoptimize fs' r fb'"
  by (cases input) (auto simp: ConvertToObject_String_def)

lemma ReduceConvertToObject_no_deopt:
  "ReduceConvertToObject t f h input kind rep interp mz s \<noteq> Deoptimize fs' r fb'"
  by (cases kind; cases input)
     (auto simp: ReduceConvertToObject_def ConvertToObject_BigInt_no_deopt
                 ConvertToObject_Number_no_deopt ConvertToObject_String_no_deopt)

lemma AllocateBigInt_Fatal:
  "AllocateBigInt t f b d s = Fatal \<longleftrightarrow> \<not> Is64 t \<or> (b = None) \<noteq> (d = None)"
  by (simp add: AllocateBigInt_def Let_def split: prod.splits)

lemma SmiTagOrOverflow_Fatal:
  "overflow \<noteq> Fatal \<Longrightarrow> (\<And>x. done x \<noteq> Fatal)
   \<Longrightarrow> SmiTagOrOverflow t input overflow done = Fatal \<longleftrightarrow> SmiValuesAre32Bits t"
  by (simp add: SmiTagOrOverflow_def GOTO_IF_def Let_def)

lemma ConvertToObject_BigInt_Fatal:
  "ConvertToObject_BigInt t f input rep interp s = Fatal \<longleftrightarrow>
   \<not> Is64 t \<or> rep \<noteq> Rep_Word64 \<or> (interp \<noteq> kSigned \<and> interp \<noteq> kUnsigned)
   \<or> rep_of input \<noteq> Rep_Word64"
  by (cases input)
     (auto simp: ConvertToObject_BigInt_def bind_outcome_def GOTO_IF_def Let_def
                 AllocateBigInt_def split: Outcome.splits prod.splits)

lemma ConvertToObject_Number_Fatal:
  "ConvertToObject_Number t f input rep interp mz s = Fatal \<longleftrightarrow>
   (rep \<noteq> Rep_Word32 \<and> rep \<noteq> Rep_Word64 \<and> rep \<noteq> Rep_Float64) \<or> rep_of input \<noteq> rep
   \<or> (rep \<noteq> Rep_Float64 \<and> interp \<noteq> kSigned \<and> interp \<noteq> kUnsigned)"
  by (cases input; cases interp)
     (auto simp: ConvertToObject_Number_def GOTO_IF_def GOTO_IF_NOT_def Let_def
                 SmiTagOrOverflow_def)

lemma ConvertToObject_String_Fatal:
  "ConvertToObject_String t f h input interp s = Fatal \<longleftrightarrow>
   rep_of input \<noteq> Rep_Word32 \<or> (interp \<noteq> kCharCode \<and> interp \<noteq> kCodePoint)"
  by (cases input) (auto simp: ConvertToObject_String_def)

lemma ReduceConvertToObject_Fatal_static:
  "rep_of input = rep_of input' \<Longrightarrow>
   ReduceConvertToObject t f h input kind rep interp mz s = Fatal \<longleftrightarrow>
   ReduceConvertToObject t f' h' input' kind rep interp mz' s' = Fatal"
  by (cases kind; cases input; cases input')
     (auto simp: ReduceConvertToObject_def ConvertToObject_BigInt_Fatal
                 ConvertToObject_Number_Fatal ConvertToObject_String_Fatal)

lemma ReduceConvertObjectToPrimitive_Fatal_static:
  "ReduceConvertObjectToPrimitive t f h object kind ia = Fatal \<longleftrightarrow>
   ReduceConvertObjectToPrimitive t f' h' object' kind ia = Fatal"
  by (cases kind) (auto simp: ReduceConvertObjectToPrimitive_def Let_def)

lemma ConvertHeapObjectToFloat64OrDeopt_Fatal:
  "ConvertHeapObjectToFloat64OrDeopt t f h object fs kind fb = Fatal \<longleftrightarrow>
   kind = ObjectKind_kSmi \<or> kind = ObjectKind_kNumberOrString"
  by (cases kind)
     (auto simp: ConvertHeapObjectToFloat64OrDeopt_def DeoptimizeIfNot_def Let_def)

lemma ReduceConvertObjectToPrimitiveOrDeopt_Fatal:
  "ReduceConvertObjectToPrimitiveOrDeopt t f h object fs from_kind to_kind mz fb = Fatal \<longleftrightarrow>
   (case to_kind of
      PrimitiveKind_kInt32 \<Rightarrow> from_kind \<noteq> ObjectKind_kSmi \<and> from_kind \<noteq> ObjectKind_kNumber
    | PrimitiveKind_kInt64 \<Rightarrow> from_kind \<noteq> ObjectKind_kNumber
    | PrimitiveKind_kFloat64 \<Rightarrow>
        from_kind = ObjectKind_kSmi \<or> from_kind = ObjectKind_kNumberOrString
    | PrimitiveKind_kArrayIndex \<Rightarrow> from_kind \<noteq> ObjectKind_kNumberOrString)"
  by (cases to_kind)
     (auto simp: ReduceConvertObjectToPrimitiveOrDeopt_def DeoptimizeIf_def
                 DeoptimizeIfNot_def Let_def bind_outcome_def ReduceChangeOrDeopt_Fatal
                 ConvertHeapObjectToFloat64OrDeopt_Fatal ChangeInt32ToIntPtr_def
           split: Outcome.splits)


lemma ReduceDoubleArrayMinMax_no_deopt:
  "ReduceDoubleArrayMinMax t f h array kind s \<noteq> Deoptimize fs' r fb'"
  by (simp add: ReduceDoubleArrayMinMax_def ConvertFloat64ToNumber_def Let_def
        ReduceConvertToObject_no_deopt)

lemma ReduceNewConsString_no_deopt:
  "ReduceNewConsString t f h len first second s \<noteq> Deoptimize fs' r fb'"
  by (simp add: ReduceNewConsString_def Let_def split: prod.splits)

lemma ReduceNewConsString_not_Fatal:
  "ReduceNewConsString t f h len first second s \<noteq> Fatal"
  by (simp add: ReduceNewConsString_def Let_def split: prod.splits)

lemma NewArray_of_length_no_deopt:
  "NewArray_of_length t f h len kind ty s \<noteq> Deoptimize fs' r fb'"
  by (simp add: NewArray_of_length_def GOTO_IF_def Let_def split: prod.splits)

lemma NewArray_of_length_not_Fatal:
  "NewArray_of_length t f h len kind ty s \<noteq> Fatal"
  by (simp add: NewArray_of_length_def GOTO_IF_def Let_def split: prod.splits)

lemma ReduceNewArray_no_deopt:
  "ReduceNewArray t f h len kind ty s \<noteq> Deoptimize fs' r fb'"
  by (simp add: ReduceNewArray_def NewArray_of_length_no_deopt)

lemma ReduceNewArray_not_Fatal:
  "ReduceNewArray t f h len kind ty s \<noteq> Fatal"
  by (simp add: ReduceNewArray_def NewArray_of_length_not_Fatal)

lemma LoadFieldByIndex_of_index_no_deopt:
  "LoadFieldByIndex_of_index t f h object index s \<noteq> Deoptimize fs' r fb'"
  by (simp add: LoadFieldByIndex_of_index_def GOTO_IF_def GOTO_IF_NOT_def Let_def)

lemma LoadFieldByIndex_of_index_not_Fatal:
  "LoadFieldByIndex_of_index t f h object index s \<noteq> Fatal"
  by (simp add: LoadFieldByIndex_of_index_def GOTO_IF_def GOTO_IF_NOT_def Let_def)

lemma ReduceLoadFieldByIndex_no_deopt:
  "ReduceLoadFieldByIndex t f h object field_index s \<noteq> Deoptimize fs' r fb'"
  by (simp add: ReduceLoadFieldByIndex_def LoadFieldByIndex_of_index_no_deopt)

lemma ReduceLoadFieldByIndex_not_Fatal:
  "ReduceLoadFieldByIndex t f h object field_index s \<noteq> Fatal"
  by (simp add: ReduceLoadFieldByIndex_def LoadFieldByIndex_of_index_not_Fatal)

lemma ReduceDoubleArrayMinMax_not_Fatal:
  "ReduceDoubleArrayMinMax t f h array kind s \<noteq> Fatal"
  by (simp add: ReduceDoubleArrayMinMax_def ConvertFloat64ToNumber_def Let_def
      ReduceConvertToObject_def ConvertToObject_Number_def GOTO_IF_def GOTO_IF_NOT_def
      SmiTagOrOverflow_def)

lemma ReduceChangeOrDeopt_edge:
  "ReduceChangeOrDeopt t input fs kind mz fb = Deoptimize fs' r fb'
     \<longrightarrow> r \<in> reducer_vocabulary \<and> fs' = fs \<and> fb' = fb"
  using ReduceChangeOrDeopt_reason by blast

lemma ReduceConvertObjectToPrimitiveOrDeopt_edge:
  "ReduceConvertObjectToPrimitiveOrDeopt t f h object fs from_kind to_kind mz fb
       = Deoptimize fs' r fb'
     \<longrightarrow> r \<in> reducer_vocabulary \<and> fs' = fs \<and> fb' = fb"
  using ReduceConvertObjectToPrimitiveOrDeopt_reason by blast

lemma ReduceConvertToObject_abort:
  "rep_of input = rep_of input' \<longrightarrow>
     (ReduceConvertToObject t f h input kind rep interp mz s = Fatal
        \<longleftrightarrow> ReduceConvertToObject t fa ha input' kind rep interp mza sa = Fatal)"
  using ReduceConvertToObject_Fatal_static by blast

lemma ReduceConvertObjectToPrimitiveOrDeopt_abort:
  "ReduceConvertObjectToPrimitiveOrDeopt t f h object fs from_kind to_kind mz fb = Fatal
     \<longleftrightarrow> ReduceConvertObjectToPrimitiveOrDeopt t fa ha object' fsa from_kind to_kind mza fba
           = Fatal"
  by (simp add: ReduceConvertObjectToPrimitiveOrDeopt_Fatal)

lemma ReduceObjectIs_abort:
  "ReduceObjectIs t f h object kind ia = Fatal
     \<longleftrightarrow> ReduceObjectIs t fa ha object' kind ia = Fatal"
  by (simp add: ReduceObjectIs_Fatal)

section \<open>Zero and minus zero\<close>

lemma f64_exponent_zero: "f64_exponent 0 = 0" by (simp add: f64_exponent_def)
lemma f64_exponent_minus_zero: "f64_exponent 0x8000000000000000 = 0"
  by (simp add: f64_exponent_def drop_bit_eq_div take_bit_eq_mod)
lemma f64_trunc_zero: "f64_trunc 0 = 0"
  by (simp add: f64_trunc_def f64_scale_def f64_mantissa_def f64_fraction_def f64_exponent_zero)
lemma f64_trunc_minus_zero: "f64_trunc 0x8000000000000000 = 0"
  by (simp add: f64_trunc_def f64_scale_def f64_mantissa_def f64_fraction_def f64_exponent_minus_zero take_bit_eq_mod)

lemma Truncate32_zero: "TruncateFloat64ToInt32OverflowUndefined t 0 = 0"
  by (simp add: TruncateFloat64ToInt32OverflowUndefined_def f64_exponent_zero f64_trunc_zero)
lemma Truncate32_minus_zero: "TruncateFloat64ToInt32OverflowUndefined t 0x8000000000000000 = 0"
  by (simp add: TruncateFloat64ToInt32OverflowUndefined_def f64_exponent_minus_zero f64_trunc_minus_zero)
lemma Truncate64_zero: "TruncateFloat64ToInt64OverflowUndefined t 0 = 0"
  by (simp add: TruncateFloat64ToInt64OverflowUndefined_def f64_exponent_zero f64_trunc_zero)
lemma Truncate64_minus_zero: "TruncateFloat64ToInt64OverflowUndefined t 0x8000000000000000 = 0"
  by (simp add: TruncateFloat64ToInt64OverflowUndefined_def f64_exponent_minus_zero f64_trunc_minus_zero)

lemma ChangeInt32ToFloat64_zero: "ChangeInt32ToFloat64 0 = 0"
  by (simp add: ChangeInt32ToFloat64_def f64_of_int_def f64_of_nat_def)
lemma ChangeInt64ToFloat64_zero: "ChangeInt64ToFloat64 0 = 0"
  by (simp add: ChangeInt64ToFloat64_def f64_of_int_def f64_of_nat_def)

lemma f64_is_nan_zero: "\<not> f64_is_nan 0" by (simp add: f64_is_nan_def f64_exponent_zero)
lemma f64_is_nan_minus_zero: "\<not> f64_is_nan 0x8000000000000000" by (simp add: f64_is_nan_def f64_exponent_minus_zero)

lemma Float64Equal_zero_zero: "Float64Equal 0 0 = 1"
  by (simp add: Float64Equal_def f64_is_nan_zero)
lemma Float64Equal_zero_minus_zero: "Float64Equal 0 0x8000000000000000 = 1"
  by (simp add: Float64Equal_def f64_is_nan_zero f64_is_nan_minus_zero f64_is_zero_def take_bit_eq_mod)

lemma high_word_minus_zero: "Float64ExtractHighWord32 0x8000000000000000 = 0x80000000"
  by (simp add: Float64ExtractHighWord32_def drop_bit_eq_div)
lemma high_word_zero: "Float64ExtractHighWord32 0 = 0"
  by (simp add: Float64ExtractHighWord32_def)

lemma Int32LessThan_sign: "Int32LessThan w 0 \<noteq> 0 \<longleftrightarrow> bit w 31"
  using bit_last_iff [of w] by (simp add: Int32LessThan_def)

lemma high_word_sign: "bit (Float64ExtractHighWord32 x) 31 \<longleftrightarrow> bit x 63"
  by (simp add: Float64ExtractHighWord32_def bit_ucast_iff bit_drop_bit_eq)

lemma Float64Equal_zero_iff: "Float64Equal 0 x \<noteq> 0 \<longleftrightarrow> take_bit 63 x = 0"
proof -
  have "\<not> f64_is_nan x" if "take_bit 63 x = 0"
  proof -
    have "take_bit 52 x = take_bit 52 (take_bit 63 x)" by simp
    with that have "take_bit 52 x = 0" by simp
    then show ?thesis by (simp add: f64_is_nan_def f64_fraction_def)
  qed
  moreover have "take_bit 63 (0 :: 64 word) = 0" by simp
  ultimately show ?thesis
    by (auto simp: Float64Equal_def f64_is_zero_def f64_is_nan_zero)
qed

lemma minus_zero_iff: "take_bit 63 x = 0 \<and> bit x 63 \<longleftrightarrow> x = (0x8000000000000000 :: 64 word)"
proof -
  have c: "(0x8000000000000000 :: 64 word) = push_bit 63 1" by simp
  have "take_bit 63 x = 0 \<and> bit x 63 \<longleftrightarrow> x = push_bit 63 1"
  proof
    assume a: "take_bit 63 x = 0 \<and> bit x 63"
    show "x = push_bit 63 1"
    proof (rule bit_eqI)
      fix n
      assume "possible_bit TYPE(64 word) n"
      then have n: "n < 64" by simp
      have "bit (take_bit 63 x) n = False" using a by simp
      then have low: "n < 63 \<Longrightarrow> \<not> bit x n" by (simp add: bit_take_bit_iff)
      have pb: "bit (push_bit 63 1 :: 64 word) n \<longleftrightarrow> n = 63"
        by (simp only: bit_push_bit_iff bit_1_iff) (use n in auto)
      show "bit x n = bit (push_bit 63 1 :: 64 word) n"
        unfolding pb using a low n by (cases "n = 63") auto
    qed
  next
    assume "x = push_bit 63 1"
    moreover have "bit (push_bit 63 1 :: 64 word) 63"
      by (simp only: bit_push_bit_iff bit_1_iff) simp
    moreover have "take_bit 63 (push_bit 63 1 :: 64 word) = 0"
      by (simp only: take_bit_push_bit) simp
    ultimately show "take_bit 63 x = 0 \<and> bit x 63"
      by simp
  qed
  then show ?thesis unfolding c .
qed

lemma f64_exponent_minus_half: "f64_exponent 0xBFE0000000000000 = 1022"
  by (simp add: f64_exponent_def drop_bit_eq_div take_bit_eq_mod)
lemma f64_trunc_minus_half: "f64_trunc 0xBFE0000000000000 = 0"
  by (simp add: f64_trunc_def f64_scale_def f64_mantissa_def f64_fraction_def f64_exponent_minus_half take_bit_eq_mod)


lemma ReduceChangeOrDeopt_Int32_minus_zero:
  "ReduceChangeOrDeopt t (Float64 0x8000000000000000) fs kFloat64ToInt32 kCheckForMinusZero fb
     = Deoptimize fs kMinusZero fb"
  by (simp add: DeoptimizeIf_def DeoptimizeIfNot_def Truncate32_minus_zero
        ChangeInt32ToFloat64_zero Float64Equal_zero_minus_zero high_word_minus_zero
        Word32Equal_def Int32LessThan_def)

lemma ReduceChangeOrDeopt_Int64_minus_zero:
  "ReduceChangeOrDeopt t (Float64 0x8000000000000000) fs kFloat64ToInt64 kCheckForMinusZero fb
     = Deoptimize fs kMinusZero fb"
  by (simp add: DeoptimizeIf_def DeoptimizeIfNot_def Truncate64_minus_zero
        ChangeInt64ToFloat64_zero Float64Equal_zero_minus_zero high_word_minus_zero
        Word64Equal_def Int32LessThan_def)

lemma ReduceChangeOrDeopt_Int32_fires:
  "ReduceChangeOrDeopt t (Float64 x) fs kFloat64ToInt32 mode fb = Deoptimize fs kMinusZero fb
   \<longleftrightarrow> mode = kCheckForMinusZero
       \<and> Float64Equal (ChangeInt32ToFloat64 (TruncateFloat64ToInt32OverflowUndefined t x)) x \<noteq> 0
       \<and> TruncateFloat64ToInt32OverflowUndefined t x = 0
       \<and> bit (Float64ExtractHighWord32 x) 31"
  using Int32LessThan_sign [of "Float64ExtractHighWord32 x"]
  by (auto simp: DeoptimizeIf_def DeoptimizeIfNot_def Let_def Word32Equal_def
      split: if_splits)

lemma ReduceChangeOrDeopt_Int64_fires:
  "ReduceChangeOrDeopt t (Float64 x) fs kFloat64ToInt64 mode fb = Deoptimize fs kMinusZero fb
   \<longleftrightarrow> mode = kCheckForMinusZero
       \<and> Float64Equal (ChangeInt64ToFloat64 (TruncateFloat64ToInt64OverflowUndefined t x)) x \<noteq> 0
       \<and> TruncateFloat64ToInt64OverflowUndefined t x = 0
       \<and> bit (Float64ExtractHighWord32 x) 31"
  using Int32LessThan_sign [of "Float64ExtractHighWord32 x"]
  by (auto simp: DeoptimizeIf_def DeoptimizeIfNot_def Let_def Word64Equal_def
      split: if_splits)

section \<open>Type tests\<close>

lemma and_exp_eq_exp_iff:
  fixes v :: "32 word"
  assumes "k < 32"
  shows "v AND 2 ^ k = 2 ^ k \<longleftrightarrow> bit v k"
proof
  assume eq: "v AND 2 ^ k = 2 ^ k"
  have "bit (2 ^ k :: 32 word) k"
    using assms by (simp add: bit_exp_iff)
  then have "bit (v AND 2 ^ k) k"
    by (simp only: eq)
  then show "bit v k"
    by (simp add: bit_and_iff)
next
  assume "bit v k"
  then show "v AND 2 ^ k = 2 ^ k"
    by (intro bit_eqI) (auto simp: bit_and_iff bit_exp_iff)
qed

lemma IsCallableBit_kMask_eq: "IsCallableBit_kMask t = 2 ^ IsCallableBit_kShift t"
  by (simp add: IsCallableBit_kMask_def BitField_kMask_def)

lemma callable_bit_set:
  "IsCallableBit_kShift t < 32 \<Longrightarrow>
   IsCallableBit_kMask t = v AND IsCallableBit_kMask t \<longleftrightarrow> bit v (IsCallableBit_kShift t)"
  using and_exp_eq_exp_iff [of "IsCallableBit_kShift t" v]
  by (auto simp: IsCallableBit_kMask_eq)

lemma callable_bit_clear:
  "0 = v AND IsCallableBit_kMask t \<longleftrightarrow> \<not> bit v (IsCallableBit_kShift t)"
  using and_exp_eq_0_iff_not_bit [of v "IsCallableBit_kShift t"]
  by (auto simp: IsCallableBit_kMask_eq)

lemma IsSmi_HeapObject: "IsSmi (HeapObject a) = 0"
  by (simp add: IsSmi_def ObjectIsSmi_def)

lemma ObjectIs_kCallable_HeapObject:
  assumes "IsCallableBit_kShift t < 32"
  shows "ReduceObjectIs t f h (HeapObject a) ObjectIs_kCallable ia =
     Value (if bit (LoadField_Word32 h (LoadMapField h (HeapObject a)) ForMapBitField)
                (IsCallableBit_kShift t) then 1 else 0)"
  using assms
  by (simp add: ReduceObjectIs_def ObjectIs_MapBits_def Let_def GOTO_IF_def IsSmi_HeapObject
      Word32Equal_def callable_bit_set)

lemma ObjectIs_kReceiver_HeapObject:
  "ReduceObjectIs t f h (HeapObject a) ObjectIs_kReceiver ia =
     Value (if FIRST_JS_RECEIVER_TYPE t
                 \<le> LoadField_Word32 h (LoadMapField h (HeapObject a)) ForMapInstanceType
            then 1 else 0)"
  by (simp add: ReduceObjectIs_def ObjectIs_MapBits_def Let_def GOTO_IF_def IsSmi_HeapObject
      ObjectIs_receiver_check_def Uint32LessThanOrEqual_def)

lemma ObjectIs_kNonCallable_HeapObject:
  shows "ReduceObjectIs t f h (HeapObject a) ObjectIs_kNonCallable ia =
     Value (if \<not> bit (LoadField_Word32 h (LoadMapField h (HeapObject a)) ForMapBitField)
                  (IsCallableBit_kShift t)
               \<and> FIRST_JS_RECEIVER_TYPE t
                   \<le> LoadField_Word32 h (LoadMapField h (HeapObject a)) ForMapInstanceType
            then 1 else 0)"
  by (simp add: ReduceObjectIs_def ObjectIs_MapBits_def Let_def GOTO_IF_def GOTO_IF_NOT_def
      IsSmi_HeapObject Word32Equal_def callable_bit_clear
      ObjectIs_receiver_check_def Uint32LessThanOrEqual_def)

lemma LengthBits_kMask_eq: "LengthBits_kMask = 0x7FFFFFFE"
  by (simp add: LengthBits_kMask_def BitField_kMask_def LengthBits_kShift_def mask_eq_exp_minus_1)

lemma SignBits_kMask_eq: "SignBits_kMask = 1"
  by (simp add: SignBits_kMask_def BitField_kMask_def SignBits_kShift_def)

lemma length_field_is_one:
  "(v AND LengthBits_kMask = 2 ^ LengthBits_kShift) \<longleftrightarrow> LengthBits_decode v = 1"
proof -
  define x where "x = v AND (0x7FFFFFFE :: 32 word)"
  have low: "take_bit 1 x = 0"
    by (simp add: x_def)
  have id: "push_bit 1 (drop_bit 1 x) + take_bit 1 x = x"
    by (rule bits_ident)
  have "x = 2 \<longleftrightarrow> drop_bit 1 x = 1"
  proof
    assume "x = 2"
    then show "drop_bit 1 x = 1" by (simp add: drop_bit_eq_div)
  next
    assume "drop_bit 1 x = 1"
    with id low show "x = 2" by simp
  qed
  moreover have "LengthBits_decode v = drop_bit 1 x"
    by (simp add: LengthBits_decode_def BitField_decode_def LengthBits_kMask_eq [symmetric]
        LengthBits_kShift_def x_def LengthBits_kMask_def)
  moreover have "v AND LengthBits_kMask = x"
    by (simp add: x_def LengthBits_kMask_eq)
  ultimately show ?thesis
    by (simp add: LengthBits_kShift_def)
qed

lemma sign_field_is_set:
  "(v AND SignBits_kMask = SignBits_kMask) \<longleftrightarrow> SignBits_decode v"
  by (simp add: SignBits_decode_def BitField_decode_def SignBits_kShift_def BitField_kMask_def
      SignBits_kMask_def and_one_eq)

lemma ObjectIs_BigInt64_result:
  assumes "Is64 t"
    and "ia = ObjectIs_Assume_kBigInt \<or> LoadMapField h (HeapObject a) = bigint_map f"
  shows "ReduceObjectIs t f h (HeapObject a) ObjectIs_kBigInt64 ia =
     Value (if LoadField_Word32 h (HeapObject a) ForBigIntBitfield = 0 then 1
            else if LengthBits_decode (LoadField_Word32 h (HeapObject a) ForBigIntBitfield) = 1
                    \<and> (LoadField_Word64 h (HeapObject a) ForBigIntLeastSignificantDigit64
                          \<le> 0x7FFFFFFFFFFFFFFF
                       \<or> (SignBits_decode (LoadField_Word32 h (HeapObject a) ForBigIntBitfield)
                          \<and> LoadField_Word64 h (HeapObject a) ForBigIntLeastSignificantDigit64
                              = 0x8000000000000000))
            then 1 else 0)"
  using assms
  by (cases ia)
     (auto simp: ReduceObjectIs_def ObjectIs_BigInt_def Let_def GOTO_IF_def GOTO_IF_NOT_def
        IsSmi_HeapObject TaggedEqual_def Word32Equal_def Word64Equal_def
        Uint64LessThanOrEqual_def int64_max_def int64_min_def length_field_is_one
        sign_field_is_set)

section \<open>Exact conversion of integers to floats\<close>

lemma bit_length_bounds:
  "0 < n \<Longrightarrow> 2 ^ (bit_length n - 1) \<le> n \<and> n < 2 ^ bit_length n"
proof (induction n rule: bit_length.induct)
  case (1 n)
  show ?case
  proof (cases "n div 2 = 0")
    case True
    with 1(2) have "n = Suc 0" by (simp add: div_eq_0_iff)
    moreover have "bit_length (Suc 0) = Suc 0"
      by (simp add: bit_length.simps [of "Suc 0"] bit_length.simps [of 0])
    ultimately show ?thesis by simp
  next
    case False
    then have pos: "0 < n div 2" by simp
    from 1(2) have n0: "n \<noteq> 0" by simp
    from 1(1) [OF n0 pos]
    have lo: "2 ^ (bit_length (n div 2) - 1) \<le> n div 2"
      and hi: "n div 2 < 2 ^ bit_length (n div 2)" by simp_all
    have bl: "bit_length n = Suc (bit_length (n div 2))"
      using n0 by (simp add: bit_length.simps [of n])
    have blpos: "0 < bit_length (n div 2)"
      using False by (simp add: bit_length.simps [of "n div 2"])
    then have e: "(2::nat) ^ bit_length (n div 2) = 2 * 2 ^ (bit_length (n div 2) - 1)"
      by (cases "bit_length (n div 2)") simp_all
    have "2 ^ (bit_length n - 1) \<le> n"
      using lo e bl by simp
    moreover have "n < 2 ^ bit_length n"
      using hi bl by simp
    ultimately show ?thesis by simp
  qed
qed

lemma f64_fields_of_nat:
  assumes "e < 2047" and "r < 2 ^ 52"
  shows "f64_exponent (word_of_nat (e * 2 ^ 52 + r)) = e"
    and "f64_fraction (word_of_nat (e * 2 ^ 52 + r)) = r"
    and "\<not> f64_sign (word_of_nat (e * 2 ^ 52 + r))"
proof -
  let ?B = "e * 2 ^ 52 + r"
  have "?B < 2047 * 2 ^ 52 + 2 ^ 52"
    using assms by (simp add: add_less_le_mono)
  then have B63: "?B < 2 ^ 63" by simp
  then have B64: "?B < 2 ^ 64" by simp
  have "unat (word_of_nat ?B :: 64 word) = ?B mod 2 ^ LENGTH(64)"
    by (rule unat_of_nat)
  also have "\<dots> = ?B"
    using B64 by simp
  finally have u: "unat (word_of_nat ?B :: 64 word) = ?B" .
  have d: "?B div 2 ^ 52 = e" using assms(2) by simp
  have m: "?B mod 2 ^ 52 = r" using assms(2) by simp
  show "f64_exponent (word_of_nat ?B) = e"
    unfolding f64_exponent_def unsigned_take_bit_eq unat_drop_bit_eq u
    using assms(1) by (simp only: take_bit_eq_mod drop_bit_eq_div d) simp
  show "f64_fraction (word_of_nat ?B) = r"
    unfolding f64_fraction_def unsigned_take_bit_eq u
    by (simp only: take_bit_eq_mod m)
  have "\<not> bit (unat (word_of_nat ?B :: 64 word)) 63"
    unfolding u using B63 by (simp add: bit_iff_odd)
  then show "\<not> f64_sign (word_of_nat ?B)"
    by (simp add: f64_sign_def bit_unsigned_iff)
qed

lemma f64_of_nat_exact:
  assumes "n < 2 ^ 53"
  shows "f64_holds_exactly (f64_of_nat n) (int n)"
proof (cases "n = 0")
  case True
  then show ?thesis
    by (simp add: f64_holds_exactly_def f64_is_integral_def f64_of_nat_def f64_trunc_def
        f64_exponent_def f64_scale_def f64_mantissa_def f64_fraction_def f64_sign_def)
next
  case False
  define k where "k = bit_length n - 1"
  from False bit_length_bounds [of n]
  have lo: "2 ^ k \<le> n" and hi: "n < 2 ^ bit_length n" by (simp_all add: k_def)
  have "0 < bit_length n"
    using False by (simp add: bit_length.simps [of n])
  then have blk: "bit_length n = Suc k" by (simp add: k_def)
  have k52: "k \<le> 52"
  proof (rule ccontr)
    assume "\<not> k \<le> 52"
    then have "53 \<le> k" by simp
    then have "(2::nat) ^ 53 \<le> 2 ^ k" by (rule power_increasing) simp
    with lo assms show False by simp
  qed
  define m where "m = n * 2 ^ (52 - k)"
  have split: "(2::nat) ^ 52 = 2 ^ k * 2 ^ (52 - k)"
    using k52 by (simp flip: power_add)
  have mlo: "2 ^ 52 \<le> m"
    unfolding m_def split using lo by simp
  have "m < 2 ^ Suc k * 2 ^ (52 - k)"
    unfolding m_def using hi blk by simp
  also have "\<dots> = 2 ^ 53"
    using k52 by (simp flip: power_add)
  finally have mhi: "m < 2 ^ 53" .
  define r where "r = m - 2 ^ 52"
  have r52: "r < 2 ^ 52" using mhi mlo by (simp add: r_def)
  have e2047: "1023 + k < 2047" using k52 by simp
  have nat_eq: "(1023 + k) * 2 ^ 52 + n * 2 ^ (52 - k) - 2 ^ 52 = (1023 + k) * 2 ^ 52 + r"
    using mlo by (simp add: r_def m_def)
  have "f64_of_nat n = word_of_nat ((1023 + k) * 2 ^ 52 + n * 2 ^ (52 - k) - 2 ^ 52)"
    unfolding f64_of_nat_def Let_def k_def [symmetric]
    by (simp only: False k52 if_False if_True)
  then have bits: "f64_of_nat n = word_of_nat ((1023 + k) * 2 ^ 52 + r)"
    by (simp only: nat_eq)
  have ex: "f64_exponent (f64_of_nat n) = 1023 + k"
    and fr: "f64_fraction (f64_of_nat n) = r"
    and sg: "\<not> f64_sign (f64_of_nat n)"
    unfolding bits by (rule f64_fields_of_nat [OF e2047 r52])+
  have mant: "f64_mantissa (f64_of_nat n) = m"
    using mlo by (simp add: f64_mantissa_def ex fr r_def)
  have scale: "f64_scale (f64_of_nat n) = 1023 + k"
    by (simp add: f64_scale_def ex)
  have mag: "(if 1075 \<le> 1023 + k then m * 2 ^ (1023 + k - 1075)
              else m div 2 ^ (1075 - (1023 + k))) = n"
  proof (cases "k = 52")
    case True
    then show ?thesis by (simp add: m_def)
  next
    case False
    with k52 have "k < 52" by simp
    then have "1075 - (1023 + k) = 52 - k" by simp
    then show ?thesis using \<open>k < 52\<close> by (simp add: m_def)
  qed
  have trunc: "f64_trunc (f64_of_nat n) = int n"
    unfolding f64_trunc_def mant scale Let_def mag
    by (simp add: sg)
  have dvd: "1075 \<le> 1023 + k \<or> 2 ^ (1075 - (1023 + k)) dvd m"
  proof (cases "k = 52")
    case True
    then show ?thesis by simp
  next
    case False
    with k52 have "k < 52" by simp
    then have "1075 - (1023 + k) = 52 - k" by simp
    then show ?thesis by (simp add: m_def)
  qed
  have "f64_is_integral (f64_of_nat n)"
    unfolding f64_is_integral_def mant scale
    using dvd e2047 by (simp add: ex)
  with trunc show ?thesis
    by (simp add: f64_holds_exactly_def)
qed

lemma ChangeUint32ToFloat64_exact: "f64_holds_exactly (ChangeUint32ToFloat64 v) (uint v)"
proof -
  have "unat v < 2 ^ 32"
    using unsigned_less [of v, where 'a = nat] by simp
  also have "(2::nat) ^ 32 < 2 ^ 53" by simp
  finally have "f64_holds_exactly (f64_of_nat (unat v)) (int (unat v))"
    by (rule f64_of_nat_exact)
  then show ?thesis
    by (simp add: ChangeUint32ToFloat64_def)
qed

lemma Smi_kMaxValue_word:
  "(v \<le> (word_of_int (Smi_kMaxValue t) :: 32 word)) \<longleftrightarrow> uint v \<le> Smi_kMaxValue t"
  by (cases "SmiValuesAre32Bits t") (simp_all add: Smi_kMaxValue_def word_le_def)

lemma SmiTag_in_range:
  assumes "uint v \<le> Smi_kMaxValue t"
  shows "SmiTag t v = Smi v"
proof (cases "SmiValuesAre32Bits t")
  case True
  then show ?thesis by (simp add: SmiTag_def)
next
  case False
  with assms have "uint v < 2 ^ 30" by (simp add: Smi_kMaxValue_def)
  then have lt: "v < 2 ^ 30" by (simp add: word_less_def)
  then have tb: "take_bit 30 v = v"
    by (simp only: take_bit_eq_mask less_mask_eq)
  have "\<not> bit v 30"
  proof
    assume "bit v 30"
    then have "bit (take_bit 30 v) 30" by (simp only: tb)
    then show False by (simp add: bit_take_bit_iff)
  qed
  then have "signed_take_bit 30 v = take_bit 30 v"
    by (rule signed_take_bit_eq_if_positive)
  with tb False show ?thesis by (simp add: SmiTag_def)
qed

lemma bit_length_0: "bit_length 0 = 0"
  by (simp add: bit_length.simps [of 0])

lemma bit_length_pos: "n \<noteq> 0 \<Longrightarrow> bit_length n = Suc (bit_length (n div 2))"
  by (simp add: bit_length.simps [of n])

lemma f64_of_3000000000: "ChangeUint32ToFloat64 3000000000 = 0x41E65A0BC0000000"
proof -
  have "bit_length 3000000000 = 32"
    by (simp add: bit_length_0 bit_length_pos)
  then show ?thesis
    by (simp add: ChangeUint32ToFloat64_def f64_of_nat_def)
qed

section \<open>Boxing\<close>

lemma signed_drop_bit_63:
  "signed_drop_bit 63 (v :: 64 word) = (if bit v 63 then - 1 else 0)"
proof (rule bit_eqI)
  fix n
  assume "possible_bit TYPE(64 word) n"
  then have n: "n < 64" by simp
  have "bit (signed_drop_bit 63 v) n = bit v 63"
  proof (cases "n = 0")
    case True
    then show ?thesis by (simp add: bit_signed_drop_bit_iff)
  next
    case False
    with n show ?thesis by (simp add: bit_signed_drop_bit_iff)
  qed
  then show "bit (signed_drop_bit 63 v) n = bit (if bit v 63 then - 1 else (0 :: 64 word)) n"
    using n by simp
qed

lemma drop_bit_63: "drop_bit 63 (v :: 64 word) = (if bit v 63 then 1 else 0)"
proof (rule bit_eqI)
  fix n
  assume "possible_bit TYPE(64 word) n"
  show "bit (drop_bit 63 v) n = bit (if bit v 63 then 1 else (0 :: 64 word)) n"
  proof (cases n)
    case 0
    then show ?thesis by (simp add: bit_drop_bit_eq bit_1_iff)
  next
    case (Suc m)
    have "\<not> bit v (63 + Suc m)"
      using bit_imp_le_length [of v "63 + Suc m"] by auto
    then show ?thesis using Suc by (simp add: bit_drop_bit_eq bit_1_iff)
  qed
qed

lemma sint_as_uint:
  "sint (v :: 64 word) = (if bit v 63 then uint v - 2 ^ 64 else uint v)"
proof -
  have "sint v = signed_take_bit 63 (uint v)"
    by (simp add: sint_uint)
  also have "\<dots> = take_bit 64 (uint v) - 2 ^ 64 * of_bool (bit (uint v) 63)"
    by (simp add: signed_take_bit_eq_take_bit_minus)
  also have "take_bit 64 (uint v) = uint v"
    by (simp add: bintr_uint)
  also have "bit (uint v) 63 = bit v 63"
    by (simp add: bit_uint_iff)
  finally show ?thesis by simp
qed

lemma absolute_value_magnitude:
  "uint ((v XOR signed_drop_bit 63 v) - signed_drop_bit 63 v) = \<bar>sint (v :: 64 word)\<bar>"
proof (cases "bit v 63")
  case False
  then show ?thesis by (simp add: signed_drop_bit_63 sint_as_uint)
next
  case True
  have lt: "uint v < 2 ^ 64" using uint_lt2p [of v] by simp
  have "uint v \<noteq> 0"
    using True by (auto simp: uint_0_iff)
  then have pos: "0 < uint v" using uint_nonnegative [of v] by linarith
  have "v XOR - 1 = NOT v"
    by simp
  moreover have "NOT v - (- 1) = NOT v + 1"
    by simp
  moreover have "- v = NOT v + 1"
    by (rule minus_eq_not_plus_1)
  ultimately have "(v XOR - 1) - (- 1) = - v"
    by (simp only:)
  moreover have "uint (- v) = (- uint v) mod 2 ^ 64"
    by (simp add: uint_word_ariths)
  moreover have "(- uint v) mod 2 ^ 64 = 2 ^ 64 - uint v"
    using pos lt by (simp add: zmod_zminus1_eq_if)
  ultimately show ?thesis
    using True lt by (simp add: signed_drop_bit_63 sint_as_uint)
qed

lemma sign_into_bitfield:
  "(ucast (drop_bit 63 (v :: 64 word)) :: 32 word) = (if sint v < 0 then 1 else 0)"
  using bit_last_iff [of v] by (simp add: drop_bit_63)

lemma LengthBits_encode_1: "LengthBits_encode 1 = 2"
  by (simp add: LengthBits_encode_def BitField_encode_def LengthBits_kShift_def)

lemma zero_bitfield_eq: "zero_bitfield = 0"
  by (simp add: zero_bitfield_def LengthBits_encode_def BitField_encode_def)

lemma decode_bitfield_2: "LengthBits_decode 2 = 1" "\<not> SignBits_decode 2"
  by (simp_all add: LengthBits_decode_def SignBits_decode_def BitField_decode_def
      LengthBits_kShift_def SignBits_kShift_def BitField_kMask_def mask_eq_exp_minus_1
      drop_bit_eq_div)

lemma decode_bitfield_3: "LengthBits_decode 3 = 1" "SignBits_decode 3"
  by (simp_all add: LengthBits_decode_def SignBits_decode_def BitField_decode_def
      LengthBits_kShift_def SignBits_kShift_def BitField_kMask_def mask_eq_exp_minus_1
      drop_bit_eq_div)

lemma signed_bitfield:
  "LengthBits_encode 1 OR ucast (drop_bit (63 - SignBits_kShift) (v :: 64 word))
     = (if sint v < 0 then 3 else 2)"
  by (simp add: LengthBits_encode_1 SignBits_kShift_def sign_into_bitfield)

lemma ConvertToObject_BigInt_zero:
  assumes "Is64 t" and "interp = kSigned \<or> interp = kUnsigned"
  shows "ReduceConvertToObject t f h (Word64 0) ConvertToObject_kBigInt Rep_Word64 interp mz s =
     Value (HeapObject (next_object s),
       s\<lparr>next_object := Suc (next_object s),
         operations := operations s @ bigint_box t f (HeapObject (next_object s)) 0 None\<rparr>)"
  using assms
  by (auto simp: ReduceConvertToObject_def ConvertToObject_BigInt_def AllocateBigInt_def
      bind_outcome_def GOTO_IF_def Word64Equal_def Allocate_def StoreField_def Let_def
      zero_bitfield_eq bigint_box_def)

lemma ConvertToObject_BigInt_signed:
  assumes "Is64 t" and "v \<noteq> 0"
  shows "ReduceConvertToObject t f h (Word64 v) ConvertToObject_kBigInt Rep_Word64 kSigned mz s =
     Value (HeapObject (Suc (next_object s)),
       s\<lparr>next_object := Suc (Suc (next_object s)),
         operations := operations s @ bigint_box t f (HeapObject (next_object s)) 0 None @
           bigint_box t f (HeapObject (Suc (next_object s))) (if sint v < 0 then 3 else 2)
             (Some ((v XOR signed_drop_bit 63 v) - signed_drop_bit 63 v))\<rparr>)"
  using assms
  by (auto simp: ReduceConvertToObject_def ConvertToObject_BigInt_def AllocateBigInt_def
      bind_outcome_def GOTO_IF_def Word64Equal_def Allocate_def StoreField_def Let_def
      zero_bitfield_eq signed_bitfield bigint_box_def)

lemma ConvertToObject_BigInt_unsigned:
  assumes "Is64 t" and "v \<noteq> 0"
  shows "ReduceConvertToObject t f h (Word64 v) ConvertToObject_kBigInt Rep_Word64 kUnsigned mz s =
     Value (HeapObject (Suc (next_object s)),
       s\<lparr>next_object := Suc (Suc (next_object s)),
         operations := operations s @ bigint_box t f (HeapObject (next_object s)) 0 None @
           bigint_box t f (HeapObject (Suc (next_object s))) 2 (Some v)\<rparr>)"
  using assms
  by (auto simp: ReduceConvertToObject_def ConvertToObject_BigInt_def AllocateBigInt_def
      bind_outcome_def GOTO_IF_def Word64Equal_def Allocate_def StoreField_def Let_def
      zero_bitfield_eq LengthBits_encode_1 bigint_box_def)

lemma and_FFFF: "(x :: 32 word) AND 0xFFFF = take_bit 16 x"
  by (simp add: take_bit_eq_mask mask_eq_exp_minus_1)

lemma and_3FF: "(x :: 32 word) AND 0x3FF = take_bit 10 x"
  by (simp add: take_bit_eq_mask mask_eq_exp_minus_1)

lemma take_bit_16_small: "(x :: 32 word) \<le> 0xFFFF \<Longrightarrow> take_bit 16 x = x"
proof -
  assume "x \<le> 0xFFFF"
  then have "x < 2 ^ 16" by unat_arith
  then show ?thesis by (simp only: take_bit_eq_mask less_mask_eq)
qed

lemma drop_bit_16_small: "(x :: 32 word) \<le> 0xFFFF \<Longrightarrow> drop_bit 16 x = 0"
  using take_bit_16_small [of x] by (simp add: take_bit_eq_self_iff_drop_bit_eq_0)

lemma drop_push_16: "(x :: 32 word) \<le> 0xFFFF \<Longrightarrow> drop_bit 16 (push_bit 16 x) = x"
proof -
  assume a: "x \<le> 0xFFFF"
  have "drop_bit 16 (push_bit 16 x) = take_bit 16 x"
    by (rule bit_eqI) (auto simp: bit_drop_bit_eq bit_push_bit_iff bit_take_bit_iff)
  with a show ?thesis by (simp add: take_bit_16_small)
qed

lemma take_push_16: "take_bit 16 (push_bit 16 (x :: 32 word)) = 0"
  by (simp add: take_bit_push_bit)

lemma split_units:
  assumes "(lo :: 32 word) \<le> 0xFFFF" and "hi \<le> 0xFFFF"
  shows "(push_bit 16 hi OR lo) AND 0xFFFF = lo"
    and "drop_bit 16 (push_bit 16 hi OR lo) = hi"
  using assms
  by (simp_all add: and_FFFF take_push_16 take_bit_16_small drop_push_16 drop_bit_16_small
      del: take_bit_push_bit)

lemma lead_offset: "(0xD800 :: 32 word) - drop_bit 10 0x10000 = 0xD7C0"
  by (simp add: drop_bit_eq_div)

lemma unat_add_small:
  fixes x c :: "32 word"
  assumes "unat x + unat c < 2 ^ 32"
  shows "unat (x + c) = unat x + unat c"
proof -
  from assms have "unat x + unat c < 2 ^ LENGTH(32)" by simp
  then show ?thesis by (rule unat_add_lem [THEN iffD1])
qed

lemma lead_bounds:
  assumes "(64 :: 32 word) \<le> d" and "d \<le> 1087"
  shows "0xD800 \<le> d + 0xD7C0 \<and> d + 0xD7C0 \<le> 0xDBFF"
proof -
  from assms have ud: "64 \<le> unat d" "unat d \<le> 1087"
    by (simp_all add: word_le_nat_alt)
  then have "unat (d + 0xD7C0) = unat d + unat (0xD7C0 :: 32 word)"
    by (intro unat_add_small) simp
  with ud show ?thesis
    by (simp add: word_le_nat_alt)
qed

lemma trail_bounds:
  assumes "(m :: 32 word) \<le> 0x3FF"
  shows "0xDC00 \<le> m + 0xDC00 \<and> m + 0xDC00 \<le> 0xDFFF"
proof -
  from assms have um: "unat m \<le> 1023"
    by (simp add: word_le_nat_alt)
  then have "unat (m + 0xDC00) = unat m + unat (0xDC00 :: 32 word)"
    by (intro unat_add_small) simp
  with um show ?thesis
    by (simp add: word_le_nat_alt)
qed

lemma surrogate_bounds:
  assumes "(0x10000 :: 32 word) \<le> cp" and "cp \<le> 0x10FFFF"
  shows "0xD800 \<le> drop_bit 10 cp + 0xD7C0" and "drop_bit 10 cp + 0xD7C0 \<le> 0xDBFF"
    and "0xDC00 \<le> (cp AND 0x3FF) + 0xDC00" and "(cp AND 0x3FF) + 0xDC00 \<le> 0xDFFF"
proof -
  have u: "unat (drop_bit 10 cp) = unat cp div 1024"
    by (simp only: unat_drop_bit_eq) (simp add: drop_bit_eq_div)
  from assms have "65536 \<le> unat cp" "unat cp \<le> 1114111"
    by (simp_all add: word_le_nat_alt)
  then have "64 \<le> unat (drop_bit 10 cp)" "unat (drop_bit 10 cp) \<le> 1087"
    unfolding u by simp_all
  then have d: "64 \<le> drop_bit 10 cp" "drop_bit 10 cp \<le> 1087"
    by (simp_all only: word_le_nat_alt) simp_all
  from lead_bounds [OF d]
  show "0xD800 \<le> drop_bit 10 cp + 0xD7C0" and "drop_bit 10 cp + 0xD7C0 \<le> 0xDBFF"
    by blast+
  have m: "cp AND 0x3FF \<le> 0x3FF" by (rule word_and_le1)
  from trail_bounds [OF m]
  show "0xDC00 \<le> (cp AND 0x3FF) + 0xDC00" and "(cp AND 0x3FF) + 0xDC00 \<le> 0xDFFF"
    by blast+
qed

lemma surrogate_decode_inverse:
  "surrogate_decode (drop_bit 10 cp + 0xD7C0) ((cp AND 0x3FF) + 0xDC00) = cp"
proof -
  have "take_bit 10 cp OR push_bit 10 (drop_bit 10 cp) = cp"
  proof (rule bit_eqI)
    fix n
    assume "possible_bit TYPE(32 word) n"
    show "bit (take_bit 10 cp OR push_bit 10 (drop_bit 10 cp)) n = bit cp n"
    proof (cases "n < 10")
      case True
      then show ?thesis
        by (simp add: bit_or_iff bit_take_bit_iff bit_push_bit_iff)
    next
      case False
      then have "10 + (n - 10) = n" by simp
      with False show ?thesis
        by (auto simp: bit_or_iff bit_take_bit_iff bit_push_bit_iff bit_drop_bit_eq
            dest: bit_imp_possible_bit)
    qed
  qed
  then show ?thesis
    by (simp add: surrogate_decode_def lead_offset and_3FF)
qed

lemma spec_surrogate_decode_off:
  "spec_surrogate_decode (drop_bit 10 cp + 0xD7C0) ((cp AND 0x3FF) + 0xDC00) = cp + 0x10000"
  using surrogate_decode_inverse [of cp]
  by (simp add: spec_surrogate_decode_def surrogate_decode_def)

lemma ConvertToObject_String_surrogates:
  assumes "(0x10000 :: 32 word) \<le> cp"
  shows "ReduceConvertToObject t f h (Word32 cp) ConvertToObject_kString rep kCodePoint mz s =
     Value (HeapObject (next_object s),
       s\<lparr>next_object := Suc (next_object s),
         operations := operations s @
           [AllocateOp (HeapObject (next_object s)) (SeqTwoByteString_SizeFor 2) kYoung,
            StoreOp (HeapObject (next_object s)) (IntPtrConstant t 0) Mem_TaggedSigned
              (SeqTwoByteString_SizeFor_minus_kObjectAlignment 2),
            StoreFieldOp (HeapObject (next_object s)) ForMap (TaggedValue (string_map f)),
            StoreFieldOp (HeapObject (next_object s)) ForNameRawHashField
              (Word32 (Name_kEmptyHashField t)),
            StoreFieldOp (HeapObject (next_object s)) ForStringLength (Word32 2),
            StoreOp (HeapObject (next_object s))
              (Word32 (if V8_TARGET_BIG_ENDIAN t
                       then push_bit 16 (drop_bit 10 cp + 0xD7C0) OR ((cp AND 0x3FF) + 0xDC00)
                       else push_bit 16 ((cp AND 0x3FF) + 0xDC00) OR (drop_bit 10 cp + 0xD7C0)))
              Mem_Uint32 SeqTwoByteString_kHeaderSize]\<rparr>)"
proof -
  from assms have "\<not> cp \<le> 0xFFFF" by unat_arith
  then show ?thesis
    by (simp add: ReduceConvertToObject_def ConvertToObject_String_def GOTO_IF_def
        Uint32LessThanOrEqual_def Allocate_def Store_def StoreField_def Let_def lead_offset
        del: push_bit_and)
qed

lemma ConvertToObject_String_char_code:
  "ReduceConvertToObject t f h (Word32 v) ConvertToObject_kString rep kCharCode mz s =
     Value (ConvertToObject_single_code t f h (v AND 0xFFFF) s)"
  by (simp add: ReduceConvertToObject_def ConvertToObject_String_def)

lemma low_16_bits: "unat (v AND 0xFFFF) = unat (v :: 32 word) mod 65536"
  by (simp only: and_FFFF unsigned_take_bit_eq) (simp add: take_bit_eq_mod)

lemma congruent_low_bits:
  assumes "unat (v :: 32 word) mod 65536 = unat w mod 65536"
  shows "v AND 0xFFFF = (w :: 32 word) AND 0xFFFF"
  using assms by (simp add: word_unat_eq_iff low_16_bits)

section \<open>Array indices\<close>

lemma sint_kMaxSafeInteger: "sint kMaxSafeIntegerUint64 = 9007199254740991"
  by (simp add: kMaxSafeIntegerUint64_def)

lemma sint_minus_kMaxSafeInteger: "sint (- kMaxSafeIntegerUint64) = - 9007199254740991"
  by (simp add: kMaxSafeIntegerUint64_def)

lemma f64_exponent_half: "f64_exponent 0x3FE0000000000000 = 1022"
  by (simp add: f64_exponent_def drop_bit_eq_div take_bit_eq_mod)

lemma f64_trunc_half: "f64_trunc 0x3FE0000000000000 = 0"
  by (simp add: f64_trunc_def f64_scale_def f64_mantissa_def f64_fraction_def f64_sign_def
      f64_exponent_half take_bit_eq_mod bit_iff_odd)

lemma f64_exponent_2_53: "f64_exponent 0x433FFFFFFFFFFFFE = 1075"
  "f64_exponent 0x433FFFFFFFFFFFFF = 1075"
  by (simp_all add: f64_exponent_def drop_bit_eq_div take_bit_eq_mod)

lemma f64_trunc_2_53: "f64_trunc 0x433FFFFFFFFFFFFE = 9007199254740990"
  "f64_trunc 0x433FFFFFFFFFFFFF = 9007199254740991"
  by (simp_all add: f64_trunc_def f64_scale_def f64_mantissa_def f64_fraction_def f64_sign_def
      f64_exponent_2_53 take_bit_eq_mod bit_iff_odd)

lemma Truncate64_examples:
  "TruncateFloat64ToInt64OverflowUndefined t 0x3FE0000000000000 = 0"
  "TruncateFloat64ToInt64OverflowUndefined t 0x433FFFFFFFFFFFFE = 9007199254740990"
  "TruncateFloat64ToInt64OverflowUndefined t 0x433FFFFFFFFFFFFF = 9007199254740991"
  by (simp_all add: TruncateFloat64ToInt64OverflowUndefined_def f64_trunc_half f64_trunc_2_53
      f64_exponent_half f64_exponent_2_53)

lemma bit_length_2_53: "bit_length 9007199254740990 = 53" "bit_length 9007199254740991 = 53"
  by (simp_all add: bit_length_0 bit_length_pos)

lemma ChangeInt64ToFloat64_examples:
  "ChangeInt64ToFloat64 9007199254740990 = 0x433FFFFFFFFFFFFE"
  "ChangeInt64ToFloat64 9007199254740991 = 0x433FFFFFFFFFFFFF"
  by (simp_all add: ChangeInt64ToFloat64_def f64_of_int_def f64_of_nat_def bit_length_2_53)

lemma f64_is_nan_examples:
  "\<not> f64_is_nan 0x3FE0000000000000"
  "\<not> f64_is_nan 0x433FFFFFFFFFFFFE"
  "\<not> f64_is_nan 0x433FFFFFFFFFFFFF"
  by (simp_all add: f64_is_nan_def f64_exponent_half f64_exponent_2_53)

lemma Float64Equal_examples:
  "Float64Equal 0 0x3FE0000000000000 = 0"
  "Float64Equal 0x433FFFFFFFFFFFFE 0x433FFFFFFFFFFFFE = 1"
  "Float64Equal 0x433FFFFFFFFFFFFF 0x433FFFFFFFFFFFFF = 1"
  by (simp_all add: Float64Equal_def f64_is_nan_examples f64_is_zero_def take_bit_eq_mod)

section \<open>Reduction of an array of floats\<close>

lemma unat_succ_below:
  fixes index :: "'w::len word"
  assumes "index < array_length"
  shows "unat (index + 1) = Suc (unat index)"
proof -
  from assms have "index \<noteq> - 1"
    by (metis word_order.extremum_strict)
  then have "1 + index \<noteq> 0"
    by (metis add.commute add_eq_0_iff)
  then show ?thesis
    by (simp add: unatSuc add.commute)
qed

lemma DoubleArrayMinMax_loop_fold:
  "DoubleArrayMinMax_loop is_max h elements array_length index accumulator =
     fold (\<lambda>i a. (if is_max then Float64Max else Float64Min) a
                    (ForFixedDoubleArrayElement h elements i))
       [unat index ..< unat array_length] accumulator"
proof (induction is_max h elements array_length index accumulator
    rule: DoubleArrayMinMax_loop.induct)
  case (1 is_max h elements array_length index accumulator)
  show ?case
  proof (cases "index < array_length")
    case True
    then have lt: "unat index < unat array_length"
      by (simp add: word_less_nat_alt)
    have suc: "unat (index + 1) = Suc (unat index)"
      using True by (rule unat_succ_below)
    have upt: "[unat index ..< unat array_length]
        = unat index # [unat (index + 1) ..< unat array_length]"
      unfolding suc using lt by (rule upt_conv_Cons)
    show ?thesis
      unfolding upt
      by (subst DoubleArrayMinMax_loop.simps)
        (simp add: True Let_def 1 [OF True refl refl])
  next
    case False
    then have "\<not> unat index < unat array_length"
      by (simp add: word_less_nat_alt)
    then have empty: "[unat index ..< unat array_length] = []"
      by simp
    show ?thesis
      unfolding empty
      by (subst DoubleArrayMinMax_loop.simps) (simp add: False)
  qed
qed


lemma ReduceDoubleArrayMinMax_fold:
  "ReduceDoubleArrayMinMax t f h array kind s =
     ReduceConvertToObject t f h
       (Float64 (fold (\<lambda>element accumulator.
                    (if kind = kMax then Float64Max else Float64Min) accumulator element)
          (array_elements t h array)
          (if kind = kMax then minus_V8_INFINITY else V8_INFINITY)))
       ConvertToObject_kNumber Rep_Float64 kSigned kCheckForMinusZero s"
  by (simp add: ReduceDoubleArrayMinMax_def ConvertFloat64ToNumber_def Let_def
      DoubleArrayMinMax_loop_fold array_elements_def array_length_of_def fold_map comp_def)

lemma f64_exponent_array_example:
  "f64_exponent 0xFFF0000000000000 = 2047"
  "f64_exponent 0x4008000000000000 = 1024"
  "f64_exponent 0xBFF0000000000000 = 1023"
  "f64_exponent 0x401E000000000000 = 1025"
  by (simp_all add: f64_exponent_def drop_bit_eq_div take_bit_eq_mod)

lemma f64_is_nan_array_example:
  "\<not> f64_is_nan 0xFFF0000000000000"
  "\<not> f64_is_nan 0x4008000000000000"
  "\<not> f64_is_nan 0xBFF0000000000000"
  "\<not> f64_is_nan 0x401E000000000000"
  by (simp_all add: f64_is_nan_def f64_exponent_array_example f64_fraction_def take_bit_eq_mod)

lemma f64_order_key_array_example:
  "f64_order_key 0xFFF0000000000000 = - 0x7FF0000000000000"
  "f64_order_key 0x4008000000000000 = 0x4008000000000000"
  "f64_order_key 0xBFF0000000000000 = - 0x3FF0000000000000"
  "f64_order_key 0x401E000000000000 = 0x401E000000000000"
  by (simp_all add: f64_order_key_def f64_sign_def bit_iff_odd take_bit_eq_mod)

lemma Float64Max_array_example:
  "Float64Max 0xFFF0000000000000 0x4008000000000000 = 0x4008000000000000"
  "Float64Max 0x4008000000000000 0xBFF0000000000000 = 0x4008000000000000"
  "Float64Max 0x4008000000000000 0x401E000000000000 = 0x401E000000000000"
  by (simp_all add: Float64Max_def Float64LessThan_def f64_is_nan_array_example
      f64_order_key_array_example)

lemma max_of_array_example:
  "fold (\<lambda>element accumulator. Float64Max accumulator element)
     [0x4008000000000000, 0xBFF0000000000000, 0x401E000000000000] minus_V8_INFINITY
   = 0x401E000000000000"
  by (simp add: minus_V8_INFINITY_def Float64Max_array_example)

lemma f64_trunc_7_5: "f64_trunc 0x401E000000000000 = 7"
  by (simp add: f64_trunc_def f64_scale_def f64_mantissa_def f64_fraction_def f64_sign_def
      f64_exponent_array_example take_bit_eq_mod bit_iff_odd)

lemma Truncate32_7_5: "TruncateFloat64ToInt32OverflowUndefined t 0x401E000000000000 = 7"
  by (simp add: TruncateFloat64ToInt32OverflowUndefined_def f64_trunc_7_5
      f64_exponent_array_example)

lemma ChangeInt32ToFloat64_7: "ChangeInt32ToFloat64 7 = 0x401C000000000000"
proof -
  have "bit_length 7 = 3"
    by (simp add: bit_length_0 bit_length_pos)
  then show ?thesis
    by (simp add: ChangeInt32ToFloat64_def f64_of_int_def f64_of_nat_def)
qed

lemma Float64Equal_7_5: "Float64Equal 0x401E000000000000 0x401C000000000000 = 0"
  by (simp add: Float64Equal_def f64_is_zero_def take_bit_eq_mod)

lemma box_7_5:
  "ReduceConvertToObject t f h (Float64 0x401E000000000000) ConvertToObject_kNumber Rep_Float64
     kSigned mz s =
   Value (HeapObject (next_object s),
     s\<lparr>next_object := Suc (next_object s),
       operations := operations s @
         [AllocateOp (HeapObject (next_object s)) HeapNumber_kSize kYoung,
          StoreFieldOp (HeapObject (next_object s)) ForMap (TaggedValue (heap_number_map f)),
          StoreFieldOp (HeapObject (next_object s)) ForHeapNumberValue
            (Float64 0x401E000000000000)]\<rparr>)"
  by (simp add: ReduceConvertToObject_def ConvertToObject_Number_def GOTO_IF_NOT_def
      Truncate32_7_5 ChangeInt32ToFloat64_7 Float64Equal_7_5 AllocateHeapNumberWithValue_def
      Allocate_def StoreField_def Let_def)

section \<open>Guards\<close>

lemma sign_bit_32: "bit (w :: 32 word) 31 \<longleftrightarrow> 2 ^ 31 \<le> uint w"
proof -
  have bound: "uint w < 4294967296" using uint_lt2p [of w] by simp
  have "odd (uint w div 2147483648) \<longleftrightarrow> 2147483648 \<le> uint w"
  proof (cases "uint w < 2147483648")
    case True
    then have "uint w div 2147483648 = 0"
      by (simp add: div_pos_pos_trivial)
    with True show ?thesis by simp
  next
    case False
    define r where "r = uint w - 2147483648"
    have r: "0 \<le> r" "r < 2147483648" and u: "uint w = 2147483648 + r"
      using False bound by (simp_all add: r_def)
    have "(2147483648 + r) div 2147483648 = r div 2147483648 + 1"
      by (rule div_add_self1) simp
    also have "r div 2147483648 = 0"
      using r by (simp add: div_pos_pos_trivial)
    finally have "uint w div 2147483648 = 1"
      unfolding u by simp
    with False show ?thesis by simp
  qed
  moreover have "bit w 31 \<longleftrightarrow> bit (uint w) 31"
    by (simp add: bit_uint_iff)
  ultimately show ?thesis
    by (simp add: bit_int_def)
qed

lemma sint_scast_up: "sint (scast (a :: 32 word) :: 64 word) = sint a"
  by (simp add: sint_up_scast is_up)

lemma Word64Equal_sign_extension:
  "Word64Equal (ChangeInt32ToInt64 a) b \<noteq> 0 \<longleftrightarrow> sint a = sint b"
proof
  assume "Word64Equal (ChangeInt32ToInt64 a) b \<noteq> 0"
  then have "scast a = b"
    by (simp add: Word64Equal_def ChangeInt32ToInt64_def split: if_splits)
  then have "sint (scast a :: 64 word) = sint b" by simp
  then show "sint a = sint b" by (simp add: sint_scast_up)
next
  assume "sint a = sint b"
  then have "sint (scast a :: 64 word) = sint b" by (simp add: sint_scast_up)
  then have "word_of_int (sint (scast a :: 64 word)) = (word_of_int (sint b) :: 64 word)"
    by simp
  then have "scast a = b" by simp
  then show "Word64Equal (ChangeInt32ToInt64 a) b \<noteq> 0"
    by (simp add: Word64Equal_def ChangeInt32ToInt64_def)
qed

lemma Uint64_kMaxInt: "Uint64LessThanOrEqual v kMaxInt \<noteq> 0 \<longleftrightarrow> uint v < 2 ^ 31"
  by (simp add: Uint64LessThanOrEqual_def kMaxInt_def word_le_def)

lemma Uint64_int64_max: "Uint64LessThanOrEqual v int64_max \<noteq> 0 \<longleftrightarrow> uint v < 2 ^ 63"
  by (simp add: Uint64LessThanOrEqual_def int64_max_def word_le_def)

lemma ChangeOrDeopt_kUint32ToInt32:
  "ReduceChangeOrDeopt t input fs kUint32ToInt32 mz fb =
     (if 2 ^ 31 \<le> uint (as_Word32 t input) then Deoptimize fs kLostPrecision fb
      else Value input)"
  using Int32LessThan_sign [of "as_Word32 t input"] sign_bit_32 [of "as_Word32 t input"]
  by (auto simp: ReduceChangeOrDeopt_def DeoptimizeIf_def)

lemma ChangeOrDeopt_kInt64ToInt32:
  "ReduceChangeOrDeopt t input fs kInt64ToInt32 mz fb =
     (if sint (as_Word32 t input) \<noteq> sint (as_Word64 t input)
      then Deoptimize fs kLostPrecision fb
      else Value (Word32 (as_Word32 t input)))"
  using Word64Equal_sign_extension [of "as_Word32 t input" "as_Word64 t input"]
  by (auto simp: ReduceChangeOrDeopt_def DeoptimizeIfNot_def Let_def)

lemma ChangeOrDeopt_kUint64ToInt32:
  "ReduceChangeOrDeopt t input fs kUint64ToInt32 mz fb =
     (if 2 ^ 31 \<le> uint (as_Word64 t input) then Deoptimize fs kLostPrecision fb
      else Value input)"
  using Uint64_kMaxInt [of "as_Word64 t input"]
  by (auto simp: ReduceChangeOrDeopt_def DeoptimizeIfNot_def)

lemma ChangeOrDeopt_kUint64ToInt64:
  "ReduceChangeOrDeopt t input fs kUint64ToInt64 mz fb =
     (if 2 ^ 63 \<le> uint (as_Word64 t input) then Deoptimize fs kLostPrecision fb
      else Value input)"
  using Uint64_int64_max [of "as_Word64 t input"]
  by (auto simp: ReduceChangeOrDeopt_def DeoptimizeIfNot_def)

lemma minus_zero_edge:
  "bit (Float64ExtractHighWord32 x) 31 \<and> Float64Equal 0 x \<noteq> 0 \<longleftrightarrow> x = 0x8000000000000000"
  using minus_zero_iff [of x] by (auto simp: high_word_sign Float64Equal_zero_iff)

lemma ChangeOrDeopt_kFloat64ToInt32:
  "ReduceChangeOrDeopt t input fs kFloat64ToInt32 mz fb =
     (let x = as_Float64 t input; i32 = TruncateFloat64ToInt32OverflowUndefined t x
      in if Float64Equal (ChangeInt32ToFloat64 i32) x = 0
         then Deoptimize fs kLostPrecisionOrNaN fb
         else if mz = kCheckForMinusZero \<and> x = 0x8000000000000000
         then Deoptimize fs kMinusZero fb
         else Value (Word32 i32))"
proof -
  define x where "x = as_Float64 t input"
  define i32 where "i32 = TruncateFloat64ToInt32OverflowUndefined t x"
  have zero: "i32 = 0" if "x = 0x8000000000000000"
    using that by (simp add: i32_def Truncate32_minus_zero)
  have edge: "i32 = 0 \<and> bit (Float64ExtractHighWord32 x) 31 \<longleftrightarrow> x = 0x8000000000000000"
    if "Float64Equal (ChangeInt32ToFloat64 i32) x \<noteq> 0"
    using that minus_zero_edge [of x] zero
    by (auto simp: ChangeInt32ToFloat64_zero)
  have "ReduceChangeOrDeopt t input fs kFloat64ToInt32 mz fb =
     (if Float64Equal (ChangeInt32ToFloat64 i32) x = 0
      then Deoptimize fs kLostPrecisionOrNaN fb
      else if mz = kCheckForMinusZero \<and> i32 = 0 \<and> bit (Float64ExtractHighWord32 x) 31
      then Deoptimize fs kMinusZero fb
      else Value (Word32 i32))"
    using Int32LessThan_sign [of "Float64ExtractHighWord32 x"]
    by (auto simp: ReduceChangeOrDeopt_def DeoptimizeIf_def DeoptimizeIfNot_def Let_def
        Word32Equal_def x_def i32_def)
  also have "\<dots> =
     (if Float64Equal (ChangeInt32ToFloat64 i32) x = 0
      then Deoptimize fs kLostPrecisionOrNaN fb
      else if mz = kCheckForMinusZero \<and> x = 0x8000000000000000
      then Deoptimize fs kMinusZero fb
      else Value (Word32 i32))"
    using edge by auto
  finally show ?thesis
    by (simp add: Let_def x_def i32_def)
qed

lemma ChangeOrDeopt_kFloat64ToInt64:
  "ReduceChangeOrDeopt t input fs kFloat64ToInt64 mz fb =
     (let x = as_Float64 t input; i64 = TruncateFloat64ToInt64OverflowUndefined t x
      in if Float64Equal (ChangeInt64ToFloat64 i64) x = 0
         then Deoptimize fs kLostPrecisionOrNaN fb
         else if mz = kCheckForMinusZero \<and> x = 0x8000000000000000
         then Deoptimize fs kMinusZero fb
         else Value (Word64 i64))"
proof -
  define x where "x = as_Float64 t input"
  define i64 where "i64 = TruncateFloat64ToInt64OverflowUndefined t x"
  have zero: "i64 = 0" if "x = 0x8000000000000000"
    using that by (simp add: i64_def Truncate64_minus_zero)
  have edge: "i64 = 0 \<and> bit (Float64ExtractHighWord32 x) 31 \<longleftrightarrow> x = 0x8000000000000000"
    if "Float64Equal (ChangeInt64ToFloat64 i64) x \<noteq> 0"
    using that minus_zero_edge [of x] zero
    by (auto simp: ChangeInt64ToFloat64_zero)
  have "ReduceChangeOrDeopt t input fs kFloat64ToInt64 mz fb =
     (if Float64Equal (ChangeInt64ToFloat64 i64) x = 0
      then Deoptimize fs kLostPrecisionOrNaN fb
      else if mz = kCheckForMinusZero \<and> i64 = 0 \<and> bit (Float64ExtractHighWord32 x) 31
      then Deoptimize fs kMinusZero fb
      else Value (Word64 i64))"
    using Int32LessThan_sign [of "Float64ExtractHighWord32 x"]
    by (auto simp: ReduceChangeOrDeopt_def DeoptimizeIf_def DeoptimizeIfNot_def Let_def
        Word64Equal_def x_def i64_def)
  also have "\<dots> =
     (if Float64Equal (ChangeInt64ToFloat64 i64) x = 0
      then Deoptimize fs kLostPrecisionOrNaN fb
      else if mz = kCheckForMinusZero \<and> x = 0x8000000000000000
      then Deoptimize fs kMinusZero fb
      else Value (Word64 i64))"
    using edge by auto
  finally show ?thesis
    by (simp add: Let_def x_def i64_def)
qed


lemma sint_minus_one_32: "sint (call :: 32 word) = - 1 \<longleftrightarrow> call = - 1"
proof
  assume "sint call = - 1"
  then have "word_of_int (sint call) = (word_of_int (- 1) :: 32 word)" by simp
  then show "call = - 1" by simp
qed simp

lemma sign_extension_is_minus_one:
  "(scast (call :: 32 word) :: 64 word) = - 1 \<longleftrightarrow> call = - 1"
proof
  assume "(scast call :: 64 word) = - 1"
  then have "sint (scast call :: 64 word) = sint (- 1 :: 64 word)" by simp
  then have "sint call = - 1" by (simp add: sint_scast_up)
  then show "call = - 1" by (simp add: sint_minus_one_32)
qed simp

lemma ToPrimitiveOrDeopt_kSmi:
  "ReduceConvertObjectToPrimitiveOrDeopt t f h object fs ObjectKind_kSmi PrimitiveKind_kInt32
     mz fb =
   (case object of
      Smi x \<Rightarrow> Value (Word32 x)
    | HeapObject a \<Rightarrow> Deoptimize fs kNotASmi fb)"
  by (cases object)
     (simp_all add: ReduceConvertObjectToPrimitiveOrDeopt_def DeoptimizeIfNot_def
        ObjectIsSmi_def SmiUntag_def)

lemma ToPrimitiveOrDeopt_kInt32:
  "ReduceConvertObjectToPrimitiveOrDeopt t f h (HeapObject a) fs ObjectKind_kNumber
     PrimitiveKind_kInt32 mz fb =
   (if LoadMapField h (HeapObject a) = heap_number_map f
    then ReduceChangeOrDeopt t (Float64 (LoadField_Float64 h (HeapObject a) ForHeapNumberValue))
           fs kFloat64ToInt32 mz fb
    else Deoptimize fs kNotAHeapNumber fb)"
  by (simp add: ReduceConvertObjectToPrimitiveOrDeopt_def DeoptimizeIfNot_def
      ObjectIsSmi_def TaggedEqual_def Let_def del: ReduceChangeOrDeopt_simps)

lemma ToPrimitiveOrDeopt_kInt64:
  "ReduceConvertObjectToPrimitiveOrDeopt t f h (HeapObject a) fs ObjectKind_kNumber
     PrimitiveKind_kInt64 mz fb =
   (if LoadMapField h (HeapObject a) = heap_number_map f
    then ReduceChangeOrDeopt t (Float64 (LoadField_Float64 h (HeapObject a) ForHeapNumberValue))
           fs kFloat64ToInt64 mz fb
    else Deoptimize fs kNotAHeapNumber fb)"
  by (simp add: ReduceConvertObjectToPrimitiveOrDeopt_def DeoptimizeIfNot_def
      ObjectIsSmi_def TaggedEqual_def Let_def del: ReduceChangeOrDeopt_simps)

lemma ToPrimitiveOrDeopt_kFloat64:
  "ReduceConvertObjectToPrimitiveOrDeopt t f h (HeapObject a) fs ObjectKind_kNumber
     PrimitiveKind_kFloat64 mz fb =
   (if LoadMapField h (HeapObject a) = heap_number_map f
    then Value (Float64 (LoadField_Float64 h (HeapObject a) ForHeapNumberValue))
    else Deoptimize fs kNotAHeapNumber fb)"
  "ReduceConvertObjectToPrimitiveOrDeopt t f h (HeapObject a) fs ObjectKind_kNumberOrBoolean
     PrimitiveKind_kFloat64 mz fb =
   (if LoadMapField h (HeapObject a) = heap_number_map f
       \<or> LoadMapField h (HeapObject a) = boolean_map f
    then Value (Float64 (LoadField_Float64 h (HeapObject a) ForHeapNumberValue))
    else Deoptimize fs kNotANumberOrBoolean fb)"
  "ReduceConvertObjectToPrimitiveOrDeopt t f h (HeapObject a) fs ObjectKind_kNumberOrOddball
     PrimitiveKind_kFloat64 mz fb =
   (if LoadMapField h (HeapObject a) = heap_number_map f
       \<or> LoadField_Word32 h (LoadMapField h (HeapObject a)) ForMapInstanceType = ODDBALL_TYPE t
    then Value (Float64 (LoadField_Float64 h (HeapObject a) ForHeapNumberValue))
    else Deoptimize fs kNotANumberOrOddball fb)"
  by (simp_all add: ReduceConvertObjectToPrimitiveOrDeopt_def
      ConvertHeapObjectToFloat64OrDeopt_def DeoptimizeIfNot_def bind_outcome_def
      ObjectIsSmi_def TaggedEqual_def Word32Equal_def Let_def)

lemma ToPrimitiveOrDeopt_kArrayIndex:
  "ReduceConvertObjectToPrimitiveOrDeopt t f h (HeapObject a) fs ObjectKind_kNumberOrString
     PrimitiveKind_kArrayIndex mz fb =
   (let the_map = LoadMapField h (HeapObject a);
        v = LoadField_Float64 h (HeapObject a) ForHeapNumberValue;
        i64 = TruncateFloat64ToInt64OverflowUndefined t v;
        i32 = TruncateFloat64ToInt32OverflowUndefined t v;
        call = string_to_array_index_function h (HeapObject a)
    in if the_map = heap_number_map f then
         if Is64 t then
           if Float64Equal (ChangeInt64ToFloat64 i64) v = 0
           then Deoptimize fs kLostPrecisionOrNaN fb
           else if \<not> (- 9007199254740991 < sint i64 \<and> sint i64 < 9007199254740991)
           then Deoptimize fs kNotAnArrayIndex fb
           else Value (Word64 i64)
         else
           if Float64Equal (ChangeInt32ToFloat64 i32) v = 0
           then Deoptimize fs kLostPrecisionOrNaN fb
           else Value (Word32 i32)
       else if \<not> LoadField_Word32 h the_map ForMapInstanceType < FIRST_NONSTRING_TYPE t
       then Deoptimize fs kNotAString fb
       else if call = - 1 then Deoptimize fs kNotAnArrayIndex fb
       else Value (ChangeInt32ToIntPtr t call))"
  by (simp add: ReduceConvertObjectToPrimitiveOrDeopt_def ObjectIsSmi_def TaggedEqual_def
      Let_def DeoptimizeIfNot_def DeoptimizeIf_def Int64LessThan_def sint_kMaxSafeInteger
      sint_minus_kMaxSafeInteger Uint32LessThan_def Word64Equal_def Word32Equal_def
      sign_extension_is_minus_one ChangeInt32ToIntPtr_def)


section \<open>The claims\<close>



text \<open>
  C2, as amended. For the conversions of a float to a 32-bit and to a 64-bit integer: with
  the check for minus zero enabled the input -0.0 deoptimizes with the reason minus zero;
  the input +0.0 converts to 0 under either mode. The minus-zero edge is taken exactly when
  the check is enabled, the round-trip guard before it has passed, the truncated integer is
  0 and the sign bit of the high word of the input is set, that is, exactly for the input
  -0.0 under the enabled check. An input such as -0.5, which truncates to 0 and has the sign
  bit set, leaves through the guard before it, with the reason lost precision or NaN.
\<close>

theorem minus_zero_policy:
  "(ReduceChangeOrDeopt t (Float64 0x8000000000000000) fs kFloat64ToInt32 kCheckForMinusZero fb
      = Deoptimize fs kMinusZero fb) \<and>
   (ReduceChangeOrDeopt t (Float64 0x8000000000000000) fs kFloat64ToInt64 kCheckForMinusZero fb
      = Deoptimize fs kMinusZero fb) \<and>
   (ReduceChangeOrDeopt t (Float64 0) fs kFloat64ToInt32 mode fb = Value (Word32 0)) \<and>
   (ReduceChangeOrDeopt t (Float64 0) fs kFloat64ToInt64 mode fb = Value (Word64 0)) \<and>
   (ReduceChangeOrDeopt t (Float64 x) fs kFloat64ToInt32 mode fb = Deoptimize fs kMinusZero fb
      \<longleftrightarrow> mode = kCheckForMinusZero
          \<and> Float64Equal (ChangeInt32ToFloat64 (TruncateFloat64ToInt32OverflowUndefined t x)) x \<noteq> 0
          \<and> TruncateFloat64ToInt32OverflowUndefined t x = 0
          \<and> bit (Float64ExtractHighWord32 x) 31) \<and>
   (ReduceChangeOrDeopt t (Float64 x) fs kFloat64ToInt64 mode fb = Deoptimize fs kMinusZero fb
      \<longleftrightarrow> mode = kCheckForMinusZero
          \<and> Float64Equal (ChangeInt64ToFloat64 (TruncateFloat64ToInt64OverflowUndefined t x)) x \<noteq> 0
          \<and> TruncateFloat64ToInt64OverflowUndefined t x = 0
          \<and> bit (Float64ExtractHighWord32 x) 31) \<and>
   (ReduceChangeOrDeopt t (Float64 x) fs kFloat64ToInt32 mode fb = Deoptimize fs kMinusZero fb
      \<longleftrightarrow> mode = kCheckForMinusZero \<and> x = 0x8000000000000000) \<and>
   (ReduceChangeOrDeopt t (Float64 x) fs kFloat64ToInt64 mode fb = Deoptimize fs kMinusZero fb
      \<longleftrightarrow> mode = kCheckForMinusZero \<and> x = 0x8000000000000000)"
proof (intro conjI)
  show "ReduceChangeOrDeopt t (Float64 0x8000000000000000) fs kFloat64ToInt32 kCheckForMinusZero fb
      = Deoptimize fs kMinusZero fb"
    by (rule ReduceChangeOrDeopt_Int32_minus_zero)
  show "ReduceChangeOrDeopt t (Float64 0x8000000000000000) fs kFloat64ToInt64 kCheckForMinusZero fb
      = Deoptimize fs kMinusZero fb"
    by (rule ReduceChangeOrDeopt_Int64_minus_zero)
  show "ReduceChangeOrDeopt t (Float64 0) fs kFloat64ToInt32 mode fb = Value (Word32 0)"
    by (simp add: DeoptimizeIf_def DeoptimizeIfNot_def Truncate32_zero
        ChangeInt32ToFloat64_zero Float64Equal_zero_zero high_word_zero
        Word32Equal_def Int32LessThan_def)
  show "ReduceChangeOrDeopt t (Float64 0) fs kFloat64ToInt64 mode fb = Value (Word64 0)"
    by (simp add: DeoptimizeIf_def DeoptimizeIfNot_def Truncate64_zero
        ChangeInt64ToFloat64_zero Float64Equal_zero_zero high_word_zero
        Word64Equal_def Int32LessThan_def)
  show "ReduceChangeOrDeopt t (Float64 x) fs kFloat64ToInt32 mode fb = Deoptimize fs kMinusZero fb
      \<longleftrightarrow> mode = kCheckForMinusZero
          \<and> Float64Equal (ChangeInt32ToFloat64 (TruncateFloat64ToInt32OverflowUndefined t x)) x \<noteq> 0
          \<and> TruncateFloat64ToInt32OverflowUndefined t x = 0
          \<and> bit (Float64ExtractHighWord32 x) 31"
    by (rule ReduceChangeOrDeopt_Int32_fires)
  show "ReduceChangeOrDeopt t (Float64 x) fs kFloat64ToInt64 mode fb = Deoptimize fs kMinusZero fb
      \<longleftrightarrow> mode = kCheckForMinusZero
          \<and> Float64Equal (ChangeInt64ToFloat64 (TruncateFloat64ToInt64OverflowUndefined t x)) x \<noteq> 0
          \<and> TruncateFloat64ToInt64OverflowUndefined t x = 0
          \<and> bit (Float64ExtractHighWord32 x) 31"
    by (rule ReduceChangeOrDeopt_Int64_fires)
  show "ReduceChangeOrDeopt t (Float64 x) fs kFloat64ToInt32 mode fb = Deoptimize fs kMinusZero fb
      \<longleftrightarrow> mode = kCheckForMinusZero \<and> x = 0x8000000000000000"
  proof
    assume "ReduceChangeOrDeopt t (Float64 x) fs kFloat64ToInt32 mode fb
              = Deoptimize fs kMinusZero fb"
    then have "mode = kCheckForMinusZero
        \<and> Float64Equal (ChangeInt32ToFloat64 (TruncateFloat64ToInt32OverflowUndefined t x)) x
              \<noteq> 0
        \<and> TruncateFloat64ToInt32OverflowUndefined t x = 0
        \<and> bit (Float64ExtractHighWord32 x) 31"
      by (rule ReduceChangeOrDeopt_Int32_fires [THEN iffD1])
    then have m: "mode = kCheckForMinusZero"
      and e: "Float64Equal (ChangeInt32ToFloat64 (TruncateFloat64ToInt32OverflowUndefined t x)) x
                \<noteq> 0"
      and z: "TruncateFloat64ToInt32OverflowUndefined t x = 0"
      and b: "bit (Float64ExtractHighWord32 x) 31"
      by blast+
    from e have "Float64Equal 0 x \<noteq> 0"
      unfolding z ChangeInt32ToFloat64_zero .
    then have "take_bit 63 x = 0"
      by (simp add: Float64Equal_zero_iff)
    moreover from b have "bit x 63"
      by (simp add: high_word_sign)
    ultimately have "x = 0x8000000000000000"
      using minus_zero_iff [of x] by blast
    with m show "mode = kCheckForMinusZero \<and> x = 0x8000000000000000" by simp
  next
    assume "mode = kCheckForMinusZero \<and> x = 0x8000000000000000"
    then show "ReduceChangeOrDeopt t (Float64 x) fs kFloat64ToInt32 mode fb
                 = Deoptimize fs kMinusZero fb"
      by (simp only: ReduceChangeOrDeopt_Int32_minus_zero)
  qed
  show "ReduceChangeOrDeopt t (Float64 x) fs kFloat64ToInt64 mode fb = Deoptimize fs kMinusZero fb
      \<longleftrightarrow> mode = kCheckForMinusZero \<and> x = 0x8000000000000000"
  proof
    assume "ReduceChangeOrDeopt t (Float64 x) fs kFloat64ToInt64 mode fb
              = Deoptimize fs kMinusZero fb"
    then have "mode = kCheckForMinusZero
        \<and> Float64Equal (ChangeInt64ToFloat64 (TruncateFloat64ToInt64OverflowUndefined t x)) x
              \<noteq> 0
        \<and> TruncateFloat64ToInt64OverflowUndefined t x = 0
        \<and> bit (Float64ExtractHighWord32 x) 31"
      by (rule ReduceChangeOrDeopt_Int64_fires [THEN iffD1])
    then have m: "mode = kCheckForMinusZero"
      and e: "Float64Equal (ChangeInt64ToFloat64 (TruncateFloat64ToInt64OverflowUndefined t x)) x
                \<noteq> 0"
      and z: "TruncateFloat64ToInt64OverflowUndefined t x = 0"
      and b: "bit (Float64ExtractHighWord32 x) 31"
      by blast+
    from e have "Float64Equal 0 x \<noteq> 0"
      unfolding z ChangeInt64ToFloat64_zero .
    then have "take_bit 63 x = 0"
      by (simp add: Float64Equal_zero_iff)
    moreover from b have "bit x 63"
      by (simp add: high_word_sign)
    ultimately have "x = 0x8000000000000000"
      using minus_zero_iff [of x] by blast
    with m show "mode = kCheckForMinusZero \<and> x = 0x8000000000000000" by simp
  next
    assume "mode = kCheckForMinusZero \<and> x = 0x8000000000000000"
    then show "ReduceChangeOrDeopt t (Float64 x) fs kFloat64ToInt64 mode fb
                 = Deoptimize fs kMinusZero fb"
      by (simp only: ReduceChangeOrDeopt_Int64_minus_zero)
  qed
qed

theorem minus_zero_policy_witness:
  "ReduceChangeOrDeopt example_target (Float64 0x8000000000000000) 7 kFloat64ToInt64
     kCheckForMinusZero 9 = Deoptimize 7 kMinusZero 9 \<and>
   ReduceChangeOrDeopt example_target (Float64 0) 7 kFloat64ToInt32 kDontCheckForMinusZero 9
     = Value (Word32 0)"
  using minus_zero_policy [of example_target 7 9 kDontCheckForMinusZero 0]
  by blast

text \<open>
  C2 as stated fails at -0.5 with the check enabled: the truncated result is 0 and the sign
  bit of the high word is set, but the edge taken is the one of the round-trip guard.
\<close>

theorem minus_zero_counterexample:
  "TruncateFloat64ToInt32OverflowUndefined example_target 0xBFE0000000000000 = 0 \<and>
   bit (Float64ExtractHighWord32 0xBFE0000000000000) 31 \<and>
   ReduceChangeOrDeopt example_target (Float64 0xBFE0000000000000) 0 kFloat64ToInt32
     kCheckForMinusZero 0 = Deoptimize 0 kLostPrecisionOrNaN 0"
proof -
  have t: "TruncateFloat64ToInt32OverflowUndefined example_target 0xBFE0000000000000 = 0"
    by (simp add: TruncateFloat64ToInt32OverflowUndefined_def f64_exponent_minus_half f64_trunc_minus_half)
  have b: "bit (Float64ExtractHighWord32 0xBFE0000000000000) 31"
    unfolding high_word_sign by (simp add: bit_iff_odd)
  have e: "Float64Equal 0 0xBFE0000000000000 = 0"
    by (simp add: Float64Equal_def f64_is_zero_def take_bit_eq_mod)
  show ?thesis
    by (simp add: t b e DeoptimizeIfNot_def ChangeInt32ToFloat64_zero)
qed

text \<open>
  C3. For a heap object, whatever the input assumption: the non-callable test yields 1
  exactly when the callable bit of the map is clear and the instance type is at least the
  first receiver type, that is, exactly when the callable test yields 0 and the receiver
  test yields 1; the receiver test yields 1 exactly when the instance type is at least the
  first receiver type. The non-callable test is not the negation of the callable test: for
  an object that is not callable and not of a receiver type both yield 0. The callable bit
  is a bit of the 32-bit word loaded from the map.
\<close>

theorem non_callable_is_not_callable_and_receiver:
  assumes "IsCallableBit_kShift t < 32"
    and "bitfield = LoadField_Word32 h (LoadMapField h (HeapObject a)) ForMapBitField"
    and "instance_type = LoadField_Word32 h (LoadMapField h (HeapObject a)) ForMapInstanceType"
    and "ReduceObjectIs t f h (HeapObject a) ObjectIs_kCallable ia = Value is_callable"
    and "ReduceObjectIs t f h (HeapObject a) ObjectIs_kReceiver ia = Value is_receiver"
    and "ReduceObjectIs t f h (HeapObject a) ObjectIs_kNonCallable ia = Value is_non_callable"
  shows "(is_non_callable = 1 \<longleftrightarrow>
            \<not> bit bitfield (IsCallableBit_kShift t) \<and> FIRST_JS_RECEIVER_TYPE t \<le> instance_type) \<and>
         (is_non_callable = 1 \<or> is_non_callable = 0) \<and>
         (is_non_callable = 1 \<longleftrightarrow> is_callable = 0 \<and> is_receiver = 1) \<and>
         (is_receiver = 1 \<longleftrightarrow> FIRST_JS_RECEIVER_TYPE t \<le> instance_type) \<and>
         (is_receiver = 1 \<or> is_receiver = 0) \<and>
         (is_callable = 1 \<longleftrightarrow> bit bitfield (IsCallableBit_kShift t)) \<and>
         (is_callable = 1 \<or> is_callable = 0) \<and>
         (\<not> bit bitfield (IsCallableBit_kShift t) \<and> instance_type < FIRST_JS_RECEIVER_TYPE t
            \<longrightarrow> is_non_callable = 0 \<and> is_callable = 0)"
  using assms(2-6)
  unfolding ObjectIs_kCallable_HeapObject [OF assms(1)] ObjectIs_kReceiver_HeapObject
    ObjectIs_kNonCallable_HeapObject
  by (auto split: if_splits)

theorem non_callable_is_not_callable_and_receiver_witness:
  "ReduceObjectIs example_target example_factory example_heap (HeapObject 21)
     ObjectIs_kNonCallable ObjectIs_Assume_kNone = Value 0 \<and>
   ReduceObjectIs example_target example_factory example_heap (HeapObject 21)
     ObjectIs_kCallable ObjectIs_Assume_kNone = Value 0 \<and>
   ReduceObjectIs example_target example_factory example_heap (HeapObject 21)
     ObjectIs_kReceiver ObjectIs_Assume_kNone = Value 0 \<and>
   \<not> bit (LoadField_Word32 example_heap (LoadMapField example_heap (HeapObject 21))
            ForMapBitField) (IsCallableBit_kShift example_target)"
proof -
  have shift: "IsCallableBit_kShift example_target < 32"
    by (simp add: example_target_def)
  have the_map: "LoadMapField example_heap (HeapObject 21) = HeapObject 30"
    by (simp add: LoadMapField_def LoadField_Tagged_def example_heap_def)
  have bits: "LoadField_Word32 example_heap (HeapObject 30) ForMapBitField = 0"
    by (simp add: LoadField_Word32_def example_heap_def)
  have type: "LoadField_Word32 example_heap (HeapObject 30) ForMapInstanceType = 0x80"
    by (simp add: LoadField_Word32_def example_heap_def)
  have first: "FIRST_JS_RECEIVER_TYPE example_target = 0x10C"
    by (simp add: example_target_def)
  have c: "ReduceObjectIs example_target example_factory example_heap (HeapObject 21)
     ObjectIs_kCallable ObjectIs_Assume_kNone = Value 0"
    by (simp add: ObjectIs_kCallable_HeapObject [OF shift] the_map bits)
  have r: "ReduceObjectIs example_target example_factory example_heap (HeapObject 21)
     ObjectIs_kReceiver ObjectIs_Assume_kNone = Value 0"
    by (simp add: ObjectIs_kReceiver_HeapObject the_map type first)
  have n: "ReduceObjectIs example_target example_factory example_heap (HeapObject 21)
     ObjectIs_kNonCallable ObjectIs_Assume_kNone = Value 0"
    by (simp add: ObjectIs_kNonCallable_HeapObject the_map type first bits)
  from non_callable_is_not_callable_and_receiver [OF shift refl refl c r n] c r n
  show ?thesis by simp
qed

text \<open>
  C4. For an arbitrary-precision integer (a heap object known to be one, or one whose map
  is the map of these integers) on a 64-bit target, the test for fitting in 64 bits yields
  1 when the packed bit field (sign and length) is zero; otherwise it yields 1 exactly when
  the digit count is 1 and either the digit is at most the largest signed 64-bit value or
  the sign is set and the digit is \<open>2 ^ 63\<close>; in all other cases it yields 0. In particular
  the one-digit negative value of magnitude \<open>2 ^ 63\<close> tests true.
\<close>

theorem bigint_fits_in_64_bits:
  assumes "Is64 t"
    and "ia = ObjectIs_Assume_kBigInt \<or> LoadMapField h (HeapObject a) = bigint_map f"
    and "bitfield = LoadField_Word32 h (HeapObject a) ForBigIntBitfield"
    and "digit = LoadField_Word64 h (HeapObject a) ForBigIntLeastSignificantDigit64"
  shows "ReduceObjectIs t f h (HeapObject a) ObjectIs_kBigInt64 ia =
           Value (if bitfield = 0 then 1
                  else if LengthBits_decode bitfield = 1
                          \<and> (digit \<le> 0x7FFFFFFFFFFFFFFF
                             \<or> (SignBits_decode bitfield \<and> digit = 0x8000000000000000))
                  then 1 else 0) \<and>
         (LengthBits_decode bitfield = 1 \<and> SignBits_decode bitfield
            \<and> digit = 0x8000000000000000
          \<longrightarrow> ReduceObjectIs t f h (HeapObject a) ObjectIs_kBigInt64 ia = Value 1)"
  unfolding assms(3,4) ObjectIs_BigInt64_result [OF assms(1,2)] by simp

theorem bigint_fits_in_64_bits_witness:
  "LengthBits_decode 3 = 1 \<and> SignBits_decode 3 \<and>
   ReduceObjectIs example_target example_factory example_heap (HeapObject 20)
     ObjectIs_kBigInt64 ObjectIs_Assume_kNone = Value 1"
proof -
  have is64: "Is64 example_target"
    by (simp add: example_target_def)
  have the_map: "ObjectIs_Assume_kNone = ObjectIs_Assume_kBigInt
      \<or> LoadMapField example_heap (HeapObject 20) = bigint_map example_factory"
    by (simp add: LoadMapField_def LoadField_Tagged_def example_heap_def example_factory_def)
  have bitfield: "3 = LoadField_Word32 example_heap (HeapObject 20) ForBigIntBitfield"
    by (simp add: LoadField_Word32_def example_heap_def)
  have digit: "0x8000000000000000
      = LoadField_Word64 example_heap (HeapObject 20) ForBigIntLeastSignificantDigit64"
    by (simp add: LoadField_Word64_def example_heap_def)
  have len: "LengthBits_decode 3 = 1"
    by (simp add: LengthBits_decode_def BitField_decode_def LengthBits_kShift_def
        BitField_kMask_def mask_eq_exp_minus_1 drop_bit_eq_div)
  have sign: "SignBits_decode 3"
    by (simp add: SignBits_decode_def BitField_decode_def SignBits_kShift_def
        BitField_kMask_def)
  from bigint_fits_in_64_bits [OF is64 the_map bitfield digit] len sign
  show ?thesis by blast
qed

text \<open>
  C5. An unsigned 32-bit input boxed to a number: when it is at most the largest small
  integer, the result is the small integer with that payload and nothing is allocated (the
  effects are unchanged); otherwise the subgraph runs exactly one allocation, of a float
  box, and stores in it the float that holds the input exactly. The input 5 yields the
  small integer 5; the input 3000000000 yields one float box with the pattern of
  3000000000.0.
\<close>

theorem unsigned32_boxing:
  "ReduceConvertToObject t f h (Word32 v) ConvertToObject_kNumber Rep_Word32 kUnsigned mz s =
     (if uint v \<le> Smi_kMaxValue t then Value (Smi v, s)
      else Value (HeapObject (next_object s),
             s\<lparr>next_object := Suc (next_object s),
               operations := operations s @
                 [AllocateOp (HeapObject (next_object s)) HeapNumber_kSize kYoung,
                  StoreFieldOp (HeapObject (next_object s)) ForMap
                    (TaggedValue (heap_number_map f)),
                  StoreFieldOp (HeapObject (next_object s)) ForHeapNumberValue
                    (Float64 (ChangeUint32ToFloat64 v))]\<rparr>)) \<and>
   f64_holds_exactly (ChangeUint32ToFloat64 v) (uint v)"
proof (intro conjI)
  show "f64_holds_exactly (ChangeUint32ToFloat64 v) (uint v)"
    by (rule ChangeUint32ToFloat64_exact)
  show "ReduceConvertToObject t f h (Word32 v) ConvertToObject_kNumber Rep_Word32 kUnsigned mz s =
     (if uint v \<le> Smi_kMaxValue t then Value (Smi v, s)
      else Value (HeapObject (next_object s),
             s\<lparr>next_object := Suc (next_object s),
               operations := operations s @
                 [AllocateOp (HeapObject (next_object s)) HeapNumber_kSize kYoung,
                  StoreFieldOp (HeapObject (next_object s)) ForMap
                    (TaggedValue (heap_number_map f)),
                  StoreFieldOp (HeapObject (next_object s)) ForHeapNumberValue
                    (Float64 (ChangeUint32ToFloat64 v))]\<rparr>))"
  proof (cases "uint v \<le> Smi_kMaxValue t")
    case True
    then show ?thesis
      by (simp add: ReduceConvertToObject_def ConvertToObject_Number_def GOTO_IF_def
          Uint32LessThanOrEqual_def Smi_kMaxValue_word SmiTag_in_range)
  next
    case False
    then show ?thesis
      by (simp add: ReduceConvertToObject_def ConvertToObject_Number_def GOTO_IF_def
          Uint32LessThanOrEqual_def Smi_kMaxValue_word AllocateHeapNumberWithValue_def
          Allocate_def StoreField_def Let_def)
  qed
qed

theorem unsigned32_boxing_witness:
  "ReduceConvertToObject example_target example_factory example_heap (Word32 5)
     ConvertToObject_kNumber Rep_Word32 kUnsigned kDontCheckForMinusZero example_effects
     = Value (Smi 5, example_effects) \<and>
   ReduceConvertToObject example_target example_factory example_heap (Word32 3000000000)
     ConvertToObject_kNumber Rep_Word32 kUnsigned kDontCheckForMinusZero example_effects
     = Value (HeapObject 1000,
         \<lparr>next_object = 1001,
          operations =
            [AllocateOp (HeapObject 1000) HeapNumber_kSize kYoung,
             StoreFieldOp (HeapObject 1000) ForMap (TaggedValue (HeapObject 2)),
             StoreFieldOp (HeapObject 1000) ForHeapNumberValue
               (Float64 0x41E65A0BC0000000)]\<rparr>) \<and>
   f64_holds_exactly 0x41E65A0BC0000000 3000000000"
proof -
  have small: "uint (5 :: 32 word) \<le> Smi_kMaxValue example_target"
    by (simp add: Smi_kMaxValue_def example_target_def)
  have large: "\<not> uint (3000000000 :: 32 word) \<le> Smi_kMaxValue example_target"
    by (simp add: Smi_kMaxValue_def example_target_def)
  note five = unsigned32_boxing [of example_target example_factory example_heap 5
        kDontCheckForMinusZero example_effects]
  note big = unsigned32_boxing [of example_target example_factory example_heap 3000000000
        kDontCheckForMinusZero example_effects]
  have a: "ReduceConvertToObject example_target example_factory example_heap (Word32 5)
     ConvertToObject_kNumber Rep_Word32 kUnsigned kDontCheckForMinusZero example_effects
     = Value (Smi 5, example_effects)"
    using five [THEN conjunct1] by (simp only: small if_True)
  have b: "ReduceConvertToObject example_target example_factory example_heap (Word32 3000000000)
     ConvertToObject_kNumber Rep_Word32 kUnsigned kDontCheckForMinusZero example_effects
     = Value (HeapObject 1000,
         \<lparr>next_object = 1001,
          operations =
            [AllocateOp (HeapObject 1000) HeapNumber_kSize kYoung,
             StoreFieldOp (HeapObject 1000) ForMap (TaggedValue (HeapObject 2)),
             StoreFieldOp (HeapObject 1000) ForHeapNumberValue
               (Float64 0x41E65A0BC0000000)]\<rparr>)"
    using big [THEN conjunct1]
    by (simp only: large if_False f64_of_3000000000)
       (simp add: example_effects_def example_factory_def)
  have c: "f64_holds_exactly 0x41E65A0BC0000000 3000000000"
    using big [THEN conjunct2] by (simp only: f64_of_3000000000) simp
  from a b c show ?thesis by blast
qed

text \<open>
  C6, as amended. On a 64-bit target: the input 0 yields the canonical zero, a box of size
  for no digit with the bit field 0 and no digit stored, under the signed and under the
  unsigned interpretation. A nonzero signed input yields a box with one digit whose bit
  field has the sign of the input and the length 1, and whose digit is
  \<open>(v XOR (v >> 63)) - (v >> 63)\<close>, the magnitude of the input (\<open>2 ^ 63\<close> for the
  smallest signed value). A nonzero unsigned input yields a box with one digit, the sign
  clear, the length 1 and the input as the digit. For a nonzero input the canonical zero
  has been allocated before the branch as well.
\<close>

theorem bigint_boxing:
  assumes "Is64 t"
  shows "(interp = kSigned \<or> interp = kUnsigned \<longrightarrow>
            ReduceConvertToObject t f h (Word64 0) ConvertToObject_kBigInt Rep_Word64 interp mz s
            = Value (HeapObject (next_object s),
                s\<lparr>next_object := Suc (next_object s),
                  operations := operations s @
                    bigint_box t f (HeapObject (next_object s)) 0 None\<rparr>)) \<and>
         LengthBits_decode 0 = 0 \<and> \<not> SignBits_decode 0 \<and>
         (v \<noteq> 0 \<longrightarrow>
            ReduceConvertToObject t f h (Word64 v) ConvertToObject_kBigInt Rep_Word64 kSigned mz s
            = Value (HeapObject (Suc (next_object s)),
                s\<lparr>next_object := Suc (Suc (next_object s)),
                  operations := operations s @
                    bigint_box t f (HeapObject (next_object s)) 0 None @
                    bigint_box t f (HeapObject (Suc (next_object s)))
                      (if sint v < 0 then 3 else 2)
                      (Some ((v XOR signed_drop_bit 63 v) - signed_drop_bit 63 v))\<rparr>)) \<and>
         (SignBits_decode (if sint v < 0 then 3 else 2) \<longleftrightarrow> sint v < 0) \<and>
         LengthBits_decode (if sint v < 0 then 3 else 2) = 1 \<and>
         uint ((v XOR signed_drop_bit 63 v) - signed_drop_bit 63 v) = \<bar>sint v\<bar> \<and>
         (v \<noteq> 0 \<longrightarrow>
            ReduceConvertToObject t f h (Word64 v) ConvertToObject_kBigInt Rep_Word64 kUnsigned
              mz s
            = Value (HeapObject (Suc (next_object s)),
                s\<lparr>next_object := Suc (Suc (next_object s)),
                  operations := operations s @
                    bigint_box t f (HeapObject (next_object s)) 0 None @
                    bigint_box t f (HeapObject (Suc (next_object s))) 2 (Some v)\<rparr>)) \<and>
         LengthBits_decode 2 = 1 \<and> \<not> SignBits_decode 2"
proof (intro conjI impI)
  assume "interp = kSigned \<or> interp = kUnsigned"
  with assms show "ReduceConvertToObject t f h (Word64 0) ConvertToObject_kBigInt Rep_Word64
      interp mz s
    = Value (HeapObject (next_object s),
        s\<lparr>next_object := Suc (next_object s),
          operations := operations s @ bigint_box t f (HeapObject (next_object s)) 0 None\<rparr>)"
    by (rule ConvertToObject_BigInt_zero)
next
  show "LengthBits_decode 0 = 0"
    by (simp add: LengthBits_decode_def BitField_decode_def)
next
  show "\<not> SignBits_decode 0"
    by (simp add: SignBits_decode_def BitField_decode_def)
next
  assume "v \<noteq> 0"
  with assms show "ReduceConvertToObject t f h (Word64 v) ConvertToObject_kBigInt Rep_Word64
      kSigned mz s
    = Value (HeapObject (Suc (next_object s)),
        s\<lparr>next_object := Suc (Suc (next_object s)),
          operations := operations s @ bigint_box t f (HeapObject (next_object s)) 0 None @
            bigint_box t f (HeapObject (Suc (next_object s))) (if sint v < 0 then 3 else 2)
              (Some ((v XOR signed_drop_bit 63 v) - signed_drop_bit 63 v))\<rparr>)"
    by (rule ConvertToObject_BigInt_signed)
next
  show "SignBits_decode (if sint v < 0 then 3 else 2) \<longleftrightarrow> sint v < 0"
    by (simp add: decode_bitfield_2 decode_bitfield_3)
next
  show "LengthBits_decode (if sint v < 0 then 3 else 2) = 1"
    by (simp add: decode_bitfield_2 decode_bitfield_3)
next
  show "uint ((v XOR signed_drop_bit 63 v) - signed_drop_bit 63 v) = \<bar>sint v\<bar>"
    by (rule absolute_value_magnitude)
next
  assume "v \<noteq> 0"
  with assms show "ReduceConvertToObject t f h (Word64 v) ConvertToObject_kBigInt Rep_Word64
      kUnsigned mz s
    = Value (HeapObject (Suc (next_object s)),
        s\<lparr>next_object := Suc (Suc (next_object s)),
          operations := operations s @ bigint_box t f (HeapObject (next_object s)) 0 None @
            bigint_box t f (HeapObject (Suc (next_object s))) 2 (Some v)\<rparr>)"
    by (rule ConvertToObject_BigInt_unsigned)
next
  show "LengthBits_decode 2 = 1"
    by (rule decode_bitfield_2)
next
  show "\<not> SignBits_decode 2"
    by (rule decode_bitfield_2)
qed

theorem bigint_boxing_witness:
  "ReduceConvertToObject example_target example_factory example_heap
     (Word64 0x8000000000000000) ConvertToObject_kBigInt Rep_Word64 kSigned
     kDontCheckForMinusZero example_effects
   = Value (HeapObject 1001,
       \<lparr>next_object = 1002,
        operations =
          bigint_box example_target example_factory (HeapObject 1000) 0 None @
          bigint_box example_target example_factory (HeapObject 1001) 3
            (Some 0x8000000000000000)\<rparr>) \<and>
   SignBits_decode 3 \<and> LengthBits_decode 3 = 1 \<and>
   uint (0x8000000000000000 :: 64 word) = 2 ^ 63"
proof -
  have is64: "Is64 example_target"
    by (simp add: example_target_def)
  have neg: "sint (0x8000000000000000 :: 64 word) < 0"
    by simp
  have nz: "(0x8000000000000000 :: 64 word) \<noteq> 0"
    by simp
  have top: "bit (0x8000000000000000 :: 64 word) 63"
    by (simp add: bit_iff_odd)
  have digit: "((0x8000000000000000 :: 64 word) XOR signed_drop_bit 63 0x8000000000000000)
      - signed_drop_bit 63 0x8000000000000000 = 0x8000000000000000"
    unfolding signed_drop_bit_63 by (simp only: top if_True) simp
  note b = bigint_boxing [OF is64, of kSigned example_factory example_heap
      kDontCheckForMinusZero example_effects "0x8000000000000000"]
  have box: "ReduceConvertToObject example_target example_factory example_heap
     (Word64 0x8000000000000000) ConvertToObject_kBigInt Rep_Word64 kSigned
     kDontCheckForMinusZero example_effects
   = Value (HeapObject 1001,
       \<lparr>next_object = 1002,
        operations =
          bigint_box example_target example_factory (HeapObject 1000) 0 None @
          bigint_box example_target example_factory (HeapObject 1001) 3
            (Some 0x8000000000000000)\<rparr>)"
    using b nz by (simp only: digit neg if_True) (simp add: example_effects_def)
  show ?thesis
    using box by (simp add: decode_bitfield_3)
qed

text \<open>
  C6 as stated fails for the unsigned input 0: it is not stored with the length 1 and the
  digit 0, but as the canonical zero, with the length 0 and no digit.
\<close>

theorem bigint_boxing_counterexample:
  "ReduceConvertToObject example_target example_factory example_heap (Word64 0)
     ConvertToObject_kBigInt Rep_Word64 kUnsigned kDontCheckForMinusZero example_effects
   = Value (HeapObject 1000,
       \<lparr>next_object = 1001,
        operations =
          [AllocateOp (HeapObject 1000) (BigInt_SizeFor 0) kYoung,
           StoreFieldOp (HeapObject 1000) ForMap (TaggedValue (HeapObject 1)),
           StoreFieldOp (HeapObject 1000) ForBigIntBitfield (Word32 0)]\<rparr>) \<and>
   LengthBits_decode 0 \<noteq> 1"
proof -
  have is64: "Is64 example_target"
    by (simp add: example_target_def)
  have "ReduceConvertToObject example_target example_factory example_heap (Word64 0)
     ConvertToObject_kBigInt Rep_Word64 kUnsigned kDontCheckForMinusZero example_effects
   = Value (HeapObject (next_object example_effects),
       example_effects\<lparr>next_object := Suc (next_object example_effects),
         operations := operations example_effects @
           bigint_box example_target example_factory
             (HeapObject (next_object example_effects)) 0 None\<rparr>)"
    using is64 by (intro ConvertToObject_BigInt_zero) simp_all
  moreover have "LengthBits_decode 0 \<noteq> 1"
    by (simp add: LengthBits_decode_def BitField_decode_def)
  ultimately show ?thesis
    by (simp add: example_effects_def bigint_box_def example_target_def example_factory_def)
qed

text \<open>
  C7, as amended. For a code point from 0x10000 to 0x10FFFF boxed to a string: the subgraph
  allocates a buffer for two units, zeroes its trailing padding word first, stores the map,
  the empty hash, the length 2 and then one 32-bit word that packs the lead unit
  \<open>(cp >> 10) + (0xD800 - (0x10000 >> 10))\<close> and the trail unit
  \<open>(cp AND 0x3FF) + 0xDC00\<close> in the byte order of the target, so that the lead unit is the
  first unit in memory. Both units are surrogates, and the stored pair decoded by
  \<open>(high - 0xDC00) OR ((low - (0xD800 - (0x10000 >> 10))) << 10)\<close> gives back the code
  point; the specification's formula adds 0x10000 to this and is off by that much.
\<close>

theorem surrogate_pair_boxing:
  assumes "0x10000 \<le> cp" and "cp \<le> 0x10FFFF"
    and "lead = drop_bit 10 cp + (0xD800 - drop_bit 10 0x10000)"
    and "trail = (cp AND 0x3FF) + 0xDC00"
    and "code = (if V8_TARGET_BIG_ENDIAN t then push_bit 16 lead OR trail
                 else push_bit 16 trail OR lead)"
  shows "ReduceConvertToObject t f h (Word32 cp) ConvertToObject_kString rep kCodePoint mz s =
     Value (HeapObject (next_object s),
       s\<lparr>next_object := Suc (next_object s),
         operations := operations s @
           [AllocateOp (HeapObject (next_object s)) (SeqTwoByteString_SizeFor 2) kYoung,
            StoreOp (HeapObject (next_object s)) (IntPtrConstant t 0) Mem_TaggedSigned
              (SeqTwoByteString_SizeFor_minus_kObjectAlignment 2),
            StoreFieldOp (HeapObject (next_object s)) ForMap (TaggedValue (string_map f)),
            StoreFieldOp (HeapObject (next_object s)) ForNameRawHashField
              (Word32 (Name_kEmptyHashField t)),
            StoreFieldOp (HeapObject (next_object s)) ForStringLength (Word32 2),
            StoreOp (HeapObject (next_object s)) (Word32 code) Mem_Uint32
              SeqTwoByteString_kHeaderSize]\<rparr>) \<and>
    first_unit t code = lead \<and> second_unit t code = trail \<and>
    0xD800 \<le> lead \<and> lead \<le> 0xDBFF \<and> 0xDC00 \<le> trail \<and> trail \<le> 0xDFFF \<and>
    surrogate_decode (first_unit t code) (second_unit t code) = cp \<and>
    spec_surrogate_decode (first_unit t code) (second_unit t code) = cp + 0x10000"
proof -
  have lead: "lead = drop_bit 10 cp + 0xD7C0"
    by (simp only: assms(3) lead_offset)
  note bounds = surrogate_bounds [OF assms(1,2)]
  have l1: "0xD800 \<le> lead" and l2: "lead \<le> 0xDBFF"
    unfolding lead by (rule bounds)+
  have t1: "0xDC00 \<le> trail" and t2: "trail \<le> 0xDFFF"
    unfolding assms(4) by (rule bounds)+
  from l2 have l16: "lead \<le> 0xFFFF" by (rule order_trans) simp
  from t2 have t16: "trail \<le> 0xFFFF" by (rule order_trans) simp
  have f: "first_unit t code = lead"
    using split_units [OF l16 t16] split_units [OF t16 l16]
    by (simp add: first_unit_def assms(5))
  have g: "second_unit t code = trail"
    using split_units [OF l16 t16] split_units [OF t16 l16]
    by (simp add: second_unit_def assms(5))
  have dec: "surrogate_decode (first_unit t code) (second_unit t code) = cp"
    unfolding f g lead assms(4) by (rule surrogate_decode_inverse)
  have off: "spec_surrogate_decode (first_unit t code) (second_unit t code) = cp + 0x10000"
    unfolding f g lead assms(4) by (rule spec_surrogate_decode_off)
  have box: "ReduceConvertToObject t f h (Word32 cp) ConvertToObject_kString rep kCodePoint mz s =
     Value (HeapObject (next_object s),
       s\<lparr>next_object := Suc (next_object s),
         operations := operations s @
           [AllocateOp (HeapObject (next_object s)) (SeqTwoByteString_SizeFor 2) kYoung,
            StoreOp (HeapObject (next_object s)) (IntPtrConstant t 0) Mem_TaggedSigned
              (SeqTwoByteString_SizeFor_minus_kObjectAlignment 2),
            StoreFieldOp (HeapObject (next_object s)) ForMap (TaggedValue (string_map f)),
            StoreFieldOp (HeapObject (next_object s)) ForNameRawHashField
              (Word32 (Name_kEmptyHashField t)),
            StoreFieldOp (HeapObject (next_object s)) ForStringLength (Word32 2),
            StoreOp (HeapObject (next_object s)) (Word32 code) Mem_Uint32
              SeqTwoByteString_kHeaderSize]\<rparr>)"
    unfolding assms(5) lead assms(4)
    by (rule ConvertToObject_String_surrogates [OF assms(1)])
  show ?thesis
    by (intro conjI) (rule box f g l1 l2 t1 t2 dec off)+
qed

theorem surrogate_pair_boxing_witness:
  "ReduceConvertToObject example_target example_factory example_heap (Word32 0x1F600)
     ConvertToObject_kString Rep_Word32 kCodePoint kDontCheckForMinusZero example_effects
   = Value (HeapObject 1000,
       \<lparr>next_object = 1001,
        operations =
          [AllocateOp (HeapObject 1000) (SeqTwoByteString_SizeFor 2) kYoung,
           StoreOp (HeapObject 1000) (Word64 0) Mem_TaggedSigned
             (SeqTwoByteString_SizeFor_minus_kObjectAlignment 2),
           StoreFieldOp (HeapObject 1000) ForMap (TaggedValue (HeapObject 4)),
           StoreFieldOp (HeapObject 1000) ForNameRawHashField (Word32 3),
           StoreFieldOp (HeapObject 1000) ForStringLength (Word32 2),
           StoreOp (HeapObject 1000) (Word32 0xDE00D83D) Mem_Uint32
             SeqTwoByteString_kHeaderSize]\<rparr>) \<and>
   first_unit example_target 0xDE00D83D = 0xD83D \<and>
   second_unit example_target 0xDE00D83D = 0xDE00 \<and>
   surrogate_decode (first_unit example_target 0xDE00D83D)
     (second_unit example_target 0xDE00D83D) = 0x1F600"
proof -
  have lo: "(0x10000 :: 32 word) \<le> 0x1F600" by simp
  have hi: "(0x1F600 :: 32 word) \<le> 0x10FFFF" by simp
  have lead: "(0xD83D :: 32 word) = drop_bit 10 0x1F600 + (0xD800 - drop_bit 10 0x10000)"
    by (simp add: drop_bit_eq_div)
  have trail: "(0xDE00 :: 32 word) = (0x1F600 AND 0x3FF) + 0xDC00"
    by simp
  have code: "(0xDE00D83D :: 32 word)
      = (if V8_TARGET_BIG_ENDIAN example_target then push_bit 16 0xD83D OR 0xDE00
         else push_bit 16 0xDE00 OR 0xD83D)"
    by (simp add: example_target_def)
  note w = surrogate_pair_boxing [of "0x1F600" "0xD83D" "0xDE00" "0xDE00D83D" example_target
      example_factory example_heap Rep_Word32 kDontCheckForMinusZero example_effects,
      OF lo hi lead trail code]
  have box: "Value (HeapObject (next_object example_effects),
       example_effects\<lparr>next_object := Suc (next_object example_effects),
         operations := operations example_effects @
           [AllocateOp (HeapObject (next_object example_effects)) (SeqTwoByteString_SizeFor 2)
              kYoung,
            StoreOp (HeapObject (next_object example_effects)) (IntPtrConstant example_target 0)
              Mem_TaggedSigned (SeqTwoByteString_SizeFor_minus_kObjectAlignment 2),
            StoreFieldOp (HeapObject (next_object example_effects)) ForMap
              (TaggedValue (string_map example_factory)),
            StoreFieldOp (HeapObject (next_object example_effects)) ForNameRawHashField
              (Word32 (Name_kEmptyHashField example_target)),
            StoreFieldOp (HeapObject (next_object example_effects)) ForStringLength (Word32 2),
            StoreOp (HeapObject (next_object example_effects)) (Word32 0xDE00D83D) Mem_Uint32
              SeqTwoByteString_kHeaderSize]\<rparr>)
   = Value (HeapObject 1000,
       \<lparr>next_object = 1001,
        operations =
          [AllocateOp (HeapObject 1000) (SeqTwoByteString_SizeFor 2) kYoung,
           StoreOp (HeapObject 1000) (Word64 0) Mem_TaggedSigned
             (SeqTwoByteString_SizeFor_minus_kObjectAlignment 2),
           StoreFieldOp (HeapObject 1000) ForMap (TaggedValue (HeapObject 4)),
           StoreFieldOp (HeapObject 1000) ForNameRawHashField (Word32 3),
           StoreFieldOp (HeapObject 1000) ForStringLength (Word32 2),
           StoreOp (HeapObject 1000) (Word32 0xDE00D83D) Mem_Uint32
             SeqTwoByteString_kHeaderSize]\<rparr>)"
    by (simp add: example_effects_def example_factory_def example_target_def
        IntPtrConstant_def)
  from w show ?thesis
    unfolding box by blast
qed

text \<open>
  C7 as stated fails at the code point 0x1F600: the pair the subgraph stores, decoded by the
  specification's formula, gives 0x2F600.
\<close>

theorem surrogate_pair_decode_counterexample:
  "first_unit example_target 0xDE00D83D = 0xD83D \<and>
   second_unit example_target 0xDE00D83D = 0xDE00 \<and>
   spec_surrogate_decode 0xD83D 0xDE00 = 0x2F600 \<and>
   (0x2F600 :: 32 word) \<noteq> 0x1F600"
  by (simp add: first_unit_def second_unit_def example_target_def spec_surrogate_decode_def
      drop_bit_eq_div)

text \<open>
  C10. A string boxed from a char code depends on the low 16 bits of the input only: two
  inputs congruent modulo \<open>2 ^ 16\<close> give the same result, which is the result for the low
  16 bits themselves; and when the low 16 bits are at most the largest one-byte char code,
  the result is the entry of the table of single character strings at that index, with
  nothing allocated (the effects are unchanged).
\<close>

theorem char_code_uses_low_16_bits:
  "(unat v mod 65536 = unat w mod 65536 \<longrightarrow>
      ReduceConvertToObject t f h (Word32 v) ConvertToObject_kString rep kCharCode mz s
      = ReduceConvertToObject t f h (Word32 w) ConvertToObject_kString rep kCharCode mz s) \<and>
   (ReduceConvertToObject t f h (Word32 v) ConvertToObject_kString rep kCharCode mz s
      = ReduceConvertToObject t f h (Word32 (v AND 0xFFFF)) ConvertToObject_kString rep kCharCode
          mz s) \<and>
   (v AND 0xFFFF \<le> kMaxOneByteCharCode t \<longrightarrow>
      ReduceConvertToObject t f h (Word32 v) ConvertToObject_kString rep kCharCode mz s
      = Value (ForFixedArrayElement h (single_character_string_table f) (unat v mod 65536), s))"
proof (intro conjI impI)
  assume "unat v mod 65536 = unat w mod 65536"
  then have "v AND 0xFFFF = w AND 0xFFFF" by (rule congruent_low_bits)
  then show "ReduceConvertToObject t f h (Word32 v) ConvertToObject_kString rep kCharCode mz s
      = ReduceConvertToObject t f h (Word32 w) ConvertToObject_kString rep kCharCode mz s"
    by (simp only: ConvertToObject_String_char_code)
next
  have "(v AND 0xFFFF) AND 0xFFFF = v AND 0xFFFF"
    by (simp add: and_FFFF)
  then show "ReduceConvertToObject t f h (Word32 v) ConvertToObject_kString rep kCharCode mz s
      = ReduceConvertToObject t f h (Word32 (v AND 0xFFFF)) ConvertToObject_kString rep kCharCode
          mz s"
    by (simp only: ConvertToObject_String_char_code)
next
  assume "v AND 0xFFFF \<le> kMaxOneByteCharCode t"
  then show "ReduceConvertToObject t f h (Word32 v) ConvertToObject_kString rep kCharCode mz s
      = Value (ForFixedArrayElement h (single_character_string_table f) (unat v mod 65536), s)"
    by (simp add: ConvertToObject_String_char_code ConvertToObject_single_code_def
        Uint32LessThanOrEqual_def Let_def low_16_bits)
qed

theorem char_code_uses_low_16_bits_witness:
  "unat (0x10041 :: 32 word) mod 65536 = unat (0x41 :: 32 word) mod 65536 \<and>
   ReduceConvertToObject example_target example_factory example_heap (Word32 0x10041)
     ConvertToObject_kString Rep_Word32 kCharCode kDontCheckForMinusZero example_effects
   = ReduceConvertToObject example_target example_factory example_heap (Word32 0x41)
       ConvertToObject_kString Rep_Word32 kCharCode kDontCheckForMinusZero example_effects \<and>
   ReduceConvertToObject example_target example_factory example_heap (Word32 0x10041)
     ConvertToObject_kString Rep_Word32 kCharCode kDontCheckForMinusZero example_effects
   = Value (HeapObject 165, example_effects)"
proof -
  have cong: "unat (0x10041 :: 32 word) mod 65536 = unat (0x41 :: 32 word) mod 65536"
    by simp
  have one_byte: "(0x10041 :: 32 word) AND 0xFFFF \<le> kMaxOneByteCharCode example_target"
    by (simp add: example_target_def)
  note w = char_code_uses_low_16_bits [of "0x10041" "0x41" example_target example_factory
      example_heap Rep_Word32 kDontCheckForMinusZero example_effects]
  have entry: "ForFixedArrayElement example_heap (single_character_string_table example_factory)
      (unat (0x10041 :: 32 word) mod 65536) = HeapObject 165"
    by (simp add: example_heap_def)
  from w cong one_byte show ?thesis
    unfolding entry by blast
qed

text \<open>
  C8. On a 64-bit target, for a heap object whose map is the map of float boxes, unboxed to an
  array index: the subgraph truncates the float to a 64-bit integer and deoptimizes with the
  reason lost precision or NaN unless the integer converted back to a float equals the
  input; it then deoptimizes with the reason not an array index unless the integer lies
  strictly between \<open>- (2 ^ 53 - 1)\<close> and \<open>2 ^ 53 - 1\<close>; otherwise it returns the truncated
  integer.
\<close>

theorem array_index_of_float_box:
  assumes "Is64 t" and "LoadMapField h (HeapObject a) = heap_number_map f"
  shows "ReduceConvertObjectToPrimitiveOrDeopt t f h (HeapObject a) fs ObjectKind_kNumberOrString
       PrimitiveKind_kArrayIndex mz fb =
     (let v = LoadField_Float64 h (HeapObject a) ForHeapNumberValue;
          i64 = TruncateFloat64ToInt64OverflowUndefined t v
      in if Float64Equal (ChangeInt64ToFloat64 i64) v = 0
         then Deoptimize fs kLostPrecisionOrNaN fb
         else if \<not> (- 9007199254740991 < sint i64 \<and> sint i64 < 9007199254740991)
         then Deoptimize fs kNotAnArrayIndex fb
         else Value (Word64 i64))"
  using assms
  by (simp add: ReduceConvertObjectToPrimitiveOrDeopt_def ObjectIsSmi_def TaggedEqual_def
      Let_def DeoptimizeIfNot_def Int64LessThan_def sint_kMaxSafeInteger
      sint_minus_kMaxSafeInteger)

theorem array_index_of_float_box_witness:
  "ReduceConvertObjectToPrimitiveOrDeopt example_target example_factory example_heap
     (HeapObject 40) 7 ObjectKind_kNumberOrString PrimitiveKind_kArrayIndex
     kDontCheckForMinusZero 9 = Deoptimize 7 kLostPrecisionOrNaN 9 \<and>
   ReduceConvertObjectToPrimitiveOrDeopt example_target example_factory example_heap
     (HeapObject 41) 7 ObjectKind_kNumberOrString PrimitiveKind_kArrayIndex
     kDontCheckForMinusZero 9 = Value (Word64 9007199254740990) \<and>
   ReduceConvertObjectToPrimitiveOrDeopt example_target example_factory example_heap
     (HeapObject 42) 7 ObjectKind_kNumberOrString PrimitiveKind_kArrayIndex
     kDontCheckForMinusZero 9 = Deoptimize 7 kNotAnArrayIndex 9"
proof -
  have is64: "Is64 example_target"
    by (simp add: example_target_def)
  have m: "LoadMapField example_heap (HeapObject 40) = heap_number_map example_factory"
    "LoadMapField example_heap (HeapObject 41) = heap_number_map example_factory"
    "LoadMapField example_heap (HeapObject 42) = heap_number_map example_factory"
    by (simp_all add: LoadMapField_def LoadField_Tagged_def example_heap_def example_factory_def)
  have v: "LoadField_Float64 example_heap (HeapObject 40) ForHeapNumberValue = 0x3FE0000000000000"
    "LoadField_Float64 example_heap (HeapObject 41) ForHeapNumberValue = 0x433FFFFFFFFFFFFE"
    "LoadField_Float64 example_heap (HeapObject 42) ForHeapNumberValue = 0x433FFFFFFFFFFFFF"
    by (simp_all add: LoadField_Float64_def example_heap_def)
  note w = array_index_of_float_box [OF is64 m(1), of 7 kDontCheckForMinusZero 9]
    array_index_of_float_box [OF is64 m(2), of 7 kDontCheckForMinusZero 9]
    array_index_of_float_box [OF is64 m(3), of 7 kDontCheckForMinusZero 9]
  show ?thesis
    unfolding w v Let_def Truncate64_examples ChangeInt64ToFloat64_examples
    by (simp add: ChangeInt64ToFloat64_def f64_of_int_def f64_of_nat_def Float64Equal_examples)
qed

text \<open>
  C9. The reduction of an array of floats is one pass over its elements from the first to
  the last: the minimum is the fold of \<^verbatim>\<open>Float64Min\<close> from plus infinity, the maximum the
  fold of \<^verbatim>\<open>Float64Max\<close> from minus infinity, and the result is boxed as a number from a
  signed float with the check for minus zero enabled. The maximum of the elements 3.0, -1.0
  and 7.5 is one float box holding 7.5.
\<close>

theorem array_min_max_is_a_fold:
  "ReduceDoubleArrayMinMax t f h array kMin s =
     ReduceConvertToObject t f h
       (Float64 (fold (\<lambda>element accumulator. Float64Min accumulator element)
          (array_elements t h array) V8_INFINITY))
       ConvertToObject_kNumber Rep_Float64 kSigned kCheckForMinusZero s \<and>
   ReduceDoubleArrayMinMax t f h array kMax s =
     ReduceConvertToObject t f h
       (Float64 (fold (\<lambda>element accumulator. Float64Max accumulator element)
          (array_elements t h array) minus_V8_INFINITY))
       ConvertToObject_kNumber Rep_Float64 kSigned kCheckForMinusZero s \<and>
   (array_elements t h array = [0x4008000000000000, 0xBFF0000000000000, 0x401E000000000000] \<longrightarrow>
      ReduceDoubleArrayMinMax t f h array kMax s =
        Value (HeapObject (next_object s),
          s\<lparr>next_object := Suc (next_object s),
            operations := operations s @
              [AllocateOp (HeapObject (next_object s)) HeapNumber_kSize kYoung,
               StoreFieldOp (HeapObject (next_object s)) ForMap
                 (TaggedValue (heap_number_map f)),
               StoreFieldOp (HeapObject (next_object s)) ForHeapNumberValue
                 (Float64 0x401E000000000000)]\<rparr>))"
proof (intro conjI impI)
  show "ReduceDoubleArrayMinMax t f h array kMin s =
     ReduceConvertToObject t f h
       (Float64 (fold (\<lambda>element accumulator. Float64Min accumulator element)
          (array_elements t h array) V8_INFINITY))
       ConvertToObject_kNumber Rep_Float64 kSigned kCheckForMinusZero s"
    by (simp add: ReduceDoubleArrayMinMax_fold)
  show max: "ReduceDoubleArrayMinMax t f h array kMax s =
     ReduceConvertToObject t f h
       (Float64 (fold (\<lambda>element accumulator. Float64Max accumulator element)
          (array_elements t h array) minus_V8_INFINITY))
       ConvertToObject_kNumber Rep_Float64 kSigned kCheckForMinusZero s"
    by (simp add: ReduceDoubleArrayMinMax_fold)
  assume "array_elements t h array
      = [0x4008000000000000, 0xBFF0000000000000, 0x401E000000000000]"
  then show "ReduceDoubleArrayMinMax t f h array kMax s =
        Value (HeapObject (next_object s),
          s\<lparr>next_object := Suc (next_object s),
            operations := operations s @
              [AllocateOp (HeapObject (next_object s)) HeapNumber_kSize kYoung,
               StoreFieldOp (HeapObject (next_object s)) ForMap
                 (TaggedValue (heap_number_map f)),
               StoreFieldOp (HeapObject (next_object s)) ForHeapNumberValue
                 (Float64 0x401E000000000000)]\<rparr>)"
    by (simp only: max max_of_array_example box_7_5)
qed

theorem array_min_max_is_a_fold_witness:
  "array_elements example_target example_heap (HeapObject 50)
     = [0x4008000000000000, 0xBFF0000000000000, 0x401E000000000000] \<and>
   ReduceDoubleArrayMinMax example_target example_factory example_heap (HeapObject 50) kMax
     example_effects =
   Value (HeapObject 1000,
     \<lparr>next_object = 1001,
      operations =
        [AllocateOp (HeapObject 1000) HeapNumber_kSize kYoung,
         StoreFieldOp (HeapObject 1000) ForMap (TaggedValue (HeapObject 2)),
         StoreFieldOp (HeapObject 1000) ForHeapNumberValue (Float64 0x401E000000000000)]\<rparr>)"
proof -
  have "[0 ..< 3] = [0, 1, 2 :: nat]"
    by (simp add: upt_rec)
  then have elements: "array_elements example_target example_heap (HeapObject 50)
     = [0x4008000000000000, 0xBFF0000000000000, 0x401E000000000000]"
    by (simp add: array_elements_def array_length_of_def LoadField_Tagged_def SmiUntag_def
        example_heap_def example_target_def)
  note w = array_min_max_is_a_fold [of example_target example_factory example_heap
      "HeapObject 50" example_effects]
  from w elements have "ReduceDoubleArrayMinMax example_target example_factory example_heap
      (HeapObject 50) kMax example_effects =
        Value (HeapObject (next_object example_effects),
          example_effects\<lparr>next_object := Suc (next_object example_effects),
            operations := operations example_effects @
              [AllocateOp (HeapObject (next_object example_effects)) HeapNumber_kSize kYoung,
               StoreFieldOp (HeapObject (next_object example_effects)) ForMap
                 (TaggedValue (heap_number_map example_factory)),
               StoreFieldOp (HeapObject (next_object example_effects)) ForHeapNumberValue
                 (Float64 0x401E000000000000)]\<rparr>)"
    by blast
  with elements show ?thesis
    by (simp add: example_effects_def example_factory_def)
qed

end
